theory Spec2Isabelle
  imports Complex_Main
begin

section \<open>Numbers and error reports\<close>

text \<open>
  The package computes in \<^verbatim>\<open>LDouble_t\<close> (long double) and \<^verbatim>\<open>Complex_t\<close>. They are
  modelled by the real and the complex numbers: arithmetic is exact, so rounding and
  overflow are outside this model. The non-finite values of the machine format are
  followed separately, through the amplitudes of the reaction functions, further below.
\<close>

type_synonym LDouble_t = real
type_synonym Complex_t = complex

text \<open>
  \<^verbatim>\<open>Error(location, message)\<close> prints a message and returns to the caller. A function that
  may call it returns its value together with the list of reports it made.
\<close>

datatype error_report = Error string string

section \<open>TFourVectorReal\<close>

text \<open>The array \<^verbatim>\<open>fVector[4]\<close>: time component first, then x, y, z.\<close>

datatype TFourVectorReal = TFourVectorReal LDouble_t LDouble_t LDouble_t LDouble_t

fun fVector :: "TFourVectorReal \<Rightarrow> nat \<Rightarrow> LDouble_t" where
  "fVector (TFourVectorReal t x y z) i =
     (if i = 0 then t else if i = 1 then x else if i = 2 then y else z)"

text \<open>
  Modelled from the spec: \<^verbatim>\<open>TThreeVectorReal::LengthSqr\<close> and \<^verbatim>\<open>Length\<close> are declared in
  TThreeVectorReal.h, which is not among the sources. The spec gives the invariant as
  \<open>t\<^sup>2 - x\<^sup>2 - y\<^sup>2 - z\<^sup>2\<close>, so the squared length is that of the three space components.
\<close>

definition LengthSqr :: "TFourVectorReal \<Rightarrow> LDouble_t" where
  "LengthSqr v = fVector v 1 * fVector v 1 + fVector v 2 * fVector v 2 + fVector v 3 * fVector v 3"

definition Length :: "TFourVectorReal \<Rightarrow> LDouble_t" where
  "Length v = sqrt (LengthSqr v)"

text \<open>
  \<^verbatim>\<open>fResolution\<close> is a static member of TThreeVectorReal whose value is not among the
  sources; it is the first argument of every function that reads it.
\<close>

definition Resolution :: "LDouble_t \<Rightarrow> TFourVectorReal \<Rightarrow> LDouble_t" where
  "Resolution fResolution v =
     (let scale = sqrt (fVector v 0 * fVector v 0 + LengthSqr v)
      in if scale > 0 then fResolution * scale else fResolution)"

definition op_index :: "TFourVectorReal \<Rightarrow> int \<Rightarrow> LDouble_t \<times> error_report list" where
  "op_index v index =
     (if index < 0 \<or> index > 3
      then (fVector v 0, [Error ''TFourVectorReal::operator[]'' ''index out of range''])
      else (fVector v (nat index), []))"

definition InvariantSqr :: "TFourVectorReal \<Rightarrow> LDouble_t" where
  "InvariantSqr v = fVector v 0 * fVector v 0 - LengthSqr v"

definition Invariant :: "LDouble_t \<Rightarrow> TFourVectorReal \<Rightarrow> LDouble_t \<times> error_report list" where
  "Invariant fResolution v =
     (let inv2 = InvariantSqr v
      in if inv2 > 0 then (sqrt inv2, [])
         else if inv2 > - Resolution fResolution v then (0, [])
         else (- 1, [Error ''TFourVectorReal::Invariant()''
                           ''invoked on a vector with negative norm'']))"

definition DistanceTo :: "TFourVectorReal \<Rightarrow> TFourVectorReal \<Rightarrow> LDouble_t" where
  "DistanceTo v vec2 =
     (let t = fVector v 0 - fVector vec2 0;
          x = fVector v 1 - fVector vec2 1;
          y = fVector v 2 - fVector vec2 2;
          z = fVector v 3 - fVector vec2 3
      in sqrt (t * t + x * x + y * y + z * z))"

definition op_plus_assign :: "TFourVectorReal \<Rightarrow> TFourVectorReal \<Rightarrow> TFourVectorReal" where
  "op_plus_assign v source =
     TFourVectorReal (fVector v 0 + fVector source 0) (fVector v 1 + fVector source 1)
                     (fVector v 2 + fVector source 2) (fVector v 3 + fVector source 3)"

definition op_minus_assign :: "TFourVectorReal \<Rightarrow> TFourVectorReal \<Rightarrow> TFourVectorReal" where
  "op_minus_assign v source =
     TFourVectorReal (fVector v 0 - fVector source 0) (fVector v 1 - fVector source 1)
                     (fVector v 2 - fVector source 2) (fVector v 3 - fVector source 3)"

text \<open>The binary operators copy their first argument and update the copy.\<close>

definition op_plus :: "TFourVectorReal \<Rightarrow> TFourVectorReal \<Rightarrow> TFourVectorReal" where
  "op_plus v1 v2 = (let result = v1 in op_plus_assign result v2)"

definition op_minus :: "TFourVectorReal \<Rightarrow> TFourVectorReal \<Rightarrow> TFourVectorReal" where
  "op_minus v1 v2 = (let result = v1 in op_minus_assign result v2)"

definition op_eq :: "LDouble_t \<Rightarrow> TFourVectorReal \<Rightarrow> TFourVectorReal \<Rightarrow> bool" where
  "op_eq fResolution v other \<longleftrightarrow> DistanceTo v other < Resolution fResolution v"

definition op_neq :: "LDouble_t \<Rightarrow> TFourVectorReal \<Rightarrow> TFourVectorReal \<Rightarrow> bool" where
  "op_neq fResolution v other \<longleftrightarrow> \<not> op_eq fResolution v other"

definition ScalarProd :: "TFourVectorReal \<Rightarrow> TFourVectorReal \<Rightarrow> LDouble_t" where
  "ScalarProd v other =
     fVector v 0 * fVector other 0 - fVector v 1 * fVector other 1
       - fVector v 2 * fVector other 2 - fVector v 3 * fVector other 3"

section \<open>Rounded arithmetic\<close>

text \<open>
  In the code every product, sum and difference of \<^verbatim>\<open>LDouble_t\<close> values is the exact result
  rounded to the machine format, so two expressions that are equal over the reals and
  differ in their grouping may deliver different values. Where a property depends on this,
  the expression is written a second time with a rounding function \<open>fl\<close> applied after each
  operation, in the order in which the source evaluates it. With the identity for \<open>fl\<close>
  this is the exact expression.

  The format behind \<^verbatim>\<open>LDouble_t\<close> is fixed in Double.h, which is not among the sources.
  \<open>round_to p\<close> is rounding to the nearest binary number with a significand of \<open>p\<close> bits,
  ties going to the even significand, with an unbounded exponent (no overflow, no
  underflow): \<open>p = 53\<close> is the IEEE double format and \<open>p = 64\<close> the x87 extended format of
  long double.
\<close>

definition round_half_even :: "real \<Rightarrow> int" where
  "round_half_even y =
     (let n = \<lfloor>y\<rfloor>; r = y - of_int n
      in if r < 1 / 2 then n else if 1 / 2 < r then n + 1 else if even n then n else n + 1)"

definition round_to :: "nat \<Rightarrow> real \<Rightarrow> real" where
  "round_to p x =
     (if x = 0 then 0
      else let ulp = 2 powi (\<lfloor>log 2 \<bar>x\<bar>\<rfloor> - int p + 1)
           in of_int (round_half_even (x / ulp)) * ulp)"

text \<open>
  Modelled from the spec: the body of \<^verbatim>\<open>LengthSqr\<close> is in the absent TThreeVectorReal.h; the
  three squares are taken to be added from left to right.
\<close>

definition LengthSqr_rounded :: "(LDouble_t \<Rightarrow> LDouble_t) \<Rightarrow> TFourVectorReal \<Rightarrow> LDouble_t" where
  "LengthSqr_rounded fl v =
     fl (fl (fl (fVector v 1 * fVector v 1) + fl (fVector v 2 * fVector v 2))
           + fl (fVector v 3 * fVector v 3))"

definition InvariantSqr_rounded :: "(LDouble_t \<Rightarrow> LDouble_t) \<Rightarrow> TFourVectorReal \<Rightarrow> LDouble_t" where
  "InvariantSqr_rounded fl v = fl (fl (fVector v 0 * fVector v 0) - LengthSqr_rounded fl v)"

definition ScalarProd_rounded ::
  "(LDouble_t \<Rightarrow> LDouble_t) \<Rightarrow> TFourVectorReal \<Rightarrow> TFourVectorReal \<Rightarrow> LDouble_t" where
  "ScalarProd_rounded fl v other =
     fl (fl (fl (fl (fVector v 0 * fVector other 0) - fl (fVector v 1 * fVector other 1))
               - fl (fVector v 2 * fVector other 2))
           - fl (fVector v 3 * fVector other 3))"

text \<open>The comparison of two four-vectors, with the library's square root correctly rounded.\<close>

definition DistanceTo_rounded ::
  "(LDouble_t \<Rightarrow> LDouble_t) \<Rightarrow> TFourVectorReal \<Rightarrow> TFourVectorReal \<Rightarrow> LDouble_t" where
  "DistanceTo_rounded fl v vec2 =
     (let t = fl (fVector v 0 - fVector vec2 0);
          x = fl (fVector v 1 - fVector vec2 1);
          y = fl (fVector v 2 - fVector vec2 2);
          z = fl (fVector v 3 - fVector vec2 3)
      in fl (sqrt (fl (fl (fl (fl (t * t) + fl (x * x)) + fl (y * y)) + fl (z * z)))))"

definition Resolution_rounded ::
  "(LDouble_t \<Rightarrow> LDouble_t) \<Rightarrow> LDouble_t \<Rightarrow> TFourVectorReal \<Rightarrow> LDouble_t" where
  "Resolution_rounded fl fResolution v =
     (let scale = fl (sqrt (fl (fl (fVector v 0 * fVector v 0) + LengthSqr_rounded fl v)))
      in if scale > 0 then fl (fResolution * scale) else fResolution)"

definition op_eq_rounded ::
  "(LDouble_t \<Rightarrow> LDouble_t) \<Rightarrow> LDouble_t \<Rightarrow> TFourVectorReal \<Rightarrow> TFourVectorReal \<Rightarrow> bool" where
  "op_eq_rounded fl fResolution v other \<longleftrightarrow>
     DistanceTo_rounded fl v other < Resolution_rounded fl fResolution v"

section \<open>Dirac algebra and particles\<close>

text \<open>
  Modelled from the spec: the classes TDiracMatrix, TDiracSpinor, TFourVectorComplex,
  TPauliMatrix, TPhoton and TLepton are used by TCrossSection.cxx and are not among the
  sources. A Dirac matrix is a 4 by 4 complex array and a spinor a 4-component complex
  column, both read as functions of their indices; a spin-density matrix is a 2 by 2
  complex array; a photon carries a four-momentum and a spin-density matrix, a lepton a
  four-momentum, a mass and a spin-density matrix. Matrices add entry by entry and compose
  by ordinary matrix multiplication; adding a scalar adds it on the diagonal, which is how
  \<open>Slash(p) + mass\<close> builds a propagator numerator.
\<close>

type_synonym TDiracMatrix = "nat \<Rightarrow> nat \<Rightarrow> Complex_t"
type_synonym TDiracSpinor = "nat \<Rightarrow> Complex_t"
type_synonym TPauliMatrix = "nat \<Rightarrow> nat \<Rightarrow> Complex_t"

datatype TFourVectorComplex = TFourVectorComplex Complex_t Complex_t Complex_t Complex_t

fun fVectorC :: "TFourVectorComplex \<Rightarrow> nat \<Rightarrow> Complex_t" where
  "fVectorC (TFourVectorComplex t x y z) i =
     (if i = 0 then t else if i = 1 then x else if i = 2 then y else z)"

record TPhoton =
  Mom :: TFourVectorReal
  SDM :: TPauliMatrix

record TLepton =
  Mom :: TFourVectorReal
  Mass :: LDouble_t
  SDM :: TPauliMatrix

definition dm_plus :: "TDiracMatrix \<Rightarrow> TDiracMatrix \<Rightarrow> TDiracMatrix" where
  "dm_plus A B = (\<lambda>i j. A i j + B i j)"

definition dm_times :: "TDiracMatrix \<Rightarrow> TDiracMatrix \<Rightarrow> TDiracMatrix" where
  "dm_times A B = (\<lambda>i j. A i 0 * B 0 j + A i 1 * B 1 j + A i 2 * B 2 j + A i 3 * B 3 j)"

definition dm_plus_scalar :: "TDiracMatrix \<Rightarrow> LDouble_t \<Rightarrow> TDiracMatrix" where
  "dm_plus_scalar A c = (\<lambda>i j. if i = j then A i j + of_real c else A i j)"

definition dm_times_scalar :: "TDiracMatrix \<Rightarrow> LDouble_t \<Rightarrow> TDiracMatrix" where
  "dm_times_scalar A c = (\<lambda>i j. A i j * of_real c)"

definition dm_div_scalar :: "TDiracMatrix \<Rightarrow> LDouble_t \<Rightarrow> TDiracMatrix" where
  "dm_div_scalar A c = (\<lambda>i j. A i j / of_real c)"

definition dm_apply :: "TDiracMatrix \<Rightarrow> TDiracSpinor \<Rightarrow> TDiracSpinor" where
  "dm_apply A u = (\<lambda>i. A i 0 * u 0 + A i 1 * u 1 + A i 2 * u 2 + A i 3 * u 3)"

text \<open>
  What the spec leaves to the absent classes is a parameter of the model: the four basis
  matrices \<^verbatim>\<open>kDiracGamma0\<close> .. \<^verbatim>\<open>kDiracGamma3\<close>, the spinor solutions \<^verbatim>\<open>SetStateU\<close> and
  \<^verbatim>\<open>SetStateV\<close>, the spinor product \<^verbatim>\<open>TDiracSpinor::ScalarProd\<close>, the photon polarisation
  vectors \<^verbatim>\<open>Eps\<close> and \<^verbatim>\<open>EpsStar\<close>, and the constants \<^verbatim>\<open>hbarcSqr\<close> and \<^verbatim>\<open>alphaQED\<close>.
\<close>

record Dirac_package =
  kDiracGamma :: "nat \<Rightarrow> TDiracMatrix"
  SetStateU :: "TFourVectorReal \<Rightarrow> LDouble_t \<Rightarrow> TDiracSpinor"
  SetStateV :: "TFourVectorReal \<Rightarrow> LDouble_t \<Rightarrow> TDiracSpinor"
  SpinorScalarProd :: "TDiracSpinor \<Rightarrow> TDiracSpinor \<Rightarrow> Complex_t"
  Eps :: "TPhoton \<Rightarrow> nat \<Rightarrow> TFourVectorComplex"
  EpsStar :: "TPhoton \<Rightarrow> nat \<Rightarrow> TFourVectorComplex"
  hbarcSqr :: LDouble_t
  alphaQED :: LDouble_t

text \<open>
  Modelled from the spec: \<open>Slash(p)\<close> is the sum over \<open>\<mu>\<close> of \<open>g\<^sup>\<mu>\<^sup>\<mu> \<gamma>\<^sub>\<mu> p\<^sub>\<mu>\<close> with the metric
  signature (+,-,-,-), for a real and for a complex four-vector.
\<close>

definition Slash :: "Dirac_package \<Rightarrow> TFourVectorReal \<Rightarrow> TDiracMatrix" where
  "Slash pkg p = (\<lambda>i j.
      kDiracGamma pkg 0 i j * of_real (fVector p 0) - kDiracGamma pkg 1 i j * of_real (fVector p 1)
    - kDiracGamma pkg 2 i j * of_real (fVector p 2) - kDiracGamma pkg 3 i j * of_real (fVector p 3))"

definition SlashC :: "Dirac_package \<Rightarrow> TFourVectorComplex \<Rightarrow> TDiracMatrix" where
  "SlashC pkg p = (\<lambda>i j.
      kDiracGamma pkg 0 i j * fVectorC p 0 - kDiracGamma pkg 1 i j * fVectorC p 1
    - kDiracGamma pkg 2 i j * fVectorC p 2 - kDiracGamma pkg 3 i j * fVectorC p 3)"

section \<open>TCrossSection\<close>

text \<open>The constant \<^verbatim>\<open>PI_ = 2*atan2(1.,0.)\<close>.\<close>

definition PI_value :: LDouble_t where
  "PI_value = 2 * (pi / 2)"

definition sqr :: "LDouble_t \<Rightarrow> LDouble_t" where
  "sqr x = x * x"

text \<open>A counted loop \<^verbatim>\<open>for (i = 0; i < n; i++)\<close> whose body updates an accumulator.\<close>

definition for_loop :: "nat \<Rightarrow> (nat \<Rightarrow> 'a \<Rightarrow> 'a) \<Rightarrow> 'a \<Rightarrow> 'a" where
  "for_loop n body acc = fold body [0..<n] acc"

text \<open>
  A function body as a sequence of statements, one of which may return: \<open>Return r\<close> once
  a \<^verbatim>\<open>return\<close> has been executed, \<open>Running\<close> while control is still in the body.
  Sequencing runs the second statement only when the first did not return.
\<close>

datatype 'a control = Return 'a | Running

definition then_do :: "'a control \<Rightarrow> 'a control \<Rightarrow> 'a control" where
  "then_do first rest = (case first of Return r \<Rightarrow> Return r | Running \<Rightarrow> rest)"

text \<open>The two-element spinor arrays, index 0 for helicity +1/2 and 1 for -1/2.\<close>

definition stateU :: "Dirac_package \<Rightarrow> TFourVectorReal \<Rightarrow> nat \<Rightarrow> TDiracSpinor" where
  "stateU pkg p h = (if h = 0 then SetStateU pkg p (1 / 2) else SetStateU pkg p (- (1 / 2)))"

definition stateV :: "Dirac_package \<Rightarrow> TFourVectorReal \<Rightarrow> nat \<Rightarrow> TDiracSpinor" where
  "stateV pkg p h = (if h = 0 then SetStateV pkg p (1 / 2) else SetStateV pkg p (- (1 / 2)))"

text \<open>Component access \<^verbatim>\<open>p[i]\<close> as the reaction functions use it (the report list is dropped).\<close>

definition component :: "TFourVectorReal \<Rightarrow> int \<Rightarrow> LDouble_t" where
  "component p i = fst (op_index p i)"

subsection \<open>Compton\<close>

text \<open>
  The array \<^verbatim>\<open>invAmp[hi][hf][gi][gf]\<close>; every cell is assigned once by the loops over
  \<open>gi\<close>, \<open>gf\<close>, \<open>hi\<close>, \<open>hf\<close>, so the array is the function of its four indices.
\<close>

definition Compton_invAmp ::
  "Dirac_package \<Rightarrow> TPhoton \<Rightarrow> TLepton \<Rightarrow> TPhoton \<Rightarrow> TLepton
     \<Rightarrow> nat \<Rightarrow> nat \<Rightarrow> nat \<Rightarrow> nat \<Rightarrow> Complex_t" where
  "Compton_invAmp pkg gI eI gF eF hi hf gi gf =
     (let uI = stateU pkg (TLepton.Mom eI);
          uF = stateU pkg (TLepton.Mom eF);
          mLepton = Mass eI;
          edenom1 = 2 * ScalarProd (TLepton.Mom eI) (TPhoton.Mom gI);
          edenom2 = - 2 * ScalarProd (TLepton.Mom eI) (TPhoton.Mom gF);
          ePropagator1 = dm_div_scalar
             (dm_plus_scalar (Slash pkg (op_plus (TLepton.Mom eI) (TPhoton.Mom gI))) mLepton) edenom1;
          ePropagator2 = dm_div_scalar
             (dm_plus_scalar (Slash pkg (op_minus (TLepton.Mom eI) (TPhoton.Mom gF))) mLepton) edenom2;
          epsI = SlashC pkg (Eps pkg gI (gi + 1));
          epsF = SlashC pkg (EpsStar pkg gF (gf + 1));
          D = dm_plus (dm_times (dm_times epsF ePropagator1) epsI)
                      (dm_times (dm_times epsI ePropagator2) epsF)
      in SpinorScalarProd pkg (uF hf) (dm_apply D (uI hi)))"

definition Compton_ampSquared ::
  "(nat \<Rightarrow> nat \<Rightarrow> nat \<Rightarrow> nat \<Rightarrow> Complex_t) \<Rightarrow> TPhoton \<Rightarrow> TLepton \<Rightarrow> TPhoton \<Rightarrow> TLepton
     \<Rightarrow> Complex_t" where
  "Compton_ampSquared invAmp gI eI gF eF =
     for_loop 2 (\<lambda>gi. for_loop 2 (\<lambda>gibar. for_loop 2 (\<lambda>gf. for_loop 2 (\<lambda>gfbar.
     for_loop 2 (\<lambda>hi. for_loop 2 (\<lambda>hibar. for_loop 2 (\<lambda>hf. for_loop 2 (\<lambda>hfbar ampSquared.
       ampSquared + invAmp hi hf gi gf * cnj (invAmp hibar hfbar gibar gfbar)
                    * TLepton.SDM eI hi hibar * TLepton.SDM eF hfbar hf
                    * TPhoton.SDM gI gi gibar * TPhoton.SDM gF gfbar gf)))))))) 0"

definition Compton_kinFactor :: "TPhoton \<Rightarrow> TLepton \<Rightarrow> TPhoton \<Rightarrow> TLepton \<Rightarrow> LDouble_t" where
  "Compton_kinFactor gI eI gF eF =
     (let fluxIn = 4 * component (TPhoton.Mom gI) 0 * (Length (TLepton.Mom eI) + component (TLepton.Mom eI) 0);
          rhoFin = sqr (component (TPhoton.Mom gF) 0) / ScalarProd (TLepton.Mom eF) (TPhoton.Mom gF) / 4
      in 4 * rhoFin / fluxIn)"

text \<open>
  The whole function: copies of the four arguments, the amplitude, the spin sum, the
  kinematic factor, \<^verbatim>\<open>return diffXsect\<close>, and then the statements of the Klein-Nishina
  formula with their own \<^verbatim>\<open>return\<close>.
\<close>

definition Compton ::
  "Dirac_package \<Rightarrow> TPhoton \<Rightarrow> TLepton \<Rightarrow> TPhoton \<Rightarrow> TLepton \<Rightarrow> LDouble_t control" where
  "Compton pkg gIn eIn gOut eOut =
     (let gIncoming = gIn; gI = gIncoming;
          eIncoming = eIn; eI = eIncoming;
          gOutgoing = gOut; gF = gOutgoing;
          eOutgoing = eOut; eF = eOutgoing;
          mLepton = Mass eI;
          ampSquared = Compton_ampSquared (Compton_invAmp pkg gI eI gF eF) gI eI gF eF;
          kinFactor = Compton_kinFactor gI eI gF eF;
          diffXsect = hbarcSqr pkg * sqr (alphaQED pkg) * Re ampSquared * kinFactor
      in then_do (Return diffXsect)
          (let sinSqrTheta = 1 - sqr (component (TPhoton.Mom gF) 3 / component (TPhoton.Mom gF) 0);
               KleinNishinaResult = sqr (alphaQED pkg / mLepton) / 2;
               KleinNishinaResult = KleinNishinaResult
                  * sqr (component (TPhoton.Mom gF) 0 / component (TPhoton.Mom gI) 0);
               KleinNishinaResult = KleinNishinaResult
                  * ((component (TPhoton.Mom gF) 0 / component (TPhoton.Mom gI) 0)
                     + (component (TPhoton.Mom gI) 0 / component (TPhoton.Mom gF) 0) - sinSqrTheta);
               KleinNishinaResult = KleinNishinaResult * hbarcSqr pkg
           in Return KleinNishinaResult))"

subsection \<open>Bremsstrahlung\<close>

definition Bremsstrahlung_qRecoil :: "TLepton \<Rightarrow> TLepton \<Rightarrow> TPhoton \<Rightarrow> TFourVectorReal" where
  "Bremsstrahlung_qRecoil eI eF gF =
     op_minus (op_minus (TLepton.Mom eI) (TLepton.Mom eF)) (TPhoton.Mom gF)"

definition Bremsstrahlung_invAmp ::
  "Dirac_package \<Rightarrow> TLepton \<Rightarrow> TLepton \<Rightarrow> TPhoton \<Rightarrow> nat \<Rightarrow> nat \<Rightarrow> nat \<Rightarrow> Complex_t" where
  "Bremsstrahlung_invAmp pkg eI eF gF hi hf gf =
     (let uI = stateU pkg (TLepton.Mom eI);
          uF = stateU pkg (TLepton.Mom eF);
          mLepton = Mass eI;
          qRecoil = Bremsstrahlung_qRecoil eI eF gF;
          edenom1 = InvariantSqr qRecoil - 2 * ScalarProd qRecoil (TLepton.Mom eI);
          edenom2 = InvariantSqr qRecoil + 2 * ScalarProd qRecoil (TLepton.Mom eF);
          ePropagator1 = dm_div_scalar
             (dm_plus_scalar (Slash pkg (op_minus (TLepton.Mom eI) qRecoil)) mLepton) edenom1;
          ePropagator2 = dm_div_scalar
             (dm_plus_scalar (Slash pkg (op_plus (TLepton.Mom eF) qRecoil)) mLepton) edenom2;
          gamma0 = kDiracGamma pkg 0;
          epsF = SlashC pkg (EpsStar pkg gF (gf + 1));
          D = dm_plus (dm_times (dm_times epsF ePropagator1) gamma0)
                      (dm_times (dm_times gamma0 ePropagator2) epsF)
      in SpinorScalarProd pkg (uF hf) (dm_apply D (uI hi)))"

text \<open>
  The spin sum. The array \<^verbatim>\<open>AAbar\<close>, filled in the same loop, is only printed by the
  diagnostic warning and is left out with it.
\<close>

definition Bremsstrahlung_ampSquared ::
  "(nat \<Rightarrow> nat \<Rightarrow> nat \<Rightarrow> Complex_t) \<Rightarrow> TLepton \<Rightarrow> TLepton \<Rightarrow> TPhoton \<Rightarrow> Complex_t" where
  "Bremsstrahlung_ampSquared invAmp eI eF gF =
     for_loop 2 (\<lambda>gf. for_loop 2 (\<lambda>gfbar.
     for_loop 2 (\<lambda>hi. for_loop 2 (\<lambda>hibar. for_loop 2 (\<lambda>hf. for_loop 2 (\<lambda>hfbar ampSquared.
       ampSquared + invAmp hi hf gf * cnj (invAmp hibar hfbar gfbar)
                    * TLepton.SDM eI hi hibar * TLepton.SDM eF hfbar hf
                    * TPhoton.SDM gF gfbar gf)))))) 0"

definition Bremsstrahlung ::
  "Dirac_package \<Rightarrow> TLepton \<Rightarrow> TLepton \<Rightarrow> TPhoton \<Rightarrow> LDouble_t" where
  "Bremsstrahlung pkg eIn eOut gOut =
     (let eIncoming = eIn; eI = eIncoming;
          gOutgoing = gOut; gF = gOutgoing;
          eOutgoing = eOut; eF = eOutgoing;
          qRecoil = Bremsstrahlung_qRecoil eI eF gF;
          ampSquared = Bremsstrahlung_ampSquared (Bremsstrahlung_invAmp pkg eI eF gF) eI eF gF;
          kinFactor = 1 / sqr (2 * PI_value * component (TLepton.Mom eI) 0);
          diffXsect = hbarcSqr pkg * alphaQED pkg ^ 3 * Re ampSquared
                        * kinFactor / sqr (InvariantSqr qRecoil)
      in diffXsect)"

subsection \<open>PairProduction\<close>

definition PairProduction_qRecoil :: "TPhoton \<Rightarrow> TLepton \<Rightarrow> TLepton \<Rightarrow> TFourVectorReal" where
  "PairProduction_qRecoil gI eF pF =
     op_minus (op_minus (TPhoton.Mom gI) (TLepton.Mom eF)) (TLepton.Mom pF)"

definition PairProduction_invAmp ::
  "Dirac_package \<Rightarrow> TPhoton \<Rightarrow> TLepton \<Rightarrow> TLepton \<Rightarrow> nat \<Rightarrow> nat \<Rightarrow> nat \<Rightarrow> Complex_t" where
  "PairProduction_invAmp pkg gI eF pF hi hf gi =
     (let uF = stateU pkg (TLepton.Mom eF);
          vF = stateV pkg (TLepton.Mom pF);
          mLepton = Mass eF;
          edenom1 = - 2 * ScalarProd (TPhoton.Mom gI) (TLepton.Mom eF);
          edenom2 = - 2 * ScalarProd (TPhoton.Mom gI) (TLepton.Mom pF);
          ePropagator1 = dm_div_scalar
             (dm_plus_scalar (Slash pkg (op_minus (TLepton.Mom eF) (TPhoton.Mom gI))) mLepton) edenom1;
          ePropagator2 = dm_div_scalar
             (dm_plus_scalar (Slash pkg (op_minus (TPhoton.Mom gI) (TLepton.Mom pF))) mLepton) edenom2;
          gamma0 = kDiracGamma pkg 0;
          epsI = SlashC pkg (Eps pkg gI (gi + 1));
          D = dm_plus (dm_times (dm_times epsI ePropagator1) gamma0)
                      (dm_times (dm_times gamma0 ePropagator2) epsI)
      in SpinorScalarProd pkg (uF hf) (dm_apply D (vF hi)))"

definition PairProduction_ampSquared ::
  "(nat \<Rightarrow> nat \<Rightarrow> nat \<Rightarrow> Complex_t) \<Rightarrow> TPhoton \<Rightarrow> TLepton \<Rightarrow> TLepton \<Rightarrow> Complex_t" where
  "PairProduction_ampSquared invAmp gI eF pF =
     for_loop 2 (\<lambda>gi. for_loop 2 (\<lambda>gibar.
     for_loop 2 (\<lambda>hi. for_loop 2 (\<lambda>hibar. for_loop 2 (\<lambda>hf. for_loop 2 (\<lambda>hfbar ampSquared.
       ampSquared + invAmp hi hf gi * cnj (invAmp hibar hfbar gibar)
                    * TLepton.SDM pF hi hibar * TLepton.SDM eF hfbar hf
                    * TPhoton.SDM gI gi gibar)))))) 0"

definition PairProduction ::
  "Dirac_package \<Rightarrow> TPhoton \<Rightarrow> TLepton \<Rightarrow> TLepton \<Rightarrow> LDouble_t" where
  "PairProduction pkg gIn eOut pOut =
     (let gIncoming = gIn; gI = gIncoming;
          eOutgoing = eOut; eF = eOutgoing;
          pOutgoing = pOut; pF = pOutgoing;
          qRecoil = PairProduction_qRecoil gI eF pF;
          ampSquared = PairProduction_ampSquared (PairProduction_invAmp pkg gI eF pF) gI eF pF;
          kinFactor = 1 / sqr (2 * PI_value * component (TPhoton.Mom gI) 0);
          diffXsect = hbarcSqr pkg * alphaQED pkg ^ 3 * Re ampSquared
                        * kinFactor / sqr (InvariantSqr qRecoil)
      in diffXsect)"

subsection \<open>TripletProduction\<close>

text \<open>
  The electron propagators \<^verbatim>\<open>epropCD2a\<close>, \<^verbatim>\<open>epropCD2b\<close>, \<^verbatim>\<open>epropBH2a\<close>, \<^verbatim>\<open>epropBH2b\<close> and
  the photon propagators \<^verbatim>\<open>gpropCD2\<close>, \<^verbatim>\<open>gpropBH2\<close>, \<^verbatim>\<open>gpropCD3\<close>, \<^verbatim>\<open>gpropBH3\<close>, computed
  before the loops.
\<close>

definition TripletProduction_eprop ::
  "Dirac_package \<Rightarrow> TPhoton \<Rightarrow> TLepton \<Rightarrow> TLepton \<Rightarrow> TLepton \<Rightarrow> TLepton
     \<Rightarrow> TDiracMatrix \<times> TDiracMatrix \<times> TDiracMatrix \<times> TDiracMatrix" where
  "TripletProduction_eprop pkg g0 e0 e1 e2 e3 =
     (let mLepton = Mass e0;
          edenomCD2a = 2 * ScalarProd (TPhoton.Mom g0) (TLepton.Mom e0);
          edenomCD2b = - 2 * ScalarProd (TPhoton.Mom g0) (TLepton.Mom e2);
          edenomBH2a = - 2 * ScalarProd (TPhoton.Mom g0) (TLepton.Mom e1);
          edenomBH2b = - 2 * ScalarProd (TPhoton.Mom g0) (TLepton.Mom e3);
          epropCD2a = dm_plus_scalar (Slash pkg (op_plus (TPhoton.Mom g0) (TLepton.Mom e0))) mLepton;
          epropCD2b = dm_plus_scalar (Slash pkg (op_minus (TLepton.Mom e2) (TPhoton.Mom g0))) mLepton;
          epropBH2a = dm_plus_scalar (Slash pkg (op_minus (TPhoton.Mom g0) (TLepton.Mom e1))) mLepton;
          epropBH2b = dm_plus_scalar (Slash pkg (op_minus (TLepton.Mom e3) (TPhoton.Mom g0))) mLepton;
          epropCD2a = dm_div_scalar epropCD2a edenomCD2a;
          epropCD2b = dm_div_scalar epropCD2b edenomCD2b;
          epropBH2a = dm_div_scalar epropBH2a edenomBH2a;
          epropBH2b = dm_div_scalar epropBH2b edenomBH2b
      in (epropCD2a, epropCD2b, epropBH2a, epropBH2b))"

definition TripletProduction_gprop ::
  "TLepton \<Rightarrow> TLepton \<Rightarrow> TLepton \<Rightarrow> TLepton
     \<Rightarrow> LDouble_t \<times> LDouble_t \<times> LDouble_t \<times> LDouble_t" where
  "TripletProduction_gprop e0 e1 e2 e3 =
     (let gpropCD2 = 1 / InvariantSqr (op_plus (TLepton.Mom e1) (TLepton.Mom e3));
          gpropBH2 = 1 / InvariantSqr (op_minus (TLepton.Mom e0) (TLepton.Mom e2));
          gpropCD3 = 1 / InvariantSqr (op_plus (TLepton.Mom e1) (TLepton.Mom e2));
          gpropBH3 = 1 / InvariantSqr (op_minus (TLepton.Mom e0) (TLepton.Mom e3))
      in (gpropCD2, gpropBH2, gpropCD3, gpropBH3))"

text \<open>
  The four Dirac-matrix chains \<^verbatim>\<open>CD2\<close>, \<^verbatim>\<open>BH2\<close>, \<^verbatim>\<open>CD3\<close>, \<^verbatim>\<open>BH3\<close> built in the loop over the
  photon polarisation \<open>gi\<close> and the Lorentz index \<open>mu\<close>.
\<close>

definition TripletProduction_chains ::
  "Dirac_package \<Rightarrow> TDiracMatrix \<times> TDiracMatrix \<times> TDiracMatrix \<times> TDiracMatrix
     \<Rightarrow> LDouble_t \<times> LDouble_t \<times> LDouble_t \<times> LDouble_t \<Rightarrow> TPhoton \<Rightarrow> nat \<Rightarrow> nat
     \<Rightarrow> TDiracMatrix \<times> TDiracMatrix \<times> TDiracMatrix \<times> TDiracMatrix" where
  "TripletProduction_chains pkg eprop gprop g0 gi mu =
     (case eprop of (epropCD2a, epropCD2b, epropBH2a, epropBH2b) \<Rightarrow>
      case gprop of (gpropCD2, gpropBH2, gpropCD3, gpropBH3) \<Rightarrow>
      let epropCD3a = epropCD2a;
          epropCD3b = epropBH2b;
          epropBH3a = epropBH2a;
          epropBH3b = epropCD2b;
          gamma = kDiracGamma pkg;
          epsI = SlashC pkg (Eps pkg g0 (gi + 1));
          CD2 = dm_plus (dm_times (dm_times (gamma mu) epropCD2a) epsI)
                        (dm_times (dm_times epsI epropCD2b) (gamma mu));
          CD2 = dm_times_scalar CD2 gpropCD2;
          BH2 = dm_plus (dm_times (dm_times (gamma mu) epropBH2a) epsI)
                        (dm_times (dm_times epsI epropBH2b) (gamma mu));
          BH2 = dm_times_scalar BH2 gpropBH2;
          CD3 = dm_plus (dm_times (dm_times (gamma mu) epropCD3a) epsI)
                        (dm_times (dm_times epsI epropCD3b) (gamma mu));
          CD3 = dm_times_scalar CD3 gpropCD3;
          BH3 = dm_plus (dm_times (dm_times (gamma mu) epropBH3a) epsI)
                        (dm_times (dm_times epsI epropBH3b) (gamma mu));
          BH3 = dm_times_scalar BH3 gpropBH3
      in (CD2, BH2, CD3, BH3))"

text \<open>
  The array \<^verbatim>\<open>invAmp[h0][h1][h2][h3][gi]\<close> starts at zero and each cell accumulates one
  term for each \<open>mu\<close>, with the metric sign.
\<close>

definition TripletProduction_invAmp ::
  "Dirac_package \<Rightarrow> TPhoton \<Rightarrow> TLepton \<Rightarrow> TLepton \<Rightarrow> TLepton \<Rightarrow> TLepton
     \<Rightarrow> nat \<Rightarrow> nat \<Rightarrow> nat \<Rightarrow> nat \<Rightarrow> nat \<Rightarrow> Complex_t" where
  "TripletProduction_invAmp pkg g0 e0 e1 e2 e3 h0 h1 h2 h3 gi =
     (let u0 = stateU pkg (TLepton.Mom e0);
          v1 = stateV pkg (TLepton.Mom e1);
          u2 = stateU pkg (TLepton.Mom e2);
          u3 = stateU pkg (TLepton.Mom e3);
          eprop = TripletProduction_eprop pkg g0 e0 e1 e2 e3;
          gprop = TripletProduction_gprop e0 e1 e2 e3;
          gamma = kDiracGamma pkg
      in for_loop 4 (\<lambda>mu cell.
           (case TripletProduction_chains pkg eprop gprop g0 gi mu of (CD2, BH2, CD3, BH3) \<Rightarrow>
              cell + of_real (if mu = 0 then 1 else - 1) * (
                  SpinorScalarProd pkg (u3 h3) (dm_apply (gamma mu) (v1 h1)) *
                  SpinorScalarProd pkg (u2 h2) (dm_apply CD2 (u0 h0))
                - SpinorScalarProd pkg (u2 h2) (dm_apply (gamma mu) (v1 h1)) *
                  SpinorScalarProd pkg (u3 h3) (dm_apply CD3 (u0 h0))
                + SpinorScalarProd pkg (u2 h2) (dm_apply (gamma mu) (u0 h0)) *
                  SpinorScalarProd pkg (u3 h3) (dm_apply BH2 (v1 h1))
                - SpinorScalarProd pkg (u3 h3) (dm_apply (gamma mu) (u0 h0)) *
                  SpinorScalarProd pkg (u2 h2) (dm_apply BH3 (v1 h1))))) 0)"

definition TripletProduction_ampSquared ::
  "(nat \<Rightarrow> nat \<Rightarrow> nat \<Rightarrow> nat \<Rightarrow> nat \<Rightarrow> Complex_t)
     \<Rightarrow> TPhoton \<Rightarrow> TLepton \<Rightarrow> TLepton \<Rightarrow> TLepton \<Rightarrow> TLepton \<Rightarrow> Complex_t" where
  "TripletProduction_ampSquared invAmp g0 e0 e1 e2 e3 =
     for_loop 2 (\<lambda>gi. for_loop 2 (\<lambda>gibar.
     for_loop 2 (\<lambda>h0. for_loop 2 (\<lambda>h0bar. for_loop 2 (\<lambda>h1. for_loop 2 (\<lambda>h1bar.
     for_loop 2 (\<lambda>h2. for_loop 2 (\<lambda>h2bar. for_loop 2 (\<lambda>h3. for_loop 2 (\<lambda>h3bar ampSquared.
       ampSquared + invAmp h0 h1 h2 h3 gi * cnj (invAmp h0bar h1bar h2bar h3bar gibar)
                    * TLepton.SDM e0 h0 h0bar * TLepton.SDM e1 h1 h1bar
                    * TLepton.SDM e2 h2bar h2 * TLepton.SDM e3 h3bar h3
                    * TPhoton.SDM g0 gi gibar)))))))))) 0"

definition TripletProduction ::
  "Dirac_package \<Rightarrow> TPhoton \<Rightarrow> TLepton \<Rightarrow> TLepton \<Rightarrow> TLepton \<Rightarrow> TLepton \<Rightarrow> LDouble_t" where
  "TripletProduction pkg gIn eIn pOut eOut2 eOut3 =
     (let gIncoming = gIn; g0 = gIncoming;
          eIncoming = eIn; e0 = eIncoming;
          pOutgoing = pOut; e1 = pOutgoing;
          eOutgoing2 = eOut2; e2 = eOutgoing2;
          eOutgoing3 = eOut3; e3 = eOutgoing3;
          ampSquared = TripletProduction_ampSquared
                         (TripletProduction_invAmp pkg g0 e0 e1 e2 e3) g0 e0 e1 e2 e3;
          fluxFactor = 4 * component (TPhoton.Mom g0) 0
                         * (Length (TLepton.Mom e0) + component (TLepton.Mom e0) 0);
          rhoFactor = 1 / (8 * component (TLepton.Mom e3) 0
                             * Length (op_plus (TLepton.Mom e1) (TLepton.Mom e2)));
          piFactor = (2 * PI_value) powi (4 - 9) * (4 * PI_value) ^ 3;
          diffXsect = hbarcSqr pkg * alphaQED pkg ^ 3 * Re ampSquared
                        / fluxFactor * rhoFactor * piFactor
      in diffXsect)"

subsection \<open>eeBremsstrahlung\<close>

text \<open>
  The electron propagators \<^verbatim>\<open>epropA1\<close>, \<^verbatim>\<open>epropA2\<close>, \<^verbatim>\<open>epropB1\<close>, \<^verbatim>\<open>epropB2\<close> and the photon
  propagators \<^verbatim>\<open>gpropA\<close> .. \<^verbatim>\<open>gpropD\<close>, computed before the loops.
\<close>

definition eeBremsstrahlung_eprop ::
  "Dirac_package \<Rightarrow> TLepton \<Rightarrow> TLepton \<Rightarrow> TLepton \<Rightarrow> TLepton \<Rightarrow> TPhoton
     \<Rightarrow> TDiracMatrix \<times> TDiracMatrix \<times> TDiracMatrix \<times> TDiracMatrix" where
  "eeBremsstrahlung_eprop pkg e0 e1 e2 e3 g0 =
     (let mLepton = Mass e0;
          edenomA1 = - 2 * ScalarProd (TPhoton.Mom g0) (TLepton.Mom e0);
          edenomA2 = 2 * ScalarProd (TPhoton.Mom g0) (TLepton.Mom e2);
          edenomB1 = - 2 * ScalarProd (TPhoton.Mom g0) (TLepton.Mom e1);
          edenomB2 = 2 * ScalarProd (TPhoton.Mom g0) (TLepton.Mom e3);
          epropA1 = dm_plus_scalar (Slash pkg (op_minus (TLepton.Mom e0) (TPhoton.Mom g0))) mLepton;
          epropA2 = dm_plus_scalar (Slash pkg (op_plus (TLepton.Mom e2) (TPhoton.Mom g0))) mLepton;
          epropB1 = dm_plus_scalar (Slash pkg (op_minus (TLepton.Mom e1) (TPhoton.Mom g0))) mLepton;
          epropB2 = dm_plus_scalar (Slash pkg (op_plus (TLepton.Mom e3) (TPhoton.Mom g0))) mLepton;
          epropA1 = dm_div_scalar epropA1 edenomA1;
          epropA2 = dm_div_scalar epropA2 edenomA2;
          epropB1 = dm_div_scalar epropB1 edenomB1;
          epropB2 = dm_div_scalar epropB2 edenomB2
      in (epropA1, epropA2, epropB1, epropB2))"

definition eeBremsstrahlung_gprop ::
  "TLepton \<Rightarrow> TLepton \<Rightarrow> TLepton \<Rightarrow> TLepton
     \<Rightarrow> LDouble_t \<times> LDouble_t \<times> LDouble_t \<times> LDouble_t" where
  "eeBremsstrahlung_gprop e0 e1 e2 e3 =
     (let gpropA = 1 / InvariantSqr (op_minus (TLepton.Mom e1) (TLepton.Mom e3));
          gpropB = 1 / InvariantSqr (op_minus (TLepton.Mom e0) (TLepton.Mom e2));
          gpropC = 1 / InvariantSqr (op_minus (TLepton.Mom e1) (TLepton.Mom e2));
          gpropD = 1 / InvariantSqr (op_minus (TLepton.Mom e0) (TLepton.Mom e3))
      in (gpropA, gpropB, gpropC, gpropD))"

text \<open>
  The four chains \<^verbatim>\<open>A\<close>, \<^verbatim>\<open>B\<close>, \<^verbatim>\<open>C\<close>, \<^verbatim>\<open>D\<close> as the source writes them: \<^verbatim>\<open>A\<close> starts with the
  product \<^verbatim>\<open>gamma[mu] * epropA1 * epsF\<close>, the other three with the sum
  \<^verbatim>\<open>gamma[mu] + eprop * epsF\<close> (the product binds tighter than the sum).
\<close>

definition eeBremsstrahlung_chains ::
  "Dirac_package \<Rightarrow> TDiracMatrix \<times> TDiracMatrix \<times> TDiracMatrix \<times> TDiracMatrix
     \<Rightarrow> LDouble_t \<times> LDouble_t \<times> LDouble_t \<times> LDouble_t \<Rightarrow> TPhoton \<Rightarrow> nat \<Rightarrow> nat
     \<Rightarrow> TDiracMatrix \<times> TDiracMatrix \<times> TDiracMatrix \<times> TDiracMatrix" where
  "eeBremsstrahlung_chains pkg eprop gprop g0 gf mu =
     (case eprop of (epropA1, epropA2, epropB1, epropB2) \<Rightarrow>
      case gprop of (gpropA, gpropB, gpropC, gpropD) \<Rightarrow>
      let epropC1 = epropA1;
          epropC2 = epropB2;
          epropD1 = epropB1;
          epropD2 = epropA2;
          gamma = kDiracGamma pkg;
          epsF = SlashC pkg (EpsStar pkg g0 (gf + 1));
          A = dm_plus (dm_times (dm_times (gamma mu) epropA1) epsF)
                      (dm_times (dm_times epsF epropA2) (gamma mu));
          A = dm_times_scalar A gpropA;
          B = dm_plus (dm_plus (gamma mu) (dm_times epropB1 epsF))
                      (dm_times (dm_times epsF epropB2) (gamma mu));
          B = dm_times_scalar B gpropB;
          C = dm_plus (dm_plus (gamma mu) (dm_times epropC1 epsF))
                      (dm_times (dm_times epsF epropC2) (gamma mu));
          C = dm_times_scalar C gpropC;
          D = dm_plus (dm_plus (gamma mu) (dm_times epropD1 epsF))
                      (dm_times (dm_times epsF epropD2) (gamma mu));
          D = dm_times_scalar D gpropD
      in (A, B, C, D))"

text \<open>
  The chains as the claim C2 describes them, for comparison: each of the four is the sum of
  two triple products, vertex times propagator times vertex, scaled by its photon
  propagator.
\<close>

definition eeBremsstrahlung_chains_as_claimed ::
  "Dirac_package \<Rightarrow> TDiracMatrix \<times> TDiracMatrix \<times> TDiracMatrix \<times> TDiracMatrix
     \<Rightarrow> LDouble_t \<times> LDouble_t \<times> LDouble_t \<times> LDouble_t \<Rightarrow> TPhoton \<Rightarrow> nat \<Rightarrow> nat
     \<Rightarrow> TDiracMatrix \<times> TDiracMatrix \<times> TDiracMatrix \<times> TDiracMatrix" where
  "eeBremsstrahlung_chains_as_claimed pkg eprop gprop g0 gf mu =
     (case eprop of (epropA1, epropA2, epropB1, epropB2) \<Rightarrow>
      case gprop of (gpropA, gpropB, gpropC, gpropD) \<Rightarrow>
      let gamma = kDiracGamma pkg;
          epsF = SlashC pkg (EpsStar pkg g0 (gf + 1));
          chain = (\<lambda>eprop1 eprop2 gprop.
             dm_times_scalar
               (dm_plus (dm_times (dm_times (gamma mu) eprop1) epsF)
                        (dm_times (dm_times epsF eprop2) (gamma mu))) gprop)
      in (chain epropA1 epropA2 gpropA, chain epropB1 epropB2 gpropB,
          chain epropA1 epropB2 gpropC, chain epropB1 epropA2 gpropD))"

definition eeBremsstrahlung_invAmp ::
  "Dirac_package \<Rightarrow> TLepton \<Rightarrow> TLepton \<Rightarrow> TLepton \<Rightarrow> TLepton \<Rightarrow> TPhoton
     \<Rightarrow> nat \<Rightarrow> nat \<Rightarrow> nat \<Rightarrow> nat \<Rightarrow> nat \<Rightarrow> Complex_t" where
  "eeBremsstrahlung_invAmp pkg e0 e1 e2 e3 g0 h0 h1 h2 h3 gf =
     (let u0 = stateU pkg (TLepton.Mom e0);
          u1 = stateU pkg (TLepton.Mom e1);
          u2 = stateU pkg (TLepton.Mom e2);
          u3 = stateU pkg (TLepton.Mom e3);
          eprop = eeBremsstrahlung_eprop pkg e0 e1 e2 e3 g0;
          gprop = eeBremsstrahlung_gprop e0 e1 e2 e3;
          gamma = kDiracGamma pkg
      in for_loop 4 (\<lambda>mu cell.
           (case eeBremsstrahlung_chains pkg eprop gprop g0 gf mu of (A, B, C, D) \<Rightarrow>
              cell + of_real (if mu = 0 then 1 else - 1) * (
                  SpinorScalarProd pkg (u3 h3) (dm_apply (gamma mu) (u1 h1)) *
                  SpinorScalarProd pkg (u2 h2) (dm_apply A (u0 h0))
                + SpinorScalarProd pkg (u2 h2) (dm_apply (gamma mu) (u0 h0)) *
                  SpinorScalarProd pkg (u3 h3) (dm_apply B (u1 h1))
                - SpinorScalarProd pkg (u2 h2) (dm_apply (gamma mu) (u1 h1)) *
                  SpinorScalarProd pkg (u3 h3) (dm_apply C (u0 h0))
                - SpinorScalarProd pkg (u3 h3) (dm_apply (gamma mu) (u0 h0)) *
                  SpinorScalarProd pkg (u2 h2) (dm_apply D (u1 h1))))) 0)"

definition eeBremsstrahlung_ampSquared ::
  "(nat \<Rightarrow> nat \<Rightarrow> nat \<Rightarrow> nat \<Rightarrow> nat \<Rightarrow> Complex_t)
     \<Rightarrow> TLepton \<Rightarrow> TLepton \<Rightarrow> TLepton \<Rightarrow> TLepton \<Rightarrow> TPhoton \<Rightarrow> Complex_t" where
  "eeBremsstrahlung_ampSquared invAmp e0 e1 e2 e3 g0 =
     for_loop 2 (\<lambda>gf. for_loop 2 (\<lambda>gfbar.
     for_loop 2 (\<lambda>h0. for_loop 2 (\<lambda>h0bar. for_loop 2 (\<lambda>h1. for_loop 2 (\<lambda>h1bar.
     for_loop 2 (\<lambda>h2. for_loop 2 (\<lambda>h2bar. for_loop 2 (\<lambda>h3. for_loop 2 (\<lambda>h3bar ampSquared.
       ampSquared + invAmp h0 h1 h2 h3 gf * cnj (invAmp h0bar h1bar h2bar h3bar gfbar)
                    * TLepton.SDM e0 h0 h0bar * TLepton.SDM e1 h1 h1bar
                    * TLepton.SDM e2 h2bar h2 * TLepton.SDM e3 h3bar h3
                    * TPhoton.SDM g0 gfbar gf)))))))))) 0"

definition eeBremsstrahlung ::
  "Dirac_package \<Rightarrow> TLepton \<Rightarrow> TLepton \<Rightarrow> TLepton \<Rightarrow> TLepton \<Rightarrow> TPhoton \<Rightarrow> LDouble_t" where
  "eeBremsstrahlung pkg eIn0 eIn1 eOut2 eOut3 gOut =
     (let eIncoming0 = eIn0; e0 = eIncoming0;
          eIncoming1 = eIn1; e1 = eIncoming1;
          eOutgoing2 = eOut2; e2 = eOutgoing2;
          eOutgoing3 = eOut3; e3 = eOutgoing3;
          gOutgoing = gOut; g0 = gOutgoing;
          ampSquared = eeBremsstrahlung_ampSquared
                         (eeBremsstrahlung_invAmp pkg e0 e1 e2 e3 g0) e0 e1 e2 e3 g0;
          kinFactor = 1 / sqr (2 * PI_value * component (TLepton.Mom e0) 0);
          kinFactor = kinFactor / (4 * component (TLepton.Mom e1) 0 * component (TLepton.Mom e3) 0);
          diffXsect = hbarcSqr pkg * alphaQED pkg ^ 3 * Re ampSquared * kinFactor
      in diffXsect)"

section \<open>Example inputs\<close>

text \<open>
  Spin-density matrices: an unpolarised incoming particle (half the unit matrix), an
  outgoing particle summed over its states (the unit matrix), and a lepton polarised along
  the y axis (Hermitian with trace 1, complex off-diagonal entries).
\<close>

definition unpolarised_in :: TPauliMatrix where
  "unpolarised_in = (\<lambda>i j. if i = j then 1 / 2 else 0)"

definition all_states_out :: TPauliMatrix where
  "all_states_out = (\<lambda>i j. if i = j then 1 else 0)"

definition polarised_y :: TPauliMatrix where
  "polarised_y = (\<lambda>i j. if i = j then 1 / 2 else if i = 0 then - \<i> / 2 else \<i> / 2)"

text \<open>
  An instance of the package parameters for evaluating examples: the gamma matrices in the
  Dirac representation, the rest-frame basis spinors, the spinor product \<open>u\<^sup>\<dagger> \<gamma>\<^sub>0 v\<close>, and
  linear polarisation vectors along x and y.
\<close>

definition Dirac_gamma :: "nat \<Rightarrow> TDiracMatrix" where
  "Dirac_gamma mu = (\<lambda>i j.
     if mu = 0 then (if i = j then (if i < 2 then 1 else - 1) else 0)
     else if mu = 1 then (if i + j = 3 then (if i < 2 then 1 else - 1) else 0)
     else if mu = 2 then (if i + j = 3 then (if i = 0 \<or> i = 3 then - \<i> else \<i>) else 0)
     else (if i = 0 \<and> j = 2 then 1 else if i = 1 \<and> j = 3 then - 1
           else if i = 2 \<and> j = 0 then - 1 else if i = 3 \<and> j = 1 then 1 else 0))"

definition example_package :: Dirac_package where
  "example_package =
     \<lparr> kDiracGamma = Dirac_gamma,
       SetStateU = (\<lambda>p h i. if i = (if 0 < h then 0 else 1) then 1 else 0),
       SetStateV = (\<lambda>p h i. if i = (if 0 < h then 3 else 2) then 1 else 0),
       SpinorScalarProd =
         (\<lambda>u v. cnj (u 0) * v 0 + cnj (u 1) * v 1 - cnj (u 2) * v 2 - cnj (u 3) * v 3),
       Eps = (\<lambda>g n. if n = 1 then TFourVectorComplex 0 1 0 0 else TFourVectorComplex 0 0 1 0),
       EpsStar = (\<lambda>g n. if n = 1 then TFourVectorComplex 0 1 0 0 else TFourVectorComplex 0 0 1 0),
       hbarcSqr = 389, alphaQED = 1 / 137 \<rparr>"

text \<open>Four leptons of mass 1 on their mass shell, and a photon along the z axis.\<close>

definition ex_e0 :: TLepton where
  "ex_e0 = \<lparr> TLepton.Mom = TFourVectorReal (5 / 3) (4 / 3) 0 0, Mass = 1, SDM = unpolarised_in \<rparr>"

definition ex_e1 :: TLepton where
  "ex_e1 = \<lparr> TLepton.Mom = TFourVectorReal 1 0 0 0, Mass = 1, SDM = unpolarised_in \<rparr>"

definition ex_e2 :: TLepton where
  "ex_e2 = \<lparr> TLepton.Mom = TFourVectorReal (5 / 4) 0 (3 / 4) 0, Mass = 1, SDM = all_states_out \<rparr>"

definition ex_e3 :: TLepton where
  "ex_e3 = \<lparr> TLepton.Mom = TFourVectorReal (13 / 12) 0 0 (5 / 12), Mass = 1, SDM = all_states_out \<rparr>"

definition ex_g :: TPhoton where
  "ex_g = \<lparr> TPhoton.Mom = TFourVectorReal (1 / 3) 0 0 (1 / 3), SDM = all_states_out \<rparr>"

text \<open>
  The spin sum of PairProduction as the claim C1 describes it, for comparison: the
  spin-density matrix of the incoming photon indexed \<open>[h, hbar]\<close> and those of both
  outgoing leptons indexed \<open>[hbar, h]\<close>.
\<close>

definition PairProduction_ampSquared_as_claimed ::
  "(nat \<Rightarrow> nat \<Rightarrow> nat \<Rightarrow> Complex_t) \<Rightarrow> TPhoton \<Rightarrow> TLepton \<Rightarrow> TLepton \<Rightarrow> Complex_t" where
  "PairProduction_ampSquared_as_claimed invAmp gI eF pF =
     (\<Sum>gi<2. \<Sum>hi<2. \<Sum>hf<2. \<Sum>gibar<2. \<Sum>hibar<2. \<Sum>hfbar<2.
        invAmp hi hf gi * cnj (invAmp hibar hfbar gibar)
        * TPhoton.SDM gI gi gibar
        * TLepton.SDM eF hfbar hf * TLepton.SDM pF hibar hi)"

section \<open>Lorentz transforms\<close>

text \<open>
  Modelled from the spec: TLorentzTransform.h and the files that implement
  \<^verbatim>\<open>TFourVectorReal::Transform\<close>, \<^verbatim>\<open>TFourVectorReal::Boost\<close> and \<^verbatim>\<open>TLorentzBoost::SetBeta\<close> are not
  among the sources (TFourVectorReal.h and TLorentzBoost.h only declare them). After the
  spec, a transform is a 4 by 4 real matrix \<^verbatim>\<open>fMatrix\<close>; applying it to a four-vector is
  matrix-vector multiplication; it is physically valid when it preserves the Minkowski
  inner product, \<open>M\<^sup>T G M = G\<close> with \<open>G = diag(1,-1,-1,-1)\<close>; and a boost derives its matrix
  from a velocity by the standard formula, \<open>\<gamma>\<close> in the time-time entry, \<open>-\<gamma>\<beta>\<close> in the
  cross terms, and the identity plus \<open>(\<gamma> - 1) \<beta>\<^sub>i \<beta>\<^sub>j / \<beta>\<^sup>2\<close> in the space block.
\<close>

type_synonym TLorentzTransform = "nat \<Rightarrow> nat \<Rightarrow> LDouble_t"

definition Transform :: "TFourVectorReal \<Rightarrow> TLorentzTransform \<Rightarrow> TFourVectorReal" where
  "Transform v xformOp =
     (let row = (\<lambda>i. xformOp i 0 * fVector v 0 + xformOp i 1 * fVector v 1
                      + xformOp i 2 * fVector v 2 + xformOp i 3 * fVector v 3)
      in TFourVectorReal (row 0) (row 1) (row 2) (row 3))"

definition Boost :: "TFourVectorReal \<Rightarrow> TLorentzTransform \<Rightarrow> TFourVectorReal" where
  "Boost v boostOp = Transform v boostOp"



definition SetBeta :: "LDouble_t \<Rightarrow> LDouble_t \<Rightarrow> LDouble_t \<Rightarrow> TLorentzTransform" where
  "SetBeta betaX betaY betaZ =
     (let beta = (\<lambda>i. if i = 1 then betaX else if i = 2 then betaY else betaZ);
          betaSqr = betaX * betaX + betaY * betaY + betaZ * betaZ;
          gamma = 1 / sqrt (1 - betaSqr)
      in (\<lambda>i j.
            if i = 0 \<and> j = 0 then gamma
            else if i = 0 then - gamma * beta j
            else if j = 0 then - gamma * beta i
            else (if i = j then 1 else 0)
                 + (if betaSqr = 0 then 0 else (gamma - 1) * beta i * beta j / betaSqr)))"

section \<open>Calls on caller-owned particles\<close>

text \<open>
  The reaction functions take their particles by const reference, copy each one into a
  local object (\<^verbatim>\<open>TPhoton gIncoming(gIn), *gI=&gIncoming;\<close>) and work through pointers to
  the copies. To follow what a body does to the objects of its caller, the functions are
  written here a second time, statement by statement, on an explicit memory. The memory
  holds the live objects of each type in a list of their own, the address of an object
  being its position in the list of its type; a reference or a pointer is an address.
\<close>

record memory =
  photons :: "TPhoton list"
  leptons :: "TLepton list"
  fourvectors :: "TFourVectorReal list"
  spinors :: "TDiracSpinor list"
  matrices :: "TDiracMatrix list"
  longdoubles :: "LDouble_t list"
  complexes :: "Complex_t list"

text \<open>
  A statement stores into the object at an address a value that it computes from the
  memory it is executed in: a constructor or a member function called on the object (as
  \<^verbatim>\<open>uI[0].SetStateU(...)\<close> or \<^verbatim>\<open>dm.Slash(...)\<close>), an assignment or a compound assignment. A
  store to an address at which there is no object changes nothing.
\<close>

datatype statement =
    StorePhoton nat "memory \<Rightarrow> TPhoton"
  | StoreLepton nat "memory \<Rightarrow> TLepton"
  | StoreFourVector nat "memory \<Rightarrow> TFourVectorReal"
  | StoreSpinor nat "memory \<Rightarrow> TDiracSpinor"
  | StoreMatrix nat "memory \<Rightarrow> TDiracMatrix"
  | StoreLongDouble nat "memory \<Rightarrow> LDouble_t"
  | StoreComplex nat "memory \<Rightarrow> Complex_t"

fun exec :: "statement \<Rightarrow> memory \<Rightarrow> memory" where
  "exec (StorePhoton a e) m = m\<lparr>photons := (photons m)[a := e m]\<rparr>"
| "exec (StoreLepton a e) m = m\<lparr>leptons := (leptons m)[a := e m]\<rparr>"
| "exec (StoreFourVector a e) m = m\<lparr>fourvectors := (fourvectors m)[a := e m]\<rparr>"
| "exec (StoreSpinor a e) m = m\<lparr>spinors := (spinors m)[a := e m]\<rparr>"
| "exec (StoreMatrix a e) m = m\<lparr>matrices := (matrices m)[a := e m]\<rparr>"
| "exec (StoreLongDouble a e) m = m\<lparr>longdoubles := (longdoubles m)[a := e m]\<rparr>"
| "exec (StoreComplex a e) m = m\<lparr>complexes := (complexes m)[a := e m]\<rparr>"

definition run :: "statement list \<Rightarrow> memory \<Rightarrow> memory" where
  "run body m = fold exec body m"

text \<open>The statements of a counted loop \<^verbatim>\<open>for (i = 0; i < n; i++)\<close>, one round after the other.\<close>

definition for_each :: "nat \<Rightarrow> (nat \<Rightarrow> statement list) \<Rightarrow> statement list" where
  "for_each n body = concat (map body [0..<n])"

text \<open>
  A call reserves the storage of the locals of the function behind the live objects, runs
  the statements of the body, and gives this storage up when it returns. A frame records
  where the storage of a call begins in each list. An object that is declared and not yet
  constructed or assigned holds the content given here; no statement reads it.
\<close>

record frame =
  first_photon :: nat
  first_lepton :: nat
  first_fourvector :: nat
  first_spinor :: nat
  first_matrix :: nat
  first_longdouble :: nat
  first_complex :: nat

definition top_of :: "memory \<Rightarrow> frame" where
  "top_of m =
     \<lparr> first_photon = length (photons m), first_lepton = length (leptons m),
       first_fourvector = length (fourvectors m), first_spinor = length (spinors m),
       first_matrix = length (matrices m), first_longdouble = length (longdoubles m),
       first_complex = length (complexes m) \<rparr>"

definition enter ::
  "nat \<Rightarrow> nat \<Rightarrow> nat \<Rightarrow> nat \<Rightarrow> nat \<Rightarrow> nat \<Rightarrow> nat \<Rightarrow> memory \<Rightarrow> memory" where
  "enter n_photons n_leptons n_fourvectors n_spinors n_matrices n_longdoubles n_complexes m =
     \<lparr> photons = photons m @ replicate n_photons
                     \<lparr> TPhoton.Mom = TFourVectorReal 0 0 0 0, SDM = (\<lambda>i j. 0) \<rparr>,
       leptons = leptons m @ replicate n_leptons
                     \<lparr> TLepton.Mom = TFourVectorReal 0 0 0 0, Mass = 0, SDM = (\<lambda>i j. 0) \<rparr>,
       fourvectors = fourvectors m @ replicate n_fourvectors (TFourVectorReal 0 0 0 0),
       spinors = spinors m @ replicate n_spinors (\<lambda>i. 0),
       matrices = matrices m @ replicate n_matrices (\<lambda>i j. 0),
       longdoubles = longdoubles m @ replicate n_longdoubles 0,
       complexes = complexes m @ replicate n_complexes 0 \<rparr>"

definition leave :: "frame \<Rightarrow> memory \<Rightarrow> memory" where
  "leave f m =
     \<lparr> photons = take (first_photon f) (photons m),
       leptons = take (first_lepton f) (leptons m),
       fourvectors = take (first_fourvector f) (fourvectors m),
       spinors = take (first_spinor f) (spinors m),
       matrices = take (first_matrix f) (matrices m),
       longdoubles = take (first_longdouble f) (longdoubles m),
       complexes = take (first_complex f) (complexes m) \<rparr>"

text \<open>
  A statement is local to a frame when the object it stores into lies in the frame, and it
  stores into a particle when that object is a photon or a lepton.
\<close>

fun stores_particle :: "statement \<Rightarrow> bool" where
  "stores_particle (StorePhoton a e) \<longleftrightarrow> True"
| "stores_particle (StoreLepton a e) \<longleftrightarrow> True"
| "stores_particle s \<longleftrightarrow> False"

fun local_to :: "frame \<Rightarrow> statement \<Rightarrow> bool" where
  "local_to f (StorePhoton a e) \<longleftrightarrow> first_photon f \<le> a"
| "local_to f (StoreLepton a e) \<longleftrightarrow> first_lepton f \<le> a"
| "local_to f (StoreFourVector a e) \<longleftrightarrow> first_fourvector f \<le> a"
| "local_to f (StoreSpinor a e) \<longleftrightarrow> first_spinor f \<le> a"
| "local_to f (StoreMatrix a e) \<longleftrightarrow> first_matrix f \<le> a"
| "local_to f (StoreLongDouble a e) \<longleftrightarrow> first_longdouble f \<le> a"
| "local_to f (StoreComplex a e) \<longleftrightarrow> first_complex f \<le> a"


subsection \<open>Compton\<close>

text \<open>
  The locals of \<^verbatim>\<open>Compton\<close> in the order of their declaration, each at its place in the
  frame \<open>f\<close>, and then its statements up to \<^verbatim>\<open>return diffXsect\<close>. The arguments \<open>gIn\<close>, \<open>eIn\<close>,
  \<open>gOut\<close>, \<open>eOut\<close> are the addresses that the four references refer to.
\<close>

definition Compton_body ::
  "Dirac_package \<Rightarrow> frame \<Rightarrow> nat \<Rightarrow> nat \<Rightarrow> nat \<Rightarrow> nat \<Rightarrow> statement list" where
  "Compton_body pkg f gIn eIn gOut eOut =
     (let gIncoming = first_photon f; gI = gIncoming;
          eIncoming = first_lepton f; eI = eIncoming;
          gOutgoing = first_photon f + 1; gF = gOutgoing;
          eOutgoing = first_lepton f + 1; eF = eOutgoing;
          uI = (\<lambda>h. first_spinor f + h);
          uF = (\<lambda>h. first_spinor f + 2 + h);
          mLepton = first_longdouble f;
          dm = first_matrix f;
          edenom1 = first_longdouble f + 1;
          edenom2 = first_longdouble f + 2;
          ePropagator1 = first_matrix f + 1;
          ePropagator2 = first_matrix f + 2;
          gamma0 = first_matrix f + 3;
          invAmp = (\<lambda>hi hf gi gf. first_complex f + (8 * hi + 4 * hf + 2 * gi + gf));
          D = first_matrix f + 4;
          epsI = first_matrix f + 5;
          epsF = first_matrix f + 6;
          ampSquared = first_complex f + 16;
          fluxIn = first_longdouble f + 3;
          rhoFin = first_longdouble f + 4;
          kinFactor = first_longdouble f + 5;
          diffXsect = first_longdouble f + 6
      in
      [StorePhoton gIncoming (\<lambda>m. photons m ! gIn),
       StoreLepton eIncoming (\<lambda>m. leptons m ! eIn),
       StorePhoton gOutgoing (\<lambda>m. photons m ! gOut),
       StoreLepton eOutgoing (\<lambda>m. leptons m ! eOut),
       StoreSpinor (uI 0) (\<lambda>m. SetStateU pkg (TLepton.Mom (leptons m ! eI)) (1 / 2)),
       StoreSpinor (uI 1) (\<lambda>m. SetStateU pkg (TLepton.Mom (leptons m ! eI)) (- (1 / 2))),
       StoreSpinor (uF 0) (\<lambda>m. SetStateU pkg (TLepton.Mom (leptons m ! eF)) (1 / 2)),
       StoreSpinor (uF 1) (\<lambda>m. SetStateU pkg (TLepton.Mom (leptons m ! eF)) (- (1 / 2))),
       StoreLongDouble mLepton (\<lambda>m. Mass (leptons m ! eI)),
       StoreLongDouble edenom1 (\<lambda>m. 2 * ScalarProd (TLepton.Mom (leptons m ! eI)) (TPhoton.Mom (photons m ! gI))),
       StoreLongDouble edenom2 (\<lambda>m. - 2 * ScalarProd (TLepton.Mom (leptons m ! eI)) (TPhoton.Mom (photons m ! gF))),
       StoreMatrix dm (\<lambda>m. Slash pkg (op_plus (TLepton.Mom (leptons m ! eI)) (TPhoton.Mom (photons m ! gI)))),
       StoreMatrix ePropagator1 (\<lambda>m. dm_plus_scalar (matrices m ! dm) (longdoubles m ! mLepton)),
       StoreMatrix dm (\<lambda>m. Slash pkg (op_minus (TLepton.Mom (leptons m ! eI)) (TPhoton.Mom (photons m ! gF)))),
       StoreMatrix ePropagator2 (\<lambda>m. dm_plus_scalar (matrices m ! dm) (longdoubles m ! mLepton)),
       StoreMatrix ePropagator1 (\<lambda>m. dm_div_scalar (matrices m ! ePropagator1) (longdoubles m ! edenom1)),
       StoreMatrix ePropagator2 (\<lambda>m. dm_div_scalar (matrices m ! ePropagator2) (longdoubles m ! edenom2)),
       StoreMatrix gamma0 (\<lambda>m. kDiracGamma pkg 0)]
      @ for_each 2 (\<lambda>gi. for_each 2 (\<lambda>gf.
         [StoreMatrix epsI (\<lambda>m. SlashC pkg (Eps pkg (photons m ! gI) (gi + 1))),
          StoreMatrix epsF (\<lambda>m. SlashC pkg (EpsStar pkg (photons m ! gF) (gf + 1))),
          StoreMatrix D (\<lambda>m.
             dm_plus (dm_times (dm_times (matrices m ! epsF) (matrices m ! ePropagator1))
                               (matrices m ! epsI))
                     (dm_times (dm_times (matrices m ! epsI) (matrices m ! ePropagator2))
                               (matrices m ! epsF)))]
         @ for_each 2 (\<lambda>hi. for_each 2 (\<lambda>hf.
            [StoreComplex (invAmp hi hf gi gf) (\<lambda>m.
               SpinorScalarProd pkg (spinors m ! uF hf)
                  (dm_apply (matrices m ! D) (spinors m ! uI hi)))]))))
      @ [StoreComplex ampSquared (\<lambda>m. 0)]
      @ for_each 2 (\<lambda>gi. for_each 2 (\<lambda>gibar. for_each 2 (\<lambda>gf. for_each 2 (\<lambda>gfbar.
        for_each 2 (\<lambda>hi. for_each 2 (\<lambda>hibar. for_each 2 (\<lambda>hf. for_each 2 (\<lambda>hfbar.
         [StoreComplex ampSquared (\<lambda>m.
            complexes m ! ampSquared
              + complexes m ! invAmp hi hf gi gf
                  * cnj (complexes m ! invAmp hibar hfbar gibar gfbar)
                  * TLepton.SDM (leptons m ! eI) hi hibar
                  * TLepton.SDM (leptons m ! eF) hfbar hf
                  * TPhoton.SDM (photons m ! gI) gi gibar
                  * TPhoton.SDM (photons m ! gF) gfbar gf)]))))))))
      @ [StoreLongDouble fluxIn (\<lambda>m.
           4 * component (TPhoton.Mom (photons m ! gI)) 0
             * (Length (TLepton.Mom (leptons m ! eI))
                  + component (TLepton.Mom (leptons m ! eI)) 0)),
         StoreLongDouble rhoFin (\<lambda>m.
           sqr (component (TPhoton.Mom (photons m ! gF)) 0)
             / ScalarProd (TLepton.Mom (leptons m ! eF)) (TPhoton.Mom (photons m ! gF)) / 4),
         StoreLongDouble kinFactor (\<lambda>m. 4 * longdoubles m ! rhoFin / longdoubles m ! fluxIn),
         StoreLongDouble diffXsect (\<lambda>m.
           hbarcSqr pkg * sqr (alphaQED pkg) * Re (complexes m ! ampSquared)
             * longdoubles m ! kinFactor)])"

text \<open>
  The call: the memory when the body has run as far as its \<^verbatim>\<open>return\<close>, the value of
  \<^verbatim>\<open>diffXsect\<close> there, and the memory after the return. The statements behind
  \<^verbatim>\<open>return diffXsect\<close> are not reached.
\<close>

definition Compton_at_return ::
  "Dirac_package \<Rightarrow> nat \<Rightarrow> nat \<Rightarrow> nat \<Rightarrow> nat \<Rightarrow> memory \<Rightarrow> memory" where
  "Compton_at_return pkg gIn eIn gOut eOut m =
     run (Compton_body pkg (top_of m) gIn eIn gOut eOut) (enter 2 2 0 4 7 7 17 m)"

definition Compton_call ::
  "Dirac_package \<Rightarrow> nat \<Rightarrow> nat \<Rightarrow> nat \<Rightarrow> nat \<Rightarrow> memory \<Rightarrow> LDouble_t \<times> memory" where
  "Compton_call pkg gIn eIn gOut eOut m =
     (let locals = Compton_at_return pkg gIn eIn gOut eOut m
      in (longdoubles locals ! (first_longdouble (top_of m) + 6), leave (top_of m) locals))"

subsection \<open>Bremsstrahlung\<close>

definition Bremsstrahlung_body ::
  "Dirac_package \<Rightarrow> frame \<Rightarrow> nat \<Rightarrow> nat \<Rightarrow> nat \<Rightarrow> statement list" where
  "Bremsstrahlung_body pkg f eIn eOut gOut =
     (let eIncoming = first_lepton f; eI = eIncoming;
          gOutgoing = first_photon f; gF = gOutgoing;
          eOutgoing = first_lepton f + 1; eF = eOutgoing;
          uI = (\<lambda>h. first_spinor f + h);
          uF = (\<lambda>h. first_spinor f + 2 + h);
          mLepton = first_longdouble f;
          qRecoil = first_fourvector f;
          dm = first_matrix f;
          edenom1 = first_longdouble f + 1;
          edenom2 = first_longdouble f + 2;
          ePropagator1 = first_matrix f + 1;
          ePropagator2 = first_matrix f + 2;
          gamma0 = first_matrix f + 3;
          invAmp = (\<lambda>hi hf gf. first_complex f + (4 * hi + 2 * hf + gf));
          D = first_matrix f + 4;
          epsF = first_matrix f + 5;
          ampSquared = first_complex f + 8;
          AAbar = (\<lambda>gf gfbar. first_complex f + 9 + (2 * gf + gfbar));
          term = first_complex f + 13;
          kinFactor = first_longdouble f + 3;
          diffXsect = first_longdouble f + 4
      in
      [StoreLepton eIncoming (\<lambda>m. leptons m ! eIn),
       StorePhoton gOutgoing (\<lambda>m. photons m ! gOut),
       StoreLepton eOutgoing (\<lambda>m. leptons m ! eOut),
       StoreSpinor (uI 0) (\<lambda>m. SetStateU pkg (TLepton.Mom (leptons m ! eI)) (1 / 2)),
       StoreSpinor (uI 1) (\<lambda>m. SetStateU pkg (TLepton.Mom (leptons m ! eI)) (- (1 / 2))),
       StoreSpinor (uF 0) (\<lambda>m. SetStateU pkg (TLepton.Mom (leptons m ! eF)) (1 / 2)),
       StoreSpinor (uF 1) (\<lambda>m. SetStateU pkg (TLepton.Mom (leptons m ! eF)) (- (1 / 2))),
       StoreLongDouble mLepton (\<lambda>m. Mass (leptons m ! eI)),
       StoreFourVector qRecoil (\<lambda>m. op_minus (op_minus (TLepton.Mom (leptons m ! eI)) (TLepton.Mom (leptons m ! eF))) (TPhoton.Mom (photons m ! gF))),
       StoreLongDouble edenom1 (\<lambda>m. InvariantSqr (fourvectors m ! qRecoil)
            - 2 * ScalarProd (fourvectors m ! qRecoil) (TLepton.Mom (leptons m ! eI))),
       StoreLongDouble edenom2 (\<lambda>m. InvariantSqr (fourvectors m ! qRecoil)
            + 2 * ScalarProd (fourvectors m ! qRecoil) (TLepton.Mom (leptons m ! eF))),
       StoreMatrix dm (\<lambda>m. Slash pkg (op_minus (TLepton.Mom (leptons m ! eI)) (fourvectors m ! qRecoil))),
       StoreMatrix ePropagator1 (\<lambda>m. dm_plus_scalar (matrices m ! dm) (longdoubles m ! mLepton)),
       StoreMatrix dm (\<lambda>m. Slash pkg (op_plus (TLepton.Mom (leptons m ! eF)) (fourvectors m ! qRecoil))),
       StoreMatrix ePropagator2 (\<lambda>m. dm_plus_scalar (matrices m ! dm) (longdoubles m ! mLepton)),
       StoreMatrix ePropagator1 (\<lambda>m. dm_div_scalar (matrices m ! ePropagator1) (longdoubles m ! edenom1)),
       StoreMatrix ePropagator2 (\<lambda>m. dm_div_scalar (matrices m ! ePropagator2) (longdoubles m ! edenom2)),
       StoreMatrix gamma0 (\<lambda>m. kDiracGamma pkg 0)]
      @ for_each 2 (\<lambda>gf.
         [StoreMatrix epsF (\<lambda>m. SlashC pkg (EpsStar pkg (photons m ! gF) (gf + 1))),
          StoreMatrix D (\<lambda>m.
             dm_plus (dm_times (dm_times (matrices m ! epsF) (matrices m ! ePropagator1))
                               (matrices m ! gamma0))
                     (dm_times (dm_times (matrices m ! gamma0) (matrices m ! ePropagator2))
                               (matrices m ! epsF)))]
         @ for_each 2 (\<lambda>hi. for_each 2 (\<lambda>hf.
            [StoreComplex (invAmp hi hf gf) (\<lambda>m.
               SpinorScalarProd pkg (spinors m ! uF hf)
                  (dm_apply (matrices m ! D) (spinors m ! uI hi)))])))
      @ [StoreComplex ampSquared (\<lambda>m. 0)]
      @ for_each 2 (\<lambda>gf. for_each 2 (\<lambda>gfbar. [StoreComplex (AAbar gf gfbar) (\<lambda>m. 0)]))
      @ for_each 2 (\<lambda>gf. for_each 2 (\<lambda>gfbar.
        for_each 2 (\<lambda>hi. for_each 2 (\<lambda>hibar. for_each 2 (\<lambda>hf. for_each 2 (\<lambda>hfbar.
         [StoreComplex term (\<lambda>m.
            complexes m ! invAmp hi hf gf
              * cnj (complexes m ! invAmp hibar hfbar gfbar)
              * TLepton.SDM (leptons m ! eI) hi hibar
              * TLepton.SDM (leptons m ! eF) hfbar hf
              * TPhoton.SDM (photons m ! gF) gfbar gf),
          StoreComplex (AAbar gf gfbar) (\<lambda>m. complexes m ! AAbar gf gfbar + complexes m ! term),
          StoreComplex ampSquared (\<lambda>m. complexes m ! ampSquared + complexes m ! term)]))))))
      @ [StoreLongDouble kinFactor (\<lambda>m.
           1 / sqr (2 * PI_value * component (TLepton.Mom (leptons m ! eI)) 0)),
         StoreLongDouble diffXsect (\<lambda>m.
           hbarcSqr pkg * alphaQED pkg ^ 3 * Re (complexes m ! ampSquared)
             * longdoubles m ! kinFactor / sqr (InvariantSqr (fourvectors m ! qRecoil)))])"

definition Bremsstrahlung_at_return ::
  "Dirac_package \<Rightarrow> nat \<Rightarrow> nat \<Rightarrow> nat \<Rightarrow> memory \<Rightarrow> memory" where
  "Bremsstrahlung_at_return pkg eIn eOut gOut m =
     run (Bremsstrahlung_body pkg (top_of m) eIn eOut gOut) (enter 1 2 1 4 6 5 14 m)"

definition Bremsstrahlung_call ::
  "Dirac_package \<Rightarrow> nat \<Rightarrow> nat \<Rightarrow> nat \<Rightarrow> memory \<Rightarrow> LDouble_t \<times> memory" where
  "Bremsstrahlung_call pkg eIn eOut gOut m =
     (let locals = Bremsstrahlung_at_return pkg eIn eOut gOut m
      in (longdoubles locals ! (first_longdouble (top_of m) + 4), leave (top_of m) locals))"

subsection \<open>PairProduction\<close>

definition PairProduction_body ::
  "Dirac_package \<Rightarrow> frame \<Rightarrow> nat \<Rightarrow> nat \<Rightarrow> nat \<Rightarrow> statement list" where
  "PairProduction_body pkg f gIn eOut pOut =
     (let gIncoming = first_photon f; gI = gIncoming;
          eOutgoing = first_lepton f; eF = eOutgoing;
          pOutgoing = first_lepton f + 1; pF = pOutgoing;
          uF = (\<lambda>h. first_spinor f + h);
          vF = (\<lambda>h. first_spinor f + 2 + h);
          mLepton = first_longdouble f;
          qRecoil = first_fourvector f;
          dm = first_matrix f;
          edenom1 = first_longdouble f + 1;
          edenom2 = first_longdouble f + 2;
          ePropagator1 = first_matrix f + 1;
          ePropagator2 = first_matrix f + 2;
          gamma0 = first_matrix f + 3;
          invAmp = (\<lambda>hi hf gi. first_complex f + (4 * hi + 2 * hf + gi));
          D = first_matrix f + 4;
          epsI = first_matrix f + 5;
          ampSquared = first_complex f + 8;
          kinFactor = first_longdouble f + 3;
          diffXsect = first_longdouble f + 4
      in
      [StorePhoton gIncoming (\<lambda>m. photons m ! gIn),
       StoreLepton eOutgoing (\<lambda>m. leptons m ! eOut),
       StoreLepton pOutgoing (\<lambda>m. leptons m ! pOut),
       StoreSpinor (uF 0) (\<lambda>m. SetStateU pkg (TLepton.Mom (leptons m ! eF)) (1 / 2)),
       StoreSpinor (uF 1) (\<lambda>m. SetStateU pkg (TLepton.Mom (leptons m ! eF)) (- (1 / 2))),
       StoreSpinor (vF 0) (\<lambda>m. SetStateV pkg (TLepton.Mom (leptons m ! pF)) (1 / 2)),
       StoreSpinor (vF 1) (\<lambda>m. SetStateV pkg (TLepton.Mom (leptons m ! pF)) (- (1 / 2))),
       StoreLongDouble mLepton (\<lambda>m. Mass (leptons m ! eF)),
       StoreFourVector qRecoil (\<lambda>m. op_minus (op_minus (TPhoton.Mom (photons m ! gI)) (TLepton.Mom (leptons m ! eF))) (TLepton.Mom (leptons m ! pF))),
       StoreLongDouble edenom1 (\<lambda>m. - 2 * ScalarProd (TPhoton.Mom (photons m ! gI)) (TLepton.Mom (leptons m ! eF))),
       StoreLongDouble edenom2 (\<lambda>m. - 2 * ScalarProd (TPhoton.Mom (photons m ! gI)) (TLepton.Mom (leptons m ! pF))),
       StoreMatrix dm (\<lambda>m. Slash pkg (op_minus (TLepton.Mom (leptons m ! eF)) (TPhoton.Mom (photons m ! gI)))),
       StoreMatrix ePropagator1 (\<lambda>m. dm_plus_scalar (matrices m ! dm) (longdoubles m ! mLepton)),
       StoreMatrix dm (\<lambda>m. Slash pkg (op_minus (TPhoton.Mom (photons m ! gI)) (TLepton.Mom (leptons m ! pF)))),
       StoreMatrix ePropagator2 (\<lambda>m. dm_plus_scalar (matrices m ! dm) (longdoubles m ! mLepton)),
       StoreMatrix ePropagator1 (\<lambda>m. dm_div_scalar (matrices m ! ePropagator1) (longdoubles m ! edenom1)),
       StoreMatrix ePropagator2 (\<lambda>m. dm_div_scalar (matrices m ! ePropagator2) (longdoubles m ! edenom2)),
       StoreMatrix gamma0 (\<lambda>m. kDiracGamma pkg 0)]
      @ for_each 2 (\<lambda>gi.
         [StoreMatrix epsI (\<lambda>m. SlashC pkg (Eps pkg (photons m ! gI) (gi + 1))),
          StoreMatrix D (\<lambda>m.
             dm_plus (dm_times (dm_times (matrices m ! epsI) (matrices m ! ePropagator1))
                               (matrices m ! gamma0))
                     (dm_times (dm_times (matrices m ! gamma0) (matrices m ! ePropagator2))
                               (matrices m ! epsI)))]
         @ for_each 2 (\<lambda>hi. for_each 2 (\<lambda>hf.
            [StoreComplex (invAmp hi hf gi) (\<lambda>m.
               SpinorScalarProd pkg (spinors m ! uF hf)
                  (dm_apply (matrices m ! D) (spinors m ! vF hi)))])))
      @ [StoreComplex ampSquared (\<lambda>m. 0)]
      @ for_each 2 (\<lambda>gi. for_each 2 (\<lambda>gibar.
        for_each 2 (\<lambda>hi. for_each 2 (\<lambda>hibar. for_each 2 (\<lambda>hf. for_each 2 (\<lambda>hfbar.
         [StoreComplex ampSquared (\<lambda>m.
            complexes m ! ampSquared
              + complexes m ! invAmp hi hf gi
                  * cnj (complexes m ! invAmp hibar hfbar gibar)
                  * TLepton.SDM (leptons m ! pF) hi hibar
                  * TLepton.SDM (leptons m ! eF) hfbar hf
                  * TPhoton.SDM (photons m ! gI) gi gibar)]))))))
      @ [StoreLongDouble kinFactor (\<lambda>m.
           1 / sqr (2 * PI_value * component (TPhoton.Mom (photons m ! gI)) 0)),
         StoreLongDouble diffXsect (\<lambda>m.
           hbarcSqr pkg * alphaQED pkg ^ 3 * Re (complexes m ! ampSquared)
             * longdoubles m ! kinFactor / sqr (InvariantSqr (fourvectors m ! qRecoil)))])"

definition PairProduction_at_return ::
  "Dirac_package \<Rightarrow> nat \<Rightarrow> nat \<Rightarrow> nat \<Rightarrow> memory \<Rightarrow> memory" where
  "PairProduction_at_return pkg gIn eOut pOut m =
     run (PairProduction_body pkg (top_of m) gIn eOut pOut) (enter 1 2 1 4 6 5 9 m)"

definition PairProduction_call ::
  "Dirac_package \<Rightarrow> nat \<Rightarrow> nat \<Rightarrow> nat \<Rightarrow> memory \<Rightarrow> LDouble_t \<times> memory" where
  "PairProduction_call pkg gIn eOut pOut m =
     (let locals = PairProduction_at_return pkg gIn eOut pOut m
      in (longdoubles locals ! (first_longdouble (top_of m) + 4), leave (top_of m) locals))"

subsection \<open>TripletProduction\<close>

definition TripletProduction_body ::
  "Dirac_package \<Rightarrow> frame \<Rightarrow> nat \<Rightarrow> nat \<Rightarrow> nat \<Rightarrow> nat \<Rightarrow> nat \<Rightarrow> statement list" where
  "TripletProduction_body pkg f gIn eIn pOut eOut2 eOut3 =
     (let gIncoming = first_photon f; g0 = gIncoming;
          eIncoming = first_lepton f; e0 = eIncoming;
          pOutgoing = first_lepton f + 1; e1 = pOutgoing;
          eOutgoing2 = first_lepton f + 2; e2 = eOutgoing2;
          eOutgoing3 = first_lepton f + 3; e3 = eOutgoing3;
          mLepton = first_longdouble f;
          u0 = (\<lambda>h. first_spinor f + 0 + h);
          v1 = (\<lambda>h. first_spinor f + 2 + h);
          u2 = (\<lambda>h. first_spinor f + 4 + h);
          u3 = (\<lambda>h. first_spinor f + 6 + h);
          dm = first_matrix f;
          edenomCD2a = first_longdouble f + 1;
          edenomCD2b = first_longdouble f + 2;
          edenomBH2a = first_longdouble f + 3;
          edenomBH2b = first_longdouble f + 4;
          epropCD2a = first_matrix f + 1;
          epropCD2b = first_matrix f + 2;
          epropBH2a = first_matrix f + 3;
          epropBH2b = first_matrix f + 4;
          epropCD3a = first_matrix f + 5;
          epropCD3b = first_matrix f + 6;
          epropBH3a = first_matrix f + 7;
          epropBH3b = first_matrix f + 8;
          gpropCD2 = first_longdouble f + 5;
          gpropBH2 = first_longdouble f + 6;
          gpropCD3 = first_longdouble f + 7;
          gpropBH3 = first_longdouble f + 8;
          gamma0 = first_matrix f + 9;
          gamma1 = first_matrix f + 10;
          gamma2 = first_matrix f + 11;
          gamma3 = first_matrix f + 12;
          gamma = (\<lambda>mu. first_matrix f + 13 + mu);
          invAmp = (\<lambda>h0 h1 h2 h3 gi.
                      first_complex f + (16 * h0 + 8 * h1 + 4 * h2 + 2 * h3 + gi));
          epsI = first_matrix f + 17;
          CD2 = first_matrix f + 18;
          BH2 = first_matrix f + 19;
          CD3 = first_matrix f + 20;
          BH3 = first_matrix f + 21;
          ampSquared = first_complex f + 32;
          fluxFactor = first_longdouble f + 9;
          rhoFactor = first_longdouble f + 10;
          piFactor = first_longdouble f + 11;
          diffXsect = first_longdouble f + 12
      in
      [StorePhoton gIncoming (\<lambda>m. photons m ! gIn),
       StoreLepton eIncoming (\<lambda>m. leptons m ! eIn),
       StoreLepton pOutgoing (\<lambda>m. leptons m ! pOut),
       StoreLepton eOutgoing2 (\<lambda>m. leptons m ! eOut2),
       StoreLepton eOutgoing3 (\<lambda>m. leptons m ! eOut3),
       StoreLongDouble mLepton (\<lambda>m. Mass (leptons m ! e0)),
       StoreSpinor (u0 0) (\<lambda>m. SetStateU pkg (TLepton.Mom (leptons m ! e0)) (1 / 2)),
       StoreSpinor (u0 1) (\<lambda>m. SetStateU pkg (TLepton.Mom (leptons m ! e0)) (- (1 / 2))),
       StoreSpinor (v1 0) (\<lambda>m. SetStateV pkg (TLepton.Mom (leptons m ! e1)) (1 / 2)),
       StoreSpinor (v1 1) (\<lambda>m. SetStateV pkg (TLepton.Mom (leptons m ! e1)) (- (1 / 2))),
       StoreSpinor (u2 0) (\<lambda>m. SetStateU pkg (TLepton.Mom (leptons m ! e2)) (1 / 2)),
       StoreSpinor (u2 1) (\<lambda>m. SetStateU pkg (TLepton.Mom (leptons m ! e2)) (- (1 / 2))),
       StoreSpinor (u3 0) (\<lambda>m. SetStateU pkg (TLepton.Mom (leptons m ! e3)) (1 / 2)),
       StoreSpinor (u3 1) (\<lambda>m. SetStateU pkg (TLepton.Mom (leptons m ! e3)) (- (1 / 2))),
       StoreLongDouble edenomCD2a (\<lambda>m. 2 * ScalarProd (TPhoton.Mom (photons m ! g0)) (TLepton.Mom (leptons m ! e0))),
       StoreLongDouble edenomCD2b (\<lambda>m. - 2 * ScalarProd (TPhoton.Mom (photons m ! g0)) (TLepton.Mom (leptons m ! e2))),
       StoreLongDouble edenomBH2a (\<lambda>m. - 2 * ScalarProd (TPhoton.Mom (photons m ! g0)) (TLepton.Mom (leptons m ! e1))),
       StoreLongDouble edenomBH2b (\<lambda>m. - 2 * ScalarProd (TPhoton.Mom (photons m ! g0)) (TLepton.Mom (leptons m ! e3))),
       StoreMatrix dm (\<lambda>m. Slash pkg (op_plus (TPhoton.Mom (photons m ! g0)) (TLepton.Mom (leptons m ! e0)))),
       StoreMatrix epropCD2a (\<lambda>m. dm_plus_scalar (matrices m ! dm) (longdoubles m ! mLepton)),
       StoreMatrix dm (\<lambda>m. Slash pkg (op_minus (TLepton.Mom (leptons m ! e2)) (TPhoton.Mom (photons m ! g0)))),
       StoreMatrix epropCD2b (\<lambda>m. dm_plus_scalar (matrices m ! dm) (longdoubles m ! mLepton)),
       StoreMatrix dm (\<lambda>m. Slash pkg (op_minus (TPhoton.Mom (photons m ! g0)) (TLepton.Mom (leptons m ! e1)))),
       StoreMatrix epropBH2a (\<lambda>m. dm_plus_scalar (matrices m ! dm) (longdoubles m ! mLepton)),
       StoreMatrix dm (\<lambda>m. Slash pkg (op_minus (TLepton.Mom (leptons m ! e3)) (TPhoton.Mom (photons m ! g0)))),
       StoreMatrix epropBH2b (\<lambda>m. dm_plus_scalar (matrices m ! dm) (longdoubles m ! mLepton)),
       StoreMatrix epropCD2a (\<lambda>m. dm_div_scalar (matrices m ! epropCD2a) (longdoubles m ! edenomCD2a)),
       StoreMatrix epropCD2b (\<lambda>m. dm_div_scalar (matrices m ! epropCD2b) (longdoubles m ! edenomCD2b)),
       StoreMatrix epropBH2a (\<lambda>m. dm_div_scalar (matrices m ! epropBH2a) (longdoubles m ! edenomBH2a)),
       StoreMatrix epropBH2b (\<lambda>m. dm_div_scalar (matrices m ! epropBH2b) (longdoubles m ! edenomBH2b)),
       StoreMatrix epropCD3a (\<lambda>m. matrices m ! epropCD2a),
       StoreMatrix epropCD3b (\<lambda>m. matrices m ! epropBH2b),
       StoreMatrix epropBH3a (\<lambda>m. matrices m ! epropBH2a),
       StoreMatrix epropBH3b (\<lambda>m. matrices m ! epropCD2b),
       StoreLongDouble gpropCD2 (\<lambda>m. 1 / InvariantSqr (op_plus (TLepton.Mom (leptons m ! e1)) (TLepton.Mom (leptons m ! e3)))),
       StoreLongDouble gpropBH2 (\<lambda>m. 1 / InvariantSqr (op_minus (TLepton.Mom (leptons m ! e0)) (TLepton.Mom (leptons m ! e2)))),
       StoreLongDouble gpropCD3 (\<lambda>m. 1 / InvariantSqr (op_plus (TLepton.Mom (leptons m ! e1)) (TLepton.Mom (leptons m ! e2)))),
       StoreLongDouble gpropBH3 (\<lambda>m. 1 / InvariantSqr (op_minus (TLepton.Mom (leptons m ! e0)) (TLepton.Mom (leptons m ! e3)))),
       StoreMatrix gamma0 (\<lambda>m. kDiracGamma pkg 0),
       StoreMatrix gamma1 (\<lambda>m. kDiracGamma pkg 1),
       StoreMatrix gamma2 (\<lambda>m. kDiracGamma pkg 2),
       StoreMatrix gamma3 (\<lambda>m. kDiracGamma pkg 3),
       StoreMatrix (gamma 0) (\<lambda>m. matrices m ! gamma0),
       StoreMatrix (gamma 1) (\<lambda>m. matrices m ! gamma1),
       StoreMatrix (gamma 2) (\<lambda>m. matrices m ! gamma2),
       StoreMatrix (gamma 3) (\<lambda>m. matrices m ! gamma3)]
      @ for_each 32 (\<lambda>k. [StoreComplex (first_complex f + k) (\<lambda>m. 0)])
      @ for_each 2 (\<lambda>gi. for_each 4 (\<lambda>mu.
         [StoreMatrix epsI (\<lambda>m. SlashC pkg (Eps pkg (photons m ! g0) (gi + 1))),
          StoreMatrix CD2 (\<lambda>m.
             dm_plus (dm_times (dm_times (matrices m ! gamma mu) (matrices m ! epropCD2a))
                               (matrices m ! epsI))
                     (dm_times (dm_times (matrices m ! epsI) (matrices m ! epropCD2b))
                               (matrices m ! gamma mu))),
          StoreMatrix CD2 (\<lambda>m. dm_times_scalar (matrices m ! CD2) (longdoubles m ! gpropCD2)),
          StoreMatrix BH2 (\<lambda>m.
             dm_plus (dm_times (dm_times (matrices m ! gamma mu) (matrices m ! epropBH2a))
                               (matrices m ! epsI))
                     (dm_times (dm_times (matrices m ! epsI) (matrices m ! epropBH2b))
                               (matrices m ! gamma mu))),
          StoreMatrix BH2 (\<lambda>m. dm_times_scalar (matrices m ! BH2) (longdoubles m ! gpropBH2)),
          StoreMatrix CD3 (\<lambda>m.
             dm_plus (dm_times (dm_times (matrices m ! gamma mu) (matrices m ! epropCD3a))
                               (matrices m ! epsI))
                     (dm_times (dm_times (matrices m ! epsI) (matrices m ! epropCD3b))
                               (matrices m ! gamma mu))),
          StoreMatrix CD3 (\<lambda>m. dm_times_scalar (matrices m ! CD3) (longdoubles m ! gpropCD3)),
          StoreMatrix BH3 (\<lambda>m.
             dm_plus (dm_times (dm_times (matrices m ! gamma mu) (matrices m ! epropBH3a))
                               (matrices m ! epsI))
                     (dm_times (dm_times (matrices m ! epsI) (matrices m ! epropBH3b))
                               (matrices m ! gamma mu))),
          StoreMatrix BH3 (\<lambda>m. dm_times_scalar (matrices m ! BH3) (longdoubles m ! gpropBH3))]
         @ for_each 2 (\<lambda>h0. for_each 2 (\<lambda>h1. for_each 2 (\<lambda>h2. for_each 2 (\<lambda>h3.
            [StoreComplex (invAmp h0 h1 h2 h3 gi) (\<lambda>m.
               complexes m ! invAmp h0 h1 h2 h3 gi
                 + of_real (if mu = 0 then 1 else - 1) * (
                     SpinorScalarProd pkg (spinors m ! u3 h3) (dm_apply (matrices m ! gamma mu) (spinors m ! v1 h1))
                     * SpinorScalarProd pkg (spinors m ! u2 h2) (dm_apply (matrices m ! CD2) (spinors m ! u0 h0))
                   - SpinorScalarProd pkg (spinors m ! u2 h2) (dm_apply (matrices m ! gamma mu) (spinors m ! v1 h1))
                     * SpinorScalarProd pkg (spinors m ! u3 h3) (dm_apply (matrices m ! CD3) (spinors m ! u0 h0))
                   + SpinorScalarProd pkg (spinors m ! u2 h2) (dm_apply (matrices m ! gamma mu) (spinors m ! u0 h0))
                     * SpinorScalarProd pkg (spinors m ! u3 h3) (dm_apply (matrices m ! BH2) (spinors m ! v1 h1))
                   - SpinorScalarProd pkg (spinors m ! u3 h3) (dm_apply (matrices m ! gamma mu) (spinors m ! u0 h0))
                     * SpinorScalarProd pkg (spinors m ! u2 h2) (dm_apply (matrices m ! BH3) (spinors m ! v1 h1))))]))))))
      @ [StoreComplex ampSquared (\<lambda>m. 0)]
      @ for_each 2 (\<lambda>gi. for_each 2 (\<lambda>gibar.
        for_each 2 (\<lambda>h0. for_each 2 (\<lambda>h0bar. for_each 2 (\<lambda>h1. for_each 2 (\<lambda>h1bar.
        for_each 2 (\<lambda>h2. for_each 2 (\<lambda>h2bar. for_each 2 (\<lambda>h3. for_each 2 (\<lambda>h3bar.
         [StoreComplex ampSquared (\<lambda>m.
            complexes m ! ampSquared
              + complexes m ! invAmp h0 h1 h2 h3 gi
                  * cnj (complexes m ! invAmp h0bar h1bar h2bar h3bar gibar)
                  * TLepton.SDM (leptons m ! e0) h0 h0bar
                  * TLepton.SDM (leptons m ! e1) h1 h1bar
                  * TLepton.SDM (leptons m ! e2) h2bar h2
                  * TLepton.SDM (leptons m ! e3) h3bar h3
                  * TPhoton.SDM (photons m ! g0) gi gibar)]))))))))))
      @ [StoreLongDouble fluxFactor (\<lambda>m.
           4 * component (TPhoton.Mom (photons m ! g0)) 0
             * (Length (TLepton.Mom (leptons m ! e0)) + component (TLepton.Mom (leptons m ! e0)) 0)),
         StoreLongDouble rhoFactor (\<lambda>m.
           1 / (8 * component (TLepton.Mom (leptons m ! e3)) 0 * Length (op_plus (TLepton.Mom (leptons m ! e1)) (TLepton.Mom (leptons m ! e2))))),
         StoreLongDouble piFactor (\<lambda>m. (2 * PI_value) powi (4 - 9) * (4 * PI_value) ^ 3),
         StoreLongDouble diffXsect (\<lambda>m.
           hbarcSqr pkg * alphaQED pkg ^ 3 * Re (complexes m ! ampSquared)
             / longdoubles m ! fluxFactor * longdoubles m ! rhoFactor * longdoubles m ! piFactor)])"

definition TripletProduction_at_return ::
  "Dirac_package \<Rightarrow> nat \<Rightarrow> nat \<Rightarrow> nat \<Rightarrow> nat \<Rightarrow> nat \<Rightarrow> memory \<Rightarrow> memory" where
  "TripletProduction_at_return pkg gIn eIn pOut eOut2 eOut3 m =
     run (TripletProduction_body pkg (top_of m) gIn eIn pOut eOut2 eOut3) (enter 1 4 0 8 22 13 33 m)"

definition TripletProduction_call ::
  "Dirac_package \<Rightarrow> nat \<Rightarrow> nat \<Rightarrow> nat \<Rightarrow> nat \<Rightarrow> nat \<Rightarrow> memory
     \<Rightarrow> LDouble_t \<times> memory" where
  "TripletProduction_call pkg gIn eIn pOut eOut2 eOut3 m =
     (let locals = TripletProduction_at_return pkg gIn eIn pOut eOut2 eOut3 m
      in (longdoubles locals ! (first_longdouble (top_of m) + 12),
          leave (top_of m) locals))"

subsection \<open>eeBremsstrahlung\<close>

definition eeBremsstrahlung_body ::
  "Dirac_package \<Rightarrow> frame \<Rightarrow> nat \<Rightarrow> nat \<Rightarrow> nat \<Rightarrow> nat \<Rightarrow> nat \<Rightarrow> statement list" where
  "eeBremsstrahlung_body pkg f eIn0 eIn1 eOut2 eOut3 gOut =
     (let eIncoming0 = first_lepton f; e0 = eIncoming0;
          eIncoming1 = first_lepton f + 1; e1 = eIncoming1;
          eOutgoing2 = first_lepton f + 2; e2 = eOutgoing2;
          eOutgoing3 = first_lepton f + 3; e3 = eOutgoing3;
          gOutgoing = first_photon f; g0 = gOutgoing;
          mLepton = first_longdouble f;
          u0 = (\<lambda>h. first_spinor f + 0 + h);
          u1 = (\<lambda>h. first_spinor f + 2 + h);
          u2 = (\<lambda>h. first_spinor f + 4 + h);
          u3 = (\<lambda>h. first_spinor f + 6 + h);
          dm = first_matrix f;
          edenomA1 = first_longdouble f + 1;
          edenomA2 = first_longdouble f + 2;
          edenomB1 = first_longdouble f + 3;
          edenomB2 = first_longdouble f + 4;
          epropA1 = first_matrix f + 1;
          epropA2 = first_matrix f + 2;
          epropB1 = first_matrix f + 3;
          epropB2 = first_matrix f + 4;
          epropC1 = first_matrix f + 5;
          epropC2 = first_matrix f + 6;
          epropD1 = first_matrix f + 7;
          epropD2 = first_matrix f + 8;
          gpropA = first_longdouble f + 5;
          gpropB = first_longdouble f + 6;
          gpropC = first_longdouble f + 7;
          gpropD = first_longdouble f + 8;
          gamma0 = first_matrix f + 9;
          gamma1 = first_matrix f + 10;
          gamma2 = first_matrix f + 11;
          gamma3 = first_matrix f + 12;
          gamma = (\<lambda>mu. first_matrix f + 13 + mu);
          invAmp = (\<lambda>h0 h1 h2 h3 gf.
                      first_complex f + (16 * h0 + 8 * h1 + 4 * h2 + 2 * h3 + gf));
          epsF = first_matrix f + 17;
          A = first_matrix f + 18;
          B = first_matrix f + 19;
          C = first_matrix f + 20;
          D = first_matrix f + 21;
          ampSquared = first_complex f + 32;
          kinFactor = first_longdouble f + 9;
          diffXsect = first_longdouble f + 10
      in
      [StoreLepton eIncoming0 (\<lambda>m. leptons m ! eIn0),
       StoreLepton eIncoming1 (\<lambda>m. leptons m ! eIn1),
       StoreLepton eOutgoing2 (\<lambda>m. leptons m ! eOut2),
       StoreLepton eOutgoing3 (\<lambda>m. leptons m ! eOut3),
       StorePhoton gOutgoing (\<lambda>m. photons m ! gOut),
       StoreLongDouble mLepton (\<lambda>m. Mass (leptons m ! e0)),
       StoreSpinor (u0 0) (\<lambda>m. SetStateU pkg (TLepton.Mom (leptons m ! e0)) (1 / 2)),
       StoreSpinor (u0 1) (\<lambda>m. SetStateU pkg (TLepton.Mom (leptons m ! e0)) (- (1 / 2))),
       StoreSpinor (u1 0) (\<lambda>m. SetStateU pkg (TLepton.Mom (leptons m ! e1)) (1 / 2)),
       StoreSpinor (u1 1) (\<lambda>m. SetStateU pkg (TLepton.Mom (leptons m ! e1)) (- (1 / 2))),
       StoreSpinor (u2 0) (\<lambda>m. SetStateU pkg (TLepton.Mom (leptons m ! e2)) (1 / 2)),
       StoreSpinor (u2 1) (\<lambda>m. SetStateU pkg (TLepton.Mom (leptons m ! e2)) (- (1 / 2))),
       StoreSpinor (u3 0) (\<lambda>m. SetStateU pkg (TLepton.Mom (leptons m ! e3)) (1 / 2)),
       StoreSpinor (u3 1) (\<lambda>m. SetStateU pkg (TLepton.Mom (leptons m ! e3)) (- (1 / 2))),
       StoreLongDouble edenomA1 (\<lambda>m. - 2 * ScalarProd (TPhoton.Mom (photons m ! g0)) (TLepton.Mom (leptons m ! e0))),
       StoreLongDouble edenomA2 (\<lambda>m. 2 * ScalarProd (TPhoton.Mom (photons m ! g0)) (TLepton.Mom (leptons m ! e2))),
       StoreLongDouble edenomB1 (\<lambda>m. - 2 * ScalarProd (TPhoton.Mom (photons m ! g0)) (TLepton.Mom (leptons m ! e1))),
       StoreLongDouble edenomB2 (\<lambda>m. 2 * ScalarProd (TPhoton.Mom (photons m ! g0)) (TLepton.Mom (leptons m ! e3))),
       StoreMatrix dm (\<lambda>m. Slash pkg (op_minus (TLepton.Mom (leptons m ! e0)) (TPhoton.Mom (photons m ! g0)))),
       StoreMatrix epropA1 (\<lambda>m. dm_plus_scalar (matrices m ! dm) (longdoubles m ! mLepton)),
       StoreMatrix dm (\<lambda>m. Slash pkg (op_plus (TLepton.Mom (leptons m ! e2)) (TPhoton.Mom (photons m ! g0)))),
       StoreMatrix epropA2 (\<lambda>m. dm_plus_scalar (matrices m ! dm) (longdoubles m ! mLepton)),
       StoreMatrix dm (\<lambda>m. Slash pkg (op_minus (TLepton.Mom (leptons m ! e1)) (TPhoton.Mom (photons m ! g0)))),
       StoreMatrix epropB1 (\<lambda>m. dm_plus_scalar (matrices m ! dm) (longdoubles m ! mLepton)),
       StoreMatrix dm (\<lambda>m. Slash pkg (op_plus (TLepton.Mom (leptons m ! e3)) (TPhoton.Mom (photons m ! g0)))),
       StoreMatrix epropB2 (\<lambda>m. dm_plus_scalar (matrices m ! dm) (longdoubles m ! mLepton)),
       StoreMatrix epropA1 (\<lambda>m. dm_div_scalar (matrices m ! epropA1) (longdoubles m ! edenomA1)),
       StoreMatrix epropA2 (\<lambda>m. dm_div_scalar (matrices m ! epropA2) (longdoubles m ! edenomA2)),
       StoreMatrix epropB1 (\<lambda>m. dm_div_scalar (matrices m ! epropB1) (longdoubles m ! edenomB1)),
       StoreMatrix epropB2 (\<lambda>m. dm_div_scalar (matrices m ! epropB2) (longdoubles m ! edenomB2)),
       StoreMatrix epropC1 (\<lambda>m. matrices m ! epropA1),
       StoreMatrix epropC2 (\<lambda>m. matrices m ! epropB2),
       StoreMatrix epropD1 (\<lambda>m. matrices m ! epropB1),
       StoreMatrix epropD2 (\<lambda>m. matrices m ! epropA2),
       StoreLongDouble gpropA (\<lambda>m. 1 / InvariantSqr (op_minus (TLepton.Mom (leptons m ! e1)) (TLepton.Mom (leptons m ! e3)))),
       StoreLongDouble gpropB (\<lambda>m. 1 / InvariantSqr (op_minus (TLepton.Mom (leptons m ! e0)) (TLepton.Mom (leptons m ! e2)))),
       StoreLongDouble gpropC (\<lambda>m. 1 / InvariantSqr (op_minus (TLepton.Mom (leptons m ! e1)) (TLepton.Mom (leptons m ! e2)))),
       StoreLongDouble gpropD (\<lambda>m. 1 / InvariantSqr (op_minus (TLepton.Mom (leptons m ! e0)) (TLepton.Mom (leptons m ! e3)))),
       StoreMatrix gamma0 (\<lambda>m. kDiracGamma pkg 0),
       StoreMatrix gamma1 (\<lambda>m. kDiracGamma pkg 1),
       StoreMatrix gamma2 (\<lambda>m. kDiracGamma pkg 2),
       StoreMatrix gamma3 (\<lambda>m. kDiracGamma pkg 3),
       StoreMatrix (gamma 0) (\<lambda>m. matrices m ! gamma0),
       StoreMatrix (gamma 1) (\<lambda>m. matrices m ! gamma1),
       StoreMatrix (gamma 2) (\<lambda>m. matrices m ! gamma2),
       StoreMatrix (gamma 3) (\<lambda>m. matrices m ! gamma3)]
      @ for_each 32 (\<lambda>k. [StoreComplex (first_complex f + k) (\<lambda>m. 0)])
      @ for_each 2 (\<lambda>gf. for_each 4 (\<lambda>mu.
         [StoreMatrix epsF (\<lambda>m. SlashC pkg (EpsStar pkg (photons m ! g0) (gf + 1))),
          StoreMatrix A (\<lambda>m.
             dm_plus (dm_times (dm_times (matrices m ! gamma mu) (matrices m ! epropA1))
                               (matrices m ! epsF))
                     (dm_times (dm_times (matrices m ! epsF) (matrices m ! epropA2))
                               (matrices m ! gamma mu))),
          StoreMatrix A (\<lambda>m. dm_times_scalar (matrices m ! A) (longdoubles m ! gpropA)),
          StoreMatrix B (\<lambda>m.
             dm_plus (dm_plus (matrices m ! gamma mu) (dm_times (matrices m ! epropB1) (matrices m ! epsF)))
                     (dm_times (dm_times (matrices m ! epsF) (matrices m ! epropB2))
                               (matrices m ! gamma mu))),
          StoreMatrix B (\<lambda>m. dm_times_scalar (matrices m ! B) (longdoubles m ! gpropB)),
          StoreMatrix C (\<lambda>m.
             dm_plus (dm_plus (matrices m ! gamma mu) (dm_times (matrices m ! epropC1) (matrices m ! epsF)))
                     (dm_times (dm_times (matrices m ! epsF) (matrices m ! epropC2))
                               (matrices m ! gamma mu))),
          StoreMatrix C (\<lambda>m. dm_times_scalar (matrices m ! C) (longdoubles m ! gpropC)),
          StoreMatrix D (\<lambda>m.
             dm_plus (dm_plus (matrices m ! gamma mu) (dm_times (matrices m ! epropD1) (matrices m ! epsF)))
                     (dm_times (dm_times (matrices m ! epsF) (matrices m ! epropD2))
                               (matrices m ! gamma mu))),
          StoreMatrix D (\<lambda>m. dm_times_scalar (matrices m ! D) (longdoubles m ! gpropD))]
         @ for_each 2 (\<lambda>h0. for_each 2 (\<lambda>h1. for_each 2 (\<lambda>h2. for_each 2 (\<lambda>h3.
            [StoreComplex (invAmp h0 h1 h2 h3 gf) (\<lambda>m.
               complexes m ! invAmp h0 h1 h2 h3 gf
                 + of_real (if mu = 0 then 1 else - 1) * (
                     SpinorScalarProd pkg (spinors m ! u3 h3) (dm_apply (matrices m ! gamma mu) (spinors m ! u1 h1))
                     * SpinorScalarProd pkg (spinors m ! u2 h2) (dm_apply (matrices m ! A) (spinors m ! u0 h0))
                   + SpinorScalarProd pkg (spinors m ! u2 h2) (dm_apply (matrices m ! gamma mu) (spinors m ! u0 h0))
                     * SpinorScalarProd pkg (spinors m ! u3 h3) (dm_apply (matrices m ! B) (spinors m ! u1 h1))
                   - SpinorScalarProd pkg (spinors m ! u2 h2) (dm_apply (matrices m ! gamma mu) (spinors m ! u1 h1))
                     * SpinorScalarProd pkg (spinors m ! u3 h3) (dm_apply (matrices m ! C) (spinors m ! u0 h0))
                   - SpinorScalarProd pkg (spinors m ! u3 h3) (dm_apply (matrices m ! gamma mu) (spinors m ! u0 h0))
                     * SpinorScalarProd pkg (spinors m ! u2 h2) (dm_apply (matrices m ! D) (spinors m ! u1 h1))))]))))))
      @ [StoreComplex ampSquared (\<lambda>m. 0)]
      @ for_each 2 (\<lambda>gf. for_each 2 (\<lambda>gfbar.
        for_each 2 (\<lambda>h0. for_each 2 (\<lambda>h0bar. for_each 2 (\<lambda>h1. for_each 2 (\<lambda>h1bar.
        for_each 2 (\<lambda>h2. for_each 2 (\<lambda>h2bar. for_each 2 (\<lambda>h3. for_each 2 (\<lambda>h3bar.
         [StoreComplex ampSquared (\<lambda>m.
            complexes m ! ampSquared
              + complexes m ! invAmp h0 h1 h2 h3 gf
                  * cnj (complexes m ! invAmp h0bar h1bar h2bar h3bar gfbar)
                  * TLepton.SDM (leptons m ! e0) h0 h0bar
                  * TLepton.SDM (leptons m ! e1) h1 h1bar
                  * TLepton.SDM (leptons m ! e2) h2bar h2
                  * TLepton.SDM (leptons m ! e3) h3bar h3
                  * TPhoton.SDM (photons m ! g0) gfbar gf)]))))))))))
      @ [StoreLongDouble kinFactor (\<lambda>m. 1 / sqr (2 * PI_value * component (TLepton.Mom (leptons m ! e0)) 0)),
         StoreLongDouble kinFactor (\<lambda>m.
           longdoubles m ! kinFactor / (4 * component (TLepton.Mom (leptons m ! e1)) 0 * component (TLepton.Mom (leptons m ! e3)) 0)),
         StoreLongDouble diffXsect (\<lambda>m.
           hbarcSqr pkg * alphaQED pkg ^ 3 * Re (complexes m ! ampSquared)
             * longdoubles m ! kinFactor)])"

definition eeBremsstrahlung_at_return ::
  "Dirac_package \<Rightarrow> nat \<Rightarrow> nat \<Rightarrow> nat \<Rightarrow> nat \<Rightarrow> nat \<Rightarrow> memory \<Rightarrow> memory" where
  "eeBremsstrahlung_at_return pkg eIn0 eIn1 eOut2 eOut3 gOut m =
     run (eeBremsstrahlung_body pkg (top_of m) eIn0 eIn1 eOut2 eOut3 gOut) (enter 1 4 0 8 22 11 33 m)"

definition eeBremsstrahlung_call ::
  "Dirac_package \<Rightarrow> nat \<Rightarrow> nat \<Rightarrow> nat \<Rightarrow> nat \<Rightarrow> nat \<Rightarrow> memory
     \<Rightarrow> LDouble_t \<times> memory" where
  "eeBremsstrahlung_call pkg eIn0 eIn1 eOut2 eOut3 gOut m =
     (let locals = eeBremsstrahlung_at_return pkg eIn0 eIn1 eOut2 eOut3 gOut m
      in (longdoubles locals ! (first_longdouble (top_of m) + 10),
          leave (top_of m) locals))"

text \<open>A memory of the caller: the particles of the examples, and nothing else.\<close>

definition ex_memory :: memory where
  "ex_memory =
     \<lparr> photons = [ex_g], leptons = [ex_e0, ex_e1, ex_e2, ex_e3], fourvectors = [],
       spinors = [], matrices = [], longdoubles = [], complexes = [] \<rparr>"

section \<open>Amplitudes with non-finite values\<close>

text \<open>
  The machine types have values that are not numbers of the model above: the infinities
  and NaN. To follow a division by zero, a long double is here either a finite value or
  non-finite, and a complex number is either finite or has both of its parts non-finite.
  Finite values are computed with exactly as before. A quotient by zero is non-finite,
  whatever the numerator (\<open>x/0\<close> is an infinity, \<open>0/0\<close> is NaN), in both parts for a complex
  numerator; a sum, a difference or a product with a non-finite operand is non-finite
  (\<open>\<infinity> - \<infinity>\<close> and \<open>0 * \<infinity>\<close> are NaN), again in both parts for complex operands.
\<close>

datatype xdouble = Finite LDouble_t | NonFinite

datatype xcomplex = FiniteC Complex_t | NonFiniteC

instantiation xcomplex :: "{zero, plus, minus, times}"
begin

definition zero_xcomplex :: xcomplex where
  "zero_xcomplex = FiniteC 0"

definition plus_xcomplex :: "xcomplex \<Rightarrow> xcomplex \<Rightarrow> xcomplex" where
  "plus_xcomplex a b =
     (case a of NonFiniteC \<Rightarrow> NonFiniteC
      | FiniteC x \<Rightarrow> (case b of NonFiniteC \<Rightarrow> NonFiniteC | FiniteC y \<Rightarrow> FiniteC (x + y)))"

definition minus_xcomplex :: "xcomplex \<Rightarrow> xcomplex \<Rightarrow> xcomplex" where
  "minus_xcomplex a b =
     (case a of NonFiniteC \<Rightarrow> NonFiniteC
      | FiniteC x \<Rightarrow> (case b of NonFiniteC \<Rightarrow> NonFiniteC | FiniteC y \<Rightarrow> FiniteC (x - y)))"

definition times_xcomplex :: "xcomplex \<Rightarrow> xcomplex \<Rightarrow> xcomplex" where
  "times_xcomplex a b =
     (case a of NonFiniteC \<Rightarrow> NonFiniteC
      | FiniteC x \<Rightarrow> (case b of NonFiniteC \<Rightarrow> NonFiniteC | FiniteC y \<Rightarrow> FiniteC (x * y)))"

instance ..

end

text \<open>The quotient of finite operands: \<^verbatim>\<open>1 / d\<close> for a real and \<^verbatim>\<open>z / d\<close> for a complex \<open>z\<close>.\<close>

definition x_inverse :: "LDouble_t \<Rightarrow> xdouble" where
  "x_inverse d = (if d = 0 then NonFinite else Finite (1 / d))"

definition xc_divide :: "Complex_t \<Rightarrow> LDouble_t \<Rightarrow> xcomplex" where
  "xc_divide z d = (if d = 0 then NonFiniteC else FiniteC (z / of_real d))"

definition xc_scale :: "xcomplex \<Rightarrow> xdouble \<Rightarrow> xcomplex" where
  "xc_scale a c =
     (case a of NonFiniteC \<Rightarrow> NonFiniteC
      | FiniteC x \<Rightarrow> (case c of NonFinite \<Rightarrow> NonFiniteC | Finite r \<Rightarrow> FiniteC (x * of_real r)))"

text \<open>
  The operations of the last statements of a reaction function: the complex conjugate
  and the real part, the product of two long doubles, and the quotient of a long double
  by a finite one.
\<close>

definition xcnj :: "xcomplex \<Rightarrow> xcomplex" where
  "xcnj a = (case a of NonFiniteC \<Rightarrow> NonFiniteC | FiniteC x \<Rightarrow> FiniteC (cnj x))"

definition xRe :: "xcomplex \<Rightarrow> xdouble" where
  "xRe a = (case a of NonFiniteC \<Rightarrow> NonFinite | FiniteC x \<Rightarrow> Finite (Re x))"

definition xd_times :: "xdouble \<Rightarrow> xdouble \<Rightarrow> xdouble" where
  "xd_times a b =
     (case a of NonFinite \<Rightarrow> NonFinite
      | Finite x \<Rightarrow> (case b of NonFinite \<Rightarrow> NonFinite | Finite y \<Rightarrow> Finite (x * y)))"

definition xd_divide :: "xdouble \<Rightarrow> LDouble_t \<Rightarrow> xdouble" where
  "xd_divide a d =
     (if d = 0 then NonFinite
      else (case a of NonFinite \<Rightarrow> NonFinite | Finite x \<Rightarrow> Finite (x / d)))"

text \<open>Dirac matrices and spinors whose entries may be non-finite, with the same operations.\<close>

type_synonym xDiracMatrix = "nat \<Rightarrow> nat \<Rightarrow> xcomplex"
type_synonym xDiracSpinor = "nat \<Rightarrow> xcomplex"

definition finite_matrix :: "TDiracMatrix \<Rightarrow> xDiracMatrix" where
  "finite_matrix A = (\<lambda>i j. FiniteC (A i j))"

definition xdm_plus :: "xDiracMatrix \<Rightarrow> xDiracMatrix \<Rightarrow> xDiracMatrix" where
  "xdm_plus A B = (\<lambda>i j. A i j + B i j)"

definition xdm_times :: "xDiracMatrix \<Rightarrow> xDiracMatrix \<Rightarrow> xDiracMatrix" where
  "xdm_times A B = (\<lambda>i j. A i 0 * B 0 j + A i 1 * B 1 j + A i 2 * B 2 j + A i 3 * B 3 j)"

definition xdm_times_scalar :: "xDiracMatrix \<Rightarrow> xdouble \<Rightarrow> xDiracMatrix" where
  "xdm_times_scalar A c = (\<lambda>i j. xc_scale (A i j) c)"

definition xdm_div_scalar :: "TDiracMatrix \<Rightarrow> LDouble_t \<Rightarrow> xDiracMatrix" where
  "xdm_div_scalar A c = (\<lambda>i j. xc_divide (A i j) c)"

definition xdm_apply :: "xDiracMatrix \<Rightarrow> TDiracSpinor \<Rightarrow> xDiracSpinor" where
  "xdm_apply A u = (\<lambda>i. A i 0 * FiniteC (u 0) + A i 1 * FiniteC (u 1)
                        + A i 2 * FiniteC (u 2) + A i 3 * FiniteC (u 3))"

text \<open>
  Modelled from the spec: \<^verbatim>\<open>TDiracSpinor::ScalarProd\<close> is a bilinear product of the components
  of its two spinors, so it is non-finite when one of the four components of its argument
  is, and the package's value on the finite components otherwise.
\<close>

definition finite_part :: "xcomplex \<Rightarrow> Complex_t" where
  "finite_part a = (case a of FiniteC x \<Rightarrow> x | NonFiniteC \<Rightarrow> 0)"

definition xSpinorScalarProd :: "Dirac_package \<Rightarrow> TDiracSpinor \<Rightarrow> xDiracSpinor \<Rightarrow> xcomplex" where
  "xSpinorScalarProd pkg u v =
     (if v 0 = NonFiniteC \<or> v 1 = NonFiniteC \<or> v 2 = NonFiniteC \<or> v 3 = NonFiniteC
      then NonFiniteC
      else FiniteC (SpinorScalarProd pkg u (\<lambda>i. finite_part (v i))))"

subsection \<open>The amplitudes of the five reactions\<close>

text \<open>
  The statements that build \<^verbatim>\<open>invAmp\<close> in each reaction function, from finite particles:
  the denominators are computed as before and every division is carried out, with no
  test of the denominator before it.
\<close>

definition Compton_invAmp_x ::
  "Dirac_package \<Rightarrow> TPhoton \<Rightarrow> TLepton \<Rightarrow> TPhoton \<Rightarrow> TLepton
     \<Rightarrow> nat \<Rightarrow> nat \<Rightarrow> nat \<Rightarrow> nat \<Rightarrow> xcomplex" where
  "Compton_invAmp_x pkg gI eI gF eF hi hf gi gf =
     (let uI = stateU pkg (TLepton.Mom eI);
          uF = stateU pkg (TLepton.Mom eF);
          mLepton = Mass eI;
          edenom1 = 2 * ScalarProd (TLepton.Mom eI) (TPhoton.Mom gI);
          edenom2 = - 2 * ScalarProd (TLepton.Mom eI) (TPhoton.Mom gF);
          ePropagator1 = xdm_div_scalar
             (dm_plus_scalar (Slash pkg (op_plus (TLepton.Mom eI) (TPhoton.Mom gI))) mLepton) edenom1;
          ePropagator2 = xdm_div_scalar
             (dm_plus_scalar (Slash pkg (op_minus (TLepton.Mom eI) (TPhoton.Mom gF))) mLepton) edenom2;
          epsI = finite_matrix (SlashC pkg (Eps pkg gI (gi + 1)));
          epsF = finite_matrix (SlashC pkg (EpsStar pkg gF (gf + 1)));
          D = xdm_plus (xdm_times (xdm_times epsF ePropagator1) epsI)
                       (xdm_times (xdm_times epsI ePropagator2) epsF)
      in xSpinorScalarProd pkg (uF hf) (xdm_apply D (uI hi)))"

definition Bremsstrahlung_invAmp_x ::
  "Dirac_package \<Rightarrow> TLepton \<Rightarrow> TLepton \<Rightarrow> TPhoton \<Rightarrow> nat \<Rightarrow> nat \<Rightarrow> nat \<Rightarrow> xcomplex" where
  "Bremsstrahlung_invAmp_x pkg eI eF gF hi hf gf =
     (let uI = stateU pkg (TLepton.Mom eI);
          uF = stateU pkg (TLepton.Mom eF);
          mLepton = Mass eI;
          qRecoil = Bremsstrahlung_qRecoil eI eF gF;
          edenom1 = InvariantSqr qRecoil - 2 * ScalarProd qRecoil (TLepton.Mom eI);
          edenom2 = InvariantSqr qRecoil + 2 * ScalarProd qRecoil (TLepton.Mom eF);
          ePropagator1 = xdm_div_scalar
             (dm_plus_scalar (Slash pkg (op_minus (TLepton.Mom eI) qRecoil)) mLepton) edenom1;
          ePropagator2 = xdm_div_scalar
             (dm_plus_scalar (Slash pkg (op_plus (TLepton.Mom eF) qRecoil)) mLepton) edenom2;
          gamma0 = finite_matrix (kDiracGamma pkg 0);
          epsF = finite_matrix (SlashC pkg (EpsStar pkg gF (gf + 1)));
          D = xdm_plus (xdm_times (xdm_times epsF ePropagator1) gamma0)
                       (xdm_times (xdm_times gamma0 ePropagator2) epsF)
      in xSpinorScalarProd pkg (uF hf) (xdm_apply D (uI hi)))"

definition PairProduction_invAmp_x ::
  "Dirac_package \<Rightarrow> TPhoton \<Rightarrow> TLepton \<Rightarrow> TLepton \<Rightarrow> nat \<Rightarrow> nat \<Rightarrow> nat \<Rightarrow> xcomplex" where
  "PairProduction_invAmp_x pkg gI eF pF hi hf gi =
     (let uF = stateU pkg (TLepton.Mom eF);
          vF = stateV pkg (TLepton.Mom pF);
          mLepton = Mass eF;
          edenom1 = - 2 * ScalarProd (TPhoton.Mom gI) (TLepton.Mom eF);
          edenom2 = - 2 * ScalarProd (TPhoton.Mom gI) (TLepton.Mom pF);
          ePropagator1 = xdm_div_scalar
             (dm_plus_scalar (Slash pkg (op_minus (TLepton.Mom eF) (TPhoton.Mom gI))) mLepton) edenom1;
          ePropagator2 = xdm_div_scalar
             (dm_plus_scalar (Slash pkg (op_minus (TPhoton.Mom gI) (TLepton.Mom pF))) mLepton) edenom2;
          gamma0 = finite_matrix (kDiracGamma pkg 0);
          epsI = finite_matrix (SlashC pkg (Eps pkg gI (gi + 1)));
          D = xdm_plus (xdm_times (xdm_times epsI ePropagator1) gamma0)
                       (xdm_times (xdm_times gamma0 ePropagator2) epsI)
      in xSpinorScalarProd pkg (uF hf) (xdm_apply D (vF hi)))"

definition TripletProduction_eprop_x ::
  "Dirac_package \<Rightarrow> TPhoton \<Rightarrow> TLepton \<Rightarrow> TLepton \<Rightarrow> TLepton \<Rightarrow> TLepton
     \<Rightarrow> xDiracMatrix \<times> xDiracMatrix \<times> xDiracMatrix \<times> xDiracMatrix" where
  "TripletProduction_eprop_x pkg g0 e0 e1 e2 e3 =
     (let mLepton = Mass e0;
          edenomCD2a = 2 * ScalarProd (TPhoton.Mom g0) (TLepton.Mom e0);
          edenomCD2b = - 2 * ScalarProd (TPhoton.Mom g0) (TLepton.Mom e2);
          edenomBH2a = - 2 * ScalarProd (TPhoton.Mom g0) (TLepton.Mom e1);
          edenomBH2b = - 2 * ScalarProd (TPhoton.Mom g0) (TLepton.Mom e3);
          epropCD2a = dm_plus_scalar (Slash pkg (op_plus (TPhoton.Mom g0) (TLepton.Mom e0))) mLepton;
          epropCD2b = dm_plus_scalar (Slash pkg (op_minus (TLepton.Mom e2) (TPhoton.Mom g0))) mLepton;
          epropBH2a = dm_plus_scalar (Slash pkg (op_minus (TPhoton.Mom g0) (TLepton.Mom e1))) mLepton;
          epropBH2b = dm_plus_scalar (Slash pkg (op_minus (TLepton.Mom e3) (TPhoton.Mom g0))) mLepton;
          epropCD2a = xdm_div_scalar epropCD2a edenomCD2a;
          epropCD2b = xdm_div_scalar epropCD2b edenomCD2b;
          epropBH2a = xdm_div_scalar epropBH2a edenomBH2a;
          epropBH2b = xdm_div_scalar epropBH2b edenomBH2b
      in (epropCD2a, epropCD2b, epropBH2a, epropBH2b))"

definition TripletProduction_gprop_x ::
  "TLepton \<Rightarrow> TLepton \<Rightarrow> TLepton \<Rightarrow> TLepton \<Rightarrow> xdouble \<times> xdouble \<times> xdouble \<times> xdouble" where
  "TripletProduction_gprop_x e0 e1 e2 e3 =
     (let gpropCD2 = x_inverse (InvariantSqr (op_plus (TLepton.Mom e1) (TLepton.Mom e3)));
          gpropBH2 = x_inverse (InvariantSqr (op_minus (TLepton.Mom e0) (TLepton.Mom e2)));
          gpropCD3 = x_inverse (InvariantSqr (op_plus (TLepton.Mom e1) (TLepton.Mom e2)));
          gpropBH3 = x_inverse (InvariantSqr (op_minus (TLepton.Mom e0) (TLepton.Mom e3)))
      in (gpropCD2, gpropBH2, gpropCD3, gpropBH3))"

definition TripletProduction_chains_x ::
  "Dirac_package \<Rightarrow> xDiracMatrix \<times> xDiracMatrix \<times> xDiracMatrix \<times> xDiracMatrix
     \<Rightarrow> xdouble \<times> xdouble \<times> xdouble \<times> xdouble \<Rightarrow> TPhoton \<Rightarrow> nat \<Rightarrow> nat
     \<Rightarrow> xDiracMatrix \<times> xDiracMatrix \<times> xDiracMatrix \<times> xDiracMatrix" where
  "TripletProduction_chains_x pkg eprop gprop g0 gi mu =
     (case eprop of (epropCD2a, epropCD2b, epropBH2a, epropBH2b) \<Rightarrow>
      case gprop of (gpropCD2, gpropBH2, gpropCD3, gpropBH3) \<Rightarrow>
      let epropCD3a = epropCD2a;
          epropCD3b = epropBH2b;
          epropBH3a = epropBH2a;
          epropBH3b = epropCD2b;
          gamma = (\<lambda>mu. finite_matrix (kDiracGamma pkg mu));
          epsI = finite_matrix (SlashC pkg (Eps pkg g0 (gi + 1)));
          CD2 = xdm_plus (xdm_times (xdm_times (gamma mu) epropCD2a) epsI)
                         (xdm_times (xdm_times epsI epropCD2b) (gamma mu));
          CD2 = xdm_times_scalar CD2 gpropCD2;
          BH2 = xdm_plus (xdm_times (xdm_times (gamma mu) epropBH2a) epsI)
                         (xdm_times (xdm_times epsI epropBH2b) (gamma mu));
          BH2 = xdm_times_scalar BH2 gpropBH2;
          CD3 = xdm_plus (xdm_times (xdm_times (gamma mu) epropCD3a) epsI)
                         (xdm_times (xdm_times epsI epropCD3b) (gamma mu));
          CD3 = xdm_times_scalar CD3 gpropCD3;
          BH3 = xdm_plus (xdm_times (xdm_times (gamma mu) epropBH3a) epsI)
                         (xdm_times (xdm_times epsI epropBH3b) (gamma mu));
          BH3 = xdm_times_scalar BH3 gpropBH3
      in (CD2, BH2, CD3, BH3))"

definition TripletProduction_invAmp_x ::
  "Dirac_package \<Rightarrow> TPhoton \<Rightarrow> TLepton \<Rightarrow> TLepton \<Rightarrow> TLepton \<Rightarrow> TLepton
     \<Rightarrow> nat \<Rightarrow> nat \<Rightarrow> nat \<Rightarrow> nat \<Rightarrow> nat \<Rightarrow> xcomplex" where
  "TripletProduction_invAmp_x pkg g0 e0 e1 e2 e3 h0 h1 h2 h3 gi =
     (let u0 = stateU pkg (TLepton.Mom e0);
          v1 = stateV pkg (TLepton.Mom e1);
          u2 = stateU pkg (TLepton.Mom e2);
          u3 = stateU pkg (TLepton.Mom e3);
          eprop = TripletProduction_eprop_x pkg g0 e0 e1 e2 e3;
          gprop = TripletProduction_gprop_x e0 e1 e2 e3;
          gamma = (\<lambda>mu. finite_matrix (kDiracGamma pkg mu))
      in for_loop 4 (\<lambda>mu cell.
           (case TripletProduction_chains_x pkg eprop gprop g0 gi mu of (CD2, BH2, CD3, BH3) \<Rightarrow>
              cell + FiniteC (of_real (if mu = 0 then 1 else - 1)) * (
                  xSpinorScalarProd pkg (u3 h3) (xdm_apply (gamma mu) (v1 h1)) *
                  xSpinorScalarProd pkg (u2 h2) (xdm_apply CD2 (u0 h0))
                - xSpinorScalarProd pkg (u2 h2) (xdm_apply (gamma mu) (v1 h1)) *
                  xSpinorScalarProd pkg (u3 h3) (xdm_apply CD3 (u0 h0))
                + xSpinorScalarProd pkg (u2 h2) (xdm_apply (gamma mu) (u0 h0)) *
                  xSpinorScalarProd pkg (u3 h3) (xdm_apply BH2 (v1 h1))
                - xSpinorScalarProd pkg (u3 h3) (xdm_apply (gamma mu) (u0 h0)) *
                  xSpinorScalarProd pkg (u2 h2) (xdm_apply BH3 (v1 h1))))) 0)"

definition eeBremsstrahlung_eprop_x ::
  "Dirac_package \<Rightarrow> TLepton \<Rightarrow> TLepton \<Rightarrow> TLepton \<Rightarrow> TLepton \<Rightarrow> TPhoton
     \<Rightarrow> xDiracMatrix \<times> xDiracMatrix \<times> xDiracMatrix \<times> xDiracMatrix" where
  "eeBremsstrahlung_eprop_x pkg e0 e1 e2 e3 g0 =
     (let mLepton = Mass e0;
          edenomA1 = - 2 * ScalarProd (TPhoton.Mom g0) (TLepton.Mom e0);
          edenomA2 = 2 * ScalarProd (TPhoton.Mom g0) (TLepton.Mom e2);
          edenomB1 = - 2 * ScalarProd (TPhoton.Mom g0) (TLepton.Mom e1);
          edenomB2 = 2 * ScalarProd (TPhoton.Mom g0) (TLepton.Mom e3);
          epropA1 = dm_plus_scalar (Slash pkg (op_minus (TLepton.Mom e0) (TPhoton.Mom g0))) mLepton;
          epropA2 = dm_plus_scalar (Slash pkg (op_plus (TLepton.Mom e2) (TPhoton.Mom g0))) mLepton;
          epropB1 = dm_plus_scalar (Slash pkg (op_minus (TLepton.Mom e1) (TPhoton.Mom g0))) mLepton;
          epropB2 = dm_plus_scalar (Slash pkg (op_plus (TLepton.Mom e3) (TPhoton.Mom g0))) mLepton;
          epropA1 = xdm_div_scalar epropA1 edenomA1;
          epropA2 = xdm_div_scalar epropA2 edenomA2;
          epropB1 = xdm_div_scalar epropB1 edenomB1;
          epropB2 = xdm_div_scalar epropB2 edenomB2
      in (epropA1, epropA2, epropB1, epropB2))"

definition eeBremsstrahlung_gprop_x ::
  "TLepton \<Rightarrow> TLepton \<Rightarrow> TLepton \<Rightarrow> TLepton \<Rightarrow> xdouble \<times> xdouble \<times> xdouble \<times> xdouble" where
  "eeBremsstrahlung_gprop_x e0 e1 e2 e3 =
     (let gpropA = x_inverse (InvariantSqr (op_minus (TLepton.Mom e1) (TLepton.Mom e3)));
          gpropB = x_inverse (InvariantSqr (op_minus (TLepton.Mom e0) (TLepton.Mom e2)));
          gpropC = x_inverse (InvariantSqr (op_minus (TLepton.Mom e1) (TLepton.Mom e2)));
          gpropD = x_inverse (InvariantSqr (op_minus (TLepton.Mom e0) (TLepton.Mom e3)))
      in (gpropA, gpropB, gpropC, gpropD))"

definition eeBremsstrahlung_chains_x ::
  "Dirac_package \<Rightarrow> xDiracMatrix \<times> xDiracMatrix \<times> xDiracMatrix \<times> xDiracMatrix
     \<Rightarrow> xdouble \<times> xdouble \<times> xdouble \<times> xdouble \<Rightarrow> TPhoton \<Rightarrow> nat \<Rightarrow> nat
     \<Rightarrow> xDiracMatrix \<times> xDiracMatrix \<times> xDiracMatrix \<times> xDiracMatrix" where
  "eeBremsstrahlung_chains_x pkg eprop gprop g0 gf mu =
     (case eprop of (epropA1, epropA2, epropB1, epropB2) \<Rightarrow>
      case gprop of (gpropA, gpropB, gpropC, gpropD) \<Rightarrow>
      let epropC1 = epropA1;
          epropC2 = epropB2;
          epropD1 = epropB1;
          epropD2 = epropA2;
          gamma = (\<lambda>mu. finite_matrix (kDiracGamma pkg mu));
          epsF = finite_matrix (SlashC pkg (EpsStar pkg g0 (gf + 1)));
          A = xdm_plus (xdm_times (xdm_times (gamma mu) epropA1) epsF)
                       (xdm_times (xdm_times epsF epropA2) (gamma mu));
          A = xdm_times_scalar A gpropA;
          B = xdm_plus (xdm_plus (gamma mu) (xdm_times epropB1 epsF))
                       (xdm_times (xdm_times epsF epropB2) (gamma mu));
          B = xdm_times_scalar B gpropB;
          C = xdm_plus (xdm_plus (gamma mu) (xdm_times epropC1 epsF))
                       (xdm_times (xdm_times epsF epropC2) (gamma mu));
          C = xdm_times_scalar C gpropC;
          D = xdm_plus (xdm_plus (gamma mu) (xdm_times epropD1 epsF))
                       (xdm_times (xdm_times epsF epropD2) (gamma mu));
          D = xdm_times_scalar D gpropD
      in (A, B, C, D))"

definition eeBremsstrahlung_invAmp_x ::
  "Dirac_package \<Rightarrow> TLepton \<Rightarrow> TLepton \<Rightarrow> TLepton \<Rightarrow> TLepton \<Rightarrow> TPhoton
     \<Rightarrow> nat \<Rightarrow> nat \<Rightarrow> nat \<Rightarrow> nat \<Rightarrow> nat \<Rightarrow> xcomplex" where
  "eeBremsstrahlung_invAmp_x pkg e0 e1 e2 e3 g0 h0 h1 h2 h3 gf =
     (let u0 = stateU pkg (TLepton.Mom e0);
          u1 = stateU pkg (TLepton.Mom e1);
          u2 = stateU pkg (TLepton.Mom e2);
          u3 = stateU pkg (TLepton.Mom e3);
          eprop = eeBremsstrahlung_eprop_x pkg e0 e1 e2 e3 g0;
          gprop = eeBremsstrahlung_gprop_x e0 e1 e2 e3;
          gamma = (\<lambda>mu. finite_matrix (kDiracGamma pkg mu))
      in for_loop 4 (\<lambda>mu cell.
           (case eeBremsstrahlung_chains_x pkg eprop gprop g0 gf mu of (A, B, C, D) \<Rightarrow>
              cell + FiniteC (of_real (if mu = 0 then 1 else - 1)) * (
                  xSpinorScalarProd pkg (u3 h3) (xdm_apply (gamma mu) (u1 h1)) *
                  xSpinorScalarProd pkg (u2 h2) (xdm_apply A (u0 h0))
                + xSpinorScalarProd pkg (u2 h2) (xdm_apply (gamma mu) (u0 h0)) *
                  xSpinorScalarProd pkg (u3 h3) (xdm_apply B (u1 h1))
                - xSpinorScalarProd pkg (u2 h2) (xdm_apply (gamma mu) (u1 h1)) *
                  xSpinorScalarProd pkg (u3 h3) (xdm_apply C (u0 h0))
                - xSpinorScalarProd pkg (u3 h3) (xdm_apply (gamma mu) (u0 h0)) *
                  xSpinorScalarProd pkg (u2 h2) (xdm_apply D (u1 h1))))) 0)"

subsection \<open>The values returned by Bremsstrahlung and PairProduction\<close>

text \<open>
  \<^verbatim>\<open>Bremsstrahlung\<close> and \<^verbatim>\<open>PairProduction\<close> apply the propagator of the virtual photon after
  the spin sum: the last statement divides by \<^verbatim>\<open>sqr(qRecoil.InvariantSqr())\<close>. The statements
  from the spin sum to the return are followed here with the same values, again with no
  test before a division.
\<close>

definition Bremsstrahlung_ampSquared_x ::
  "(nat \<Rightarrow> nat \<Rightarrow> nat \<Rightarrow> xcomplex) \<Rightarrow> TLepton \<Rightarrow> TLepton \<Rightarrow> TPhoton \<Rightarrow> xcomplex" where
  "Bremsstrahlung_ampSquared_x invAmp eI eF gF =
     for_loop 2 (\<lambda>gf. for_loop 2 (\<lambda>gfbar.
     for_loop 2 (\<lambda>hi. for_loop 2 (\<lambda>hibar. for_loop 2 (\<lambda>hf. for_loop 2 (\<lambda>hfbar ampSquared.
       ampSquared + invAmp hi hf gf * xcnj (invAmp hibar hfbar gfbar)
                    * FiniteC (TLepton.SDM eI hi hibar) * FiniteC (TLepton.SDM eF hfbar hf)
                    * FiniteC (TPhoton.SDM gF gfbar gf))))))) 0"

definition Bremsstrahlung_x ::
  "Dirac_package \<Rightarrow> TLepton \<Rightarrow> TLepton \<Rightarrow> TPhoton \<Rightarrow> xdouble" where
  "Bremsstrahlung_x pkg eIn eOut gOut =
     (let eIncoming = eIn; eI = eIncoming;
          gOutgoing = gOut; gF = gOutgoing;
          eOutgoing = eOut; eF = eOutgoing;
          qRecoil = Bremsstrahlung_qRecoil eI eF gF;
          ampSquared = Bremsstrahlung_ampSquared_x (Bremsstrahlung_invAmp_x pkg eI eF gF) eI eF gF;
          kinFactor = x_inverse (sqr (2 * PI_value * component (TLepton.Mom eI) 0));
          diffXsect = xd_divide
             (xd_times (xd_times (Finite (hbarcSqr pkg * alphaQED pkg ^ 3)) (xRe ampSquared))
                       kinFactor)
             (sqr (InvariantSqr qRecoil))
      in diffXsect)"

definition PairProduction_ampSquared_x ::
  "(nat \<Rightarrow> nat \<Rightarrow> nat \<Rightarrow> xcomplex) \<Rightarrow> TPhoton \<Rightarrow> TLepton \<Rightarrow> TLepton \<Rightarrow> xcomplex" where
  "PairProduction_ampSquared_x invAmp gI eF pF =
     for_loop 2 (\<lambda>gi. for_loop 2 (\<lambda>gibar.
     for_loop 2 (\<lambda>hi. for_loop 2 (\<lambda>hibar. for_loop 2 (\<lambda>hf. for_loop 2 (\<lambda>hfbar ampSquared.
       ampSquared + invAmp hi hf gi * xcnj (invAmp hibar hfbar gibar)
                    * FiniteC (TLepton.SDM pF hi hibar) * FiniteC (TLepton.SDM eF hfbar hf)
                    * FiniteC (TPhoton.SDM gI gi gibar))))))) 0"

definition PairProduction_x ::
  "Dirac_package \<Rightarrow> TPhoton \<Rightarrow> TLepton \<Rightarrow> TLepton \<Rightarrow> xdouble" where
  "PairProduction_x pkg gIn eOut pOut =
     (let gIncoming = gIn; gI = gIncoming;
          eOutgoing = eOut; eF = eOutgoing;
          pOutgoing = pOut; pF = pOutgoing;
          qRecoil = PairProduction_qRecoil gI eF pF;
          ampSquared = PairProduction_ampSquared_x (PairProduction_invAmp_x pkg gI eF pF) gI eF pF;
          kinFactor = x_inverse (sqr (2 * PI_value * component (TPhoton.Mom gI) 0));
          diffXsect = xd_divide
             (xd_times (xd_times (Finite (hbarcSqr pkg * alphaQED pkg ^ 3)) (xRe ampSquared))
                       kinFactor)
             (sqr (InvariantSqr qRecoil))
      in diffXsect)"




section \<open>Properties of the four-vector operations\<close>

lemma round_to_binade:
  assumes "2 powi e \<le> \<bar>x\<bar>" and "\<bar>x\<bar> < 2 powi (e + 1)"
  shows "round_to p x
           = of_int (round_half_even (x / 2 powi (e - int p + 1))) * 2 powi (e - int p + 1)"
proof -
  have "0 < (2::real) powi e" by simp
  with assms(1) have pos: "0 < \<bar>x\<bar>" by linarith
  have "2 powr real_of_int e \<le> \<bar>x\<bar> \<and> \<bar>x\<bar> < 2 powr real_of_int (e + 1)"
  proof -
    have "(2::real) powr real_of_int k = 2 powi k" for k
      by (rule powr_real_of_int') simp_all
    with assms show ?thesis by presburger
  qed
  with pos have "\<lfloor>log 2 \<bar>x\<bar>\<rfloor> = e"
    by (subst floor_log_eq_powr_iff) simp_all
  with pos show ?thesis by (simp add: round_to_def Let_def)
qed

lemma round_half_even_int: "round_half_even (of_int n) = n"
  by (simp add: round_half_even_def)

text \<open>A number with a significand of at most \<open>p\<close> bits is its own rounding.\<close>

lemma round_to_representable:
  assumes "2 powi e \<le> \<bar>x\<bar>" and "\<bar>x\<bar> < 2 powi (e + 1)"
    and "x / 2 powi (e - int p + 1) = of_int n"
  shows "round_to p x = x"
proof -
  have "round_to p x = of_int n * 2 powi (e - int p + 1)"
    using round_to_binade [OF assms(1,2), of p] by (simp add: assms(3) round_half_even_int)
  also have "\<dots> = x" using assms(3) by (simp add: field_simps)
  finally show ?thesis .
qed

lemma round_to_53_values:
  "round_to 53 1 = 1" "round_to 53 2 = 2" "round_to 53 3 = 3"
  "round_to 53 10133099161583616 = 10133099161583616"
     apply (rule round_to_representable [where e = 0 and n = "2 ^ 52"]; simp)
    apply (rule round_to_representable [where e = 1 and n = "2 ^ 52"]; simp)
   apply (rule round_to_representable [where e = 1 and n = "3 * 2 ^ 51"]; simp)
  apply (rule round_to_representable [where e = 53 and n = "9 * 2 ^ 49"]; simp)
  done

text \<open>
  Between \<open>2\<^sup>5\<^sup>3\<close> and \<open>2\<^sup>5\<^sup>4\<close> the numbers of the double format are the even integers: an odd
  integer lies half way between two of them and goes to the one with the even significand.
\<close>

lemma round_to_53_ties:
  "round_to 53 10133099161583615 = 10133099161583616"
  "round_to 53 10133099161583613 = 10133099161583612"
proof -
  have "round_to 53 10133099161583615
          = of_int (round_half_even (10133099161583615 / 2 powi (53 - int 53 + 1)))
              * 2 powi (53 - int 53 + 1)"
    by (rule round_to_binade) simp_all
  also have "10133099161583615 / 2 powi (53 - int 53 + 1)
               = (of_int 5066549580791807 + 1 / 2 :: real)"
    by simp
  also have "round_half_even (of_int 5066549580791807 + 1 / 2) = 5066549580791808"
    unfolding round_half_even_def by (simp add: Let_def)
  finally show "round_to 53 10133099161583615 = 10133099161583616" by simp
  have "round_to 53 10133099161583613
          = of_int (round_half_even (10133099161583613 / 2 powi (53 - int 53 + 1)))
              * 2 powi (53 - int 53 + 1)"
    by (rule round_to_binade) simp_all
  also have "10133099161583613 / 2 powi (53 - int 53 + 1)
               = (of_int 5066549580791806 + 1 / 2 :: real)"
    by simp
  also have "round_half_even (of_int 5066549580791806 + 1 / 2) = 5066549580791806"
    unfolding round_half_even_def by (simp add: Let_def)
  finally show "round_to 53 10133099161583613 = 10133099161583612" by simp
qed

lemma round_to_64_values:
  "round_to 64 1 = 1" "round_to 64 2 = 2" "round_to 64 3 = 3"
  "round_to 64 41505174165846491136 = 41505174165846491136"
     apply (rule round_to_representable [where e = 0 and n = "2 ^ 63"]; simp)
    apply (rule round_to_representable [where e = 1 and n = "2 ^ 63"]; simp)
   apply (rule round_to_representable [where e = 1 and n = "3 * 2 ^ 62"]; simp)
  apply (rule round_to_representable [where e = 65 and n = "9 * 2 ^ 60"]; simp)
  done

text \<open>Between \<open>2\<^sup>6\<^sup>5\<close> and \<open>2\<^sup>6\<^sup>6\<close> the numbers of the extended format are the multiples of 4.\<close>

lemma round_to_64_nearest:
  "round_to 64 41505174165846491135 = 41505174165846491136"
  "round_to 64 41505174165846491133 = 41505174165846491132"
proof -
  have "round_to 64 41505174165846491135
          = of_int (round_half_even (41505174165846491135 / 2 powi (65 - int 64 + 1)))
              * 2 powi (65 - int 64 + 1)"
    by (rule round_to_binade) simp_all
  also have "41505174165846491135 / 2 powi (65 - int 64 + 1)
               = (of_int 10376293541461622783 + 3 / 4 :: real)"
    by simp
  also have "round_half_even (of_int 10376293541461622783 + 3 / 4) = 10376293541461622784"
    unfolding round_half_even_def by (simp add: Let_def)
  finally show "round_to 64 41505174165846491135 = 41505174165846491136" by simp
  have "round_to 64 41505174165846491133
          = of_int (round_half_even (41505174165846491133 / 2 powi (65 - int 64 + 1)))
              * 2 powi (65 - int 64 + 1)"
    by (rule round_to_binade) simp_all
  also have "41505174165846491133 / 2 powi (65 - int 64 + 1)
               = (of_int 10376293541461622783 + 1 / 4 :: real)"
    by simp
  also have "round_half_even (of_int 10376293541461622783 + 1 / 4) = 10376293541461622783"
    unfolding round_half_even_def by (simp add: Let_def)
  finally show "round_to 64 41505174165846491133 = 41505174165846491132" by simp
qed

text \<open>
  C10, as amended. Whatever the rounding of the operations, the scalar product is
  symmetric in its two arguments. The scalar product of \<open>v\<close> with itself and the squared
  invariant of \<open>v\<close> are equal in exact arithmetic, where both are the expression
  \<open>t\<^sup>2 - x\<^sup>2 - y\<^sup>2 - z\<^sup>2\<close> of the metric signature (+,-,-,-); with rounding they are the same
  quantity up to rounding only, because \<^verbatim>\<open>ScalarProd\<close> subtracts the three space products one
  after the other and \<^verbatim>\<open>InvariantSqr\<close> subtracts their sum.
\<close>

theorem ScalarProd_symmetric_InvariantSqr_exact:
  "ScalarProd_rounded fl u v = ScalarProd_rounded fl v u
   \<and> ScalarProd_rounded (\<lambda>a. a) v v = InvariantSqr_rounded (\<lambda>a. a) v
   \<and> ScalarProd_rounded (\<lambda>a. a) u v = ScalarProd u v
   \<and> InvariantSqr_rounded (\<lambda>a. a) v = InvariantSqr v
   \<and> ScalarProd (TFourVectorReal t x y z) (TFourVectorReal t' x' y' z')
       = t * t' - x * x' - y * y' - z * z'
   \<and> InvariantSqr (TFourVectorReal t x y z) = t * t - x * x - y * y - z * z"
  by (cases v; cases u)
     (simp add: ScalarProd_rounded_def InvariantSqr_rounded_def LengthSqr_rounded_def
                ScalarProd_def InvariantSqr_def LengthSqr_def mult.commute)

text \<open>
  The claim C10 as stated has \<^verbatim>\<open>ScalarProd(v, v)\<close> equal to \<^verbatim>\<open>InvariantSqr(v)\<close> for every
  four-vector. It fails in the rounded arithmetic of the code. For \<open>v = (100663296, 1, 1, 1)\<close>
  in the double format, \<open>t\<^sup>2 = 9 \<cdot> 2\<^sup>5\<^sup>0\<close> is exact; subtracting 1 three times gives \<open>t\<^sup>2\<close>
  back each time, and subtracting 3 at once gives \<open>t\<^sup>2 - 4\<close>. The same happens in the
  extended format for \<open>v = (6442450944, 1, 1, 1)\<close>, where \<open>t\<^sup>2 = 9 \<cdot> 2\<^sup>6\<^sup>2\<close>.
\<close>

theorem ScalarProd_InvariantSqr_round_differently:
  "ScalarProd_rounded (round_to 53) (TFourVectorReal 100663296 1 1 1)
                                    (TFourVectorReal 100663296 1 1 1) = 10133099161583616
   \<and> InvariantSqr_rounded (round_to 53) (TFourVectorReal 100663296 1 1 1) = 10133099161583612
   \<and> ScalarProd_rounded (round_to 64) (TFourVectorReal 6442450944 1 1 1)
                                      (TFourVectorReal 6442450944 1 1 1) = 41505174165846491136
   \<and> InvariantSqr_rounded (round_to 64) (TFourVectorReal 6442450944 1 1 1)
       = 41505174165846491132"
  by (simp add: ScalarProd_rounded_def InvariantSqr_rounded_def LengthSqr_rounded_def
                round_to_53_values round_to_53_ties round_to_64_values round_to_64_nearest)

text \<open>
  C5. For every four-vector and every integer index: an index from 0 to 3 returns the
  component at that position and reports nothing; any other index reports one error and
  returns the first component. The function is total, so the call always returns.
\<close>

theorem op_index_cases:
  "(0 \<le> i \<and> i \<le> 3 \<longrightarrow>
      op_index (TFourVectorReal t x y z) i = ([t, x, y, z] ! nat i, []))
   \<and> (i < 0 \<or> 3 < i \<longrightarrow>
      op_index (TFourVectorReal t x y z) i
        = (t, [Error ''TFourVectorReal::operator[]'' ''index out of range'']))"
proof (intro conjI impI)
  assume "0 \<le> i \<and> i \<le> 3"
  then have "i = 0 \<or> i = 1 \<or> i = 2 \<or> i = 3" by arith
  then show "op_index (TFourVectorReal t x y z) i = ([t, x, y, z] ! nat i, [])"
    by (auto simp: op_index_def)
next
  assume "i < 0 \<or> 3 < i"
  then show "op_index (TFourVectorReal t x y z) i
        = (t, [Error ''TFourVectorReal::operator[]'' ''index out of range''])"
    by (auto simp: op_index_def)
qed

theorem op_index_cases_witness:
  "op_index (TFourVectorReal 5 6 7 8) 2 = (7, [])
   \<and> op_index (TFourVectorReal 5 6 7 8) 3 = (8, [])
   \<and> op_index (TFourVectorReal 5 6 7 8) 4
        = (5, [Error ''TFourVectorReal::operator[]'' ''index out of range''])
   \<and> op_index (TFourVectorReal 5 6 7 8) (- 1)
        = (5, [Error ''TFourVectorReal::operator[]'' ''index out of range''])"
  using op_index_cases [of 2 5 6 7 8] op_index_cases [of 3 5 6 7 8]
        op_index_cases [of 4 5 6 7 8] op_index_cases [of "- 1" 5 6 7 8]
  by simp

lemma Resolution_pos: "0 < fResolution \<Longrightarrow> 0 < Resolution fResolution v"
  by (simp add: Resolution_def Let_def)

text \<open>
  C3. With a positive resolution constant: a non-negative squared invariant gives its
  square root; a negative one above minus the vector's resolution gives exactly 0 with no
  report (in particular a squared invariant of -1e-20 on a vector of Euclidean magnitude
  at least 1, when the resolution constant exceeds 1e-20); a negative one at or below
  minus the resolution reports an error (and returns -1).
\<close>

theorem Invariant_cases:
  assumes "0 < fResolution"
  shows "(0 \<le> InvariantSqr v \<longrightarrow> Invariant fResolution v = (sqrt (InvariantSqr v), []))
   \<and> (InvariantSqr v < 0 \<and> - Resolution fResolution v < InvariantSqr v \<longrightarrow>
        Invariant fResolution v = (0, []))
   \<and> (InvariantSqr v = - (1 / 10 ^ 20) \<and> 1 / 10 ^ 20 < fResolution
        \<and> 1 \<le> sqrt (fVector v 0 * fVector v 0 + LengthSqr v) \<longrightarrow>
        Invariant fResolution v = (0, []))
   \<and> (InvariantSqr v \<le> - Resolution fResolution v \<longrightarrow>
        Invariant fResolution v
          = (- 1, [Error ''TFourVectorReal::Invariant()''
                         ''invoked on a vector with negative norm'']))"
proof (intro conjI impI)
  assume "0 \<le> InvariantSqr v"
  then show "Invariant fResolution v = (sqrt (InvariantSqr v), [])"
    using Resolution_pos [OF assms, of v] by (auto simp: Invariant_def Let_def)
next
  assume "InvariantSqr v < 0 \<and> - Resolution fResolution v < InvariantSqr v"
  then show "Invariant fResolution v = (0, [])"
    by (auto simp: Invariant_def Let_def)
next
  assume h: "InvariantSqr v = - (1 / 10 ^ 20) \<and> 1 / 10 ^ 20 < fResolution
        \<and> 1 \<le> sqrt (fVector v 0 * fVector v 0 + LengthSqr v)"
  let ?s = "sqrt (fVector v 0 * fVector v 0 + LengthSqr v)"
  from h have s: "1 \<le> ?s" by simp
  then have "fResolution * 1 \<le> fResolution * ?s"
    using assms by (intro mult_left_mono) simp_all
  with s have "fResolution \<le> Resolution fResolution v"
    by (simp add: Resolution_def Let_def)
  with h have "- Resolution fResolution v < InvariantSqr v" by simp
  moreover from h have "\<not> 0 < InvariantSqr v" by simp
  ultimately show "Invariant fResolution v = (0, [])"
    by (simp add: Invariant_def Let_def)
next
  assume h: "InvariantSqr v \<le> - Resolution fResolution v"
  then have "\<not> 0 < InvariantSqr v" "\<not> - Resolution fResolution v < InvariantSqr v"
    using Resolution_pos [OF assms, of v] by simp_all
  then show "Invariant fResolution v
          = (- 1, [Error ''TFourVectorReal::Invariant()''
                         ''invoked on a vector with negative norm''])"
    by (simp add: Invariant_def Let_def)
qed

theorem Invariant_cases_witness:
  "Invariant (1 / 10 ^ 12) (TFourVectorReal 2 1 0 0) = (sqrt 3, [])
   \<and> InvariantSqr (TFourVectorReal (1 - 1 / (4 * 10 ^ 20)) (1 + 1 / (4 * 10 ^ 20)) 0 0)
        = - (1 / 10 ^ 20)
   \<and> Invariant (1 / 10 ^ 12)
        (TFourVectorReal (1 - 1 / (4 * 10 ^ 20)) (1 + 1 / (4 * 10 ^ 20)) 0 0) = (0, [])
   \<and> Invariant (1 / 10 ^ 12) (TFourVectorReal 0 1 0 0)
        = (- 1, [Error ''TFourVectorReal::Invariant()''
                       ''invoked on a vector with negative norm''])"
proof -
  let ?r = "1 / 10 ^ 12 :: real"
  let ?n = "TFourVectorReal (1 - 1 / (4 * 10 ^ 20)) (1 + 1 / (4 * 10 ^ 20)) 0 0"
  have r: "0 < ?r" by simp
  have a: "InvariantSqr (TFourVectorReal 2 1 0 0) = 3"
    by (simp add: InvariantSqr_def LengthSqr_def)
  have b: "InvariantSqr ?n = - (1 / 10 ^ 20)"
    by (simp add: InvariantSqr_def LengthSqr_def)
  have c: "1 \<le> sqrt (fVector ?n 0 * fVector ?n 0 + LengthSqr ?n)"
    by (rule real_le_rsqrt) (simp add: LengthSqr_def)
  have d: "InvariantSqr (TFourVectorReal 0 1 0 0) \<le> - Resolution ?r (TFourVectorReal 0 1 0 0)"
    by (simp add: InvariantSqr_def LengthSqr_def Resolution_def)
  from Invariant_cases [OF r, of "TFourVectorReal 2 1 0 0"] a
  have 1: "Invariant ?r (TFourVectorReal 2 1 0 0) = (sqrt 3, [])" by simp
  from Invariant_cases [OF r, of ?n] b c
  have 2: "Invariant ?r ?n = (0, [])" by simp
  from Invariant_cases [OF r, of "TFourVectorReal 0 1 0 0"] d
  have 3: "Invariant ?r (TFourVectorReal 0 1 0 0)
        = (- 1, [Error ''TFourVectorReal::Invariant()''
                       ''invoked on a vector with negative norm''])" by blast
  from 1 b 2 3 show ?thesis by blast
qed

lemma scale_pos_iff:
  "0 < sqrt (t * t + (x * x + y * y + z * z)) \<longleftrightarrow> \<not> (t = 0 \<and> x = 0 \<and> y = 0 \<and> z = (0::real))"
proof -
  have "t * t + (x * x + y * y + z * z) = 0 \<longleftrightarrow> t = 0 \<and> x = 0 \<and> y = 0 \<and> z = 0"
    by (simp add: add_nonneg_eq_0_iff)
  moreover have "0 \<le> t * t + (x * x + y * y + z * z)" by simp
  ultimately have "0 < t * t + (x * x + y * y + z * z) \<longleftrightarrow> \<not> (t = 0 \<and> x = 0 \<and> y = 0 \<and> z = 0)"
    by linarith
  then show ?thesis by simp
qed

lemma Resolution_scale:
  "Resolution fResolution (TFourVectorReal t x y z)
     = (if t = 0 \<and> x = 0 \<and> y = 0 \<and> z = 0 then fResolution
        else fResolution * sqrt (t * t + x * x + y * y + z * z))"
  using scale_pos_iff [of t x y z]
  by (simp add: Resolution_def Let_def LengthSqr_def add.assoc)

lemma DistanceTo_commute: "DistanceTo v w = DistanceTo w v"
proof -
  have "(a - b) * (a - b) = (b - a) * (b - a)" for a b :: real
    by (simp add: algebra_simps)
  then show ?thesis by (simp add: DistanceTo_def Let_def)
qed

lemma DistanceTo_self: "DistanceTo v v = 0"
  by (simp add: DistanceTo_def)

lemma DistanceTo_op_plus:
  "DistanceTo v (op_plus v (TFourVectorReal e0 e1 e2 e3))
     = sqrt (e0 * e0 + e1 * e1 + e2 * e2 + e3 * e3)"
  by (cases v) (simp add: DistanceTo_def op_plus_def op_plus_assign_def)

text \<open>
  C6, as amended. With a positive resolution constant, equality is reflexive and
  tolerant: \<open>v == v + e\<close> when the Euclidean size of \<open>e\<close> is well below the resolution of
  \<open>v\<close>, at most half of it, and \<open>v != v + d\<close> when the size of \<open>d\<close> is well above that
  resolution, at least twice it; the resolution of a non-zero vector is the constant times
  its Euclidean magnitude. The comparison uses the resolution of its left operand only, so
  \<open>v == w\<close> and \<open>w == v\<close> agree when the two resolutions are equal, and need not agree
  otherwise. The two margins keep the statement away from the threshold itself, where the
  rounding of the code, which this model leaves out, decides the comparison.
\<close>

theorem op_eq_reflexive_tolerant:
  assumes "0 < fResolution"
  shows "op_eq fResolution v v
   \<and> (2 * sqrt (e0 * e0 + e1 * e1 + e2 * e2 + e3 * e3) \<le> Resolution fResolution v \<longrightarrow>
        op_eq fResolution v (op_plus v (TFourVectorReal e0 e1 e2 e3)))
   \<and> (2 * Resolution fResolution v \<le> sqrt (d0 * d0 + d1 * d1 + d2 * d2 + d3 * d3) \<longrightarrow>
        op_neq fResolution v (op_plus v (TFourVectorReal d0 d1 d2 d3)))
   \<and> (Resolution fResolution v = Resolution fResolution w \<longrightarrow>
        op_eq fResolution v w = op_eq fResolution w v)
   \<and> (fVector v 0 \<noteq> 0 \<or> fVector v 1 \<noteq> 0 \<or> fVector v 2 \<noteq> 0 \<or> fVector v 3 \<noteq> 0 \<longrightarrow>
        Resolution fResolution v
          = fResolution * sqrt (fVector v 0 * fVector v 0 + fVector v 1 * fVector v 1
                                 + fVector v 2 * fVector v 2 + fVector v 3 * fVector v 3))"
proof (intro conjI impI)
  show "op_eq fResolution v v"
    using Resolution_pos [OF assms, of v] by (simp add: op_eq_def DistanceTo_self)
next
  assume "2 * sqrt (e0 * e0 + e1 * e1 + e2 * e2 + e3 * e3) \<le> Resolution fResolution v"
  then have "sqrt (e0 * e0 + e1 * e1 + e2 * e2 + e3 * e3) < Resolution fResolution v"
    using Resolution_pos [OF assms, of v] by linarith
  then show "op_eq fResolution v (op_plus v (TFourVectorReal e0 e1 e2 e3))"
    by (simp add: op_eq_def DistanceTo_op_plus)
next
  assume "2 * Resolution fResolution v \<le> sqrt (d0 * d0 + d1 * d1 + d2 * d2 + d3 * d3)"
  then have "Resolution fResolution v \<le> sqrt (d0 * d0 + d1 * d1 + d2 * d2 + d3 * d3)"
    using Resolution_pos [OF assms, of v] by linarith
  then show "op_neq fResolution v (op_plus v (TFourVectorReal d0 d1 d2 d3))"
    by (simp add: op_neq_def op_eq_def DistanceTo_op_plus)
next
  assume "Resolution fResolution v = Resolution fResolution w"
  then show "op_eq fResolution v w = op_eq fResolution w v"
    by (simp add: op_eq_def DistanceTo_commute [of v w])
next
  assume "fVector v 0 \<noteq> 0 \<or> fVector v 1 \<noteq> 0 \<or> fVector v 2 \<noteq> 0 \<or> fVector v 3 \<noteq> 0"
  then show "Resolution fResolution v
          = fResolution * sqrt (fVector v 0 * fVector v 0 + fVector v 1 * fVector v 1
                                 + fVector v 2 * fVector v 2 + fVector v 3 * fVector v 3)"
    by (cases v) (auto simp: Resolution_scale)
qed

theorem op_eq_reflexive_tolerant_witness:
  "op_eq (1 / 10 ^ 12) (TFourVectorReal 1 0 0 0) (TFourVectorReal 1 0 0 0)
   \<and> op_eq (1 / 10 ^ 12) (TFourVectorReal 1 0 0 0)
        (op_plus (TFourVectorReal 1 0 0 0) (TFourVectorReal (1 / 10 ^ 13) 0 0 0))
   \<and> op_neq (1 / 10 ^ 12) (TFourVectorReal 1 0 0 0)
        (op_plus (TFourVectorReal 1 0 0 0) (TFourVectorReal (1 / 10 ^ 3) 0 0 0))
   \<and> op_eq (1 / 10 ^ 12) (TFourVectorReal 1 0 0 0) (TFourVectorReal 0 1 0 0)
        = op_eq (1 / 10 ^ 12) (TFourVectorReal 0 1 0 0) (TFourVectorReal 1 0 0 0)
   \<and> Resolution (1 / 10 ^ 12) (TFourVectorReal 1 0 0 0) = 1 / 10 ^ 12"
proof -
  let ?r = "1 / 10 ^ 12 :: real"
  let ?v = "TFourVectorReal 1 0 0 0"
  have r: "0 < ?r" by simp
  have res: "Resolution ?r ?v = ?r" "Resolution ?r (TFourVectorReal 0 1 0 0) = ?r"
    by (simp_all add: Resolution_def LengthSqr_def)
  have sq: "sqrt (a * a + 0 * 0 + 0 * 0 + 0 * 0) = a" if "0 \<le> a" for a :: real
    using that by simp
  have small: "2 * sqrt (1 / 10 ^ 13 * (1 / 10 ^ 13) + 0 * 0 + 0 * 0 + 0 * 0)
                 \<le> Resolution ?r ?v"
    unfolding res by (subst sq) simp_all
  have large: "2 * Resolution ?r ?v
                 \<le> sqrt (1 / 10 ^ 3 * (1 / 10 ^ 3) + 0 * 0 + 0 * 0 + 0 * 0)"
    unfolding res by (subst sq) simp_all
  note a = op_eq_reflexive_tolerant
             [OF r, where v = ?v and w = "TFourVectorReal 0 1 0 0"
                and ?e0.0 = "1 / 10 ^ 13" and ?e1.0 = 0 and ?e2.0 = 0 and ?e3.0 = 0
                and ?d0.0 = "1 / 10 ^ 3" and ?d1.0 = 0 and ?d2.0 = 0 and ?d3.0 = 0]
  from a have 1: "op_eq ?r ?v ?v" by blast
  from a small have 2: "op_eq ?r ?v (op_plus ?v (TFourVectorReal (1 / 10 ^ 13) 0 0 0))"
    by blast
  from a large have 3: "op_neq ?r ?v (op_plus ?v (TFourVectorReal (1 / 10 ^ 3) 0 0 0))"
    by blast
  from a res have 4: "op_eq ?r ?v (TFourVectorReal 0 1 0 0) = op_eq ?r (TFourVectorReal 0 1 0 0) ?v"
    by metis
  from 1 2 3 4 res show ?thesis by blast
qed

lemma DistanceTo_time_axis:
  "DistanceTo (TFourVectorReal a 0 0 0) (TFourVectorReal b 0 0 0) = \<bar>a - b\<bar>"
  by (simp add: DistanceTo_def)

lemma Resolution_time_axis:
  "Resolution r (TFourVectorReal a 0 0 0) = (if a = 0 then r else r * \<bar>a\<bar>)"
  by (simp add: Resolution_def LengthSqr_def)

text \<open>The rounded comparison is the exact one when nothing is rounded.\<close>

lemma op_eq_rounded_exact: "op_eq_rounded (\<lambda>a. a) fResolution v w = op_eq fResolution v w"
  by (simp add: op_eq_rounded_def DistanceTo_rounded_def Resolution_rounded_def
                LengthSqr_rounded_def op_eq_def DistanceTo_def Resolution_def LengthSqr_def)

lemma round_to_0: "round_to p 0 = 0"
  by (simp add: round_to_def)

lemma time_axis_rounded:
  assumes "fl 0 = 0" and "fl a = a" and "fl (- a) = - a" and "fl (a * a) = a * a" and "0 < a"
  shows "DistanceTo_rounded fl (TFourVectorReal 0 0 0 0) (TFourVectorReal a 0 0 0) = a"
    and "DistanceTo_rounded fl (TFourVectorReal a 0 0 0) (TFourVectorReal 0 0 0 0) = a"
    and "Resolution_rounded fl r (TFourVectorReal 0 0 0 0) = r"
    and "Resolution_rounded fl r (TFourVectorReal a 0 0 0) = fl (r * a)"
  using assms
  by (simp_all add: DistanceTo_rounded_def Resolution_rounded_def LengthSqr_rounded_def Let_def)

lemma round_to_53_powers:
  "round_to 53 (1 / 2 ^ 41) = 1 / 2 ^ 41" "round_to 53 (- (1 / 2 ^ 41)) = - (1 / 2 ^ 41)"
  "round_to 53 (1 / 2 ^ 41 * (1 / 2 ^ 41)) = 1 / 2 ^ 41 * (1 / 2 ^ 41)"
  "round_to 53 (1 / 2 ^ 40 * (1 / 2 ^ 41)) = 1 / 2 ^ 81"
     apply (rule round_to_representable [where e = "- 41" and n = "2 ^ 52"]; simp)
    apply (rule round_to_representable [where e = "- 41" and n = "- (2 ^ 52)"]; simp)
   apply (rule round_to_representable [where e = "- 82" and n = "2 ^ 52"]; simp)
  apply (subst round_to_representable [where e = "- 81" and n = "2 ^ 52"]; simp)
  done

lemma round_to_64_powers:
  "round_to 64 (1 / 2 ^ 41) = 1 / 2 ^ 41" "round_to 64 (- (1 / 2 ^ 41)) = - (1 / 2 ^ 41)"
  "round_to 64 (1 / 2 ^ 41 * (1 / 2 ^ 41)) = 1 / 2 ^ 41 * (1 / 2 ^ 41)"
  "round_to 64 (1 / 2 ^ 40 * (1 / 2 ^ 41)) = 1 / 2 ^ 81"
     apply (rule round_to_representable [where e = "- 41" and n = "2 ^ 63"]; simp)
    apply (rule round_to_representable [where e = "- 41" and n = "- (2 ^ 63)"]; simp)
   apply (rule round_to_representable [where e = "- 82" and n = "2 ^ 63"]; simp)
  apply (subst round_to_representable [where e = "- 81" and n = "2 ^ 63"]; simp)
  done

text \<open>
  The claim C6 as stated includes symmetry. It fails between the zero vector and a small
  one. The resolution of the zero vector is the constant itself, and \<open>(2\<^sup>-\<^sup>4\<^sup>1, 0, 0, 0)\<close>
  lies within it when the constant is \<open>10\<^sup>-\<^sup>1\<^sup>2\<close> or \<open>2\<^sup>-\<^sup>4\<^sup>0\<close>; the resolution of
  \<open>(2\<^sup>-\<^sup>4\<^sup>1, 0, 0, 0)\<close> is the constant times \<open>2\<^sup>-\<^sup>4\<^sup>1\<close>, far below its distance \<open>2\<^sup>-\<^sup>4\<^sup>1\<close> from
  the zero vector. This is so in exact arithmetic and, every operand being a power of two,
  in the rounded arithmetic of the double and of the extended format as well.
\<close>

theorem op_eq_not_symmetric:
  "op_eq (1 / 10 ^ 12) (TFourVectorReal 0 0 0 0) (TFourVectorReal (1 / 2 ^ 41) 0 0 0)
   \<and> \<not> op_eq (1 / 10 ^ 12) (TFourVectorReal (1 / 2 ^ 41) 0 0 0) (TFourVectorReal 0 0 0 0)
   \<and> op_eq_rounded (round_to 53) (1 / 2 ^ 40)
         (TFourVectorReal 0 0 0 0) (TFourVectorReal (1 / 2 ^ 41) 0 0 0)
   \<and> \<not> op_eq_rounded (round_to 53) (1 / 2 ^ 40)
           (TFourVectorReal (1 / 2 ^ 41) 0 0 0) (TFourVectorReal 0 0 0 0)
   \<and> op_eq_rounded (round_to 64) (1 / 2 ^ 40)
         (TFourVectorReal 0 0 0 0) (TFourVectorReal (1 / 2 ^ 41) 0 0 0)
   \<and> \<not> op_eq_rounded (round_to 64) (1 / 2 ^ 40)
           (TFourVectorReal (1 / 2 ^ 41) 0 0 0) (TFourVectorReal 0 0 0 0)"
proof -
  have a: "(0::real) < 1 / 2 ^ 41" by simp
  note d53 = time_axis_rounded [of "round_to 53", OF round_to_0 round_to_53_powers(1-3) a]
  note d64 = time_axis_rounded [of "round_to 64", OF round_to_0 round_to_64_powers(1-3) a]
  have exact: "op_eq (1 / 10 ^ 12) (TFourVectorReal 0 0 0 0) (TFourVectorReal (1 / 2 ^ 41) 0 0 0)
     \<and> \<not> op_eq (1 / 10 ^ 12) (TFourVectorReal (1 / 2 ^ 41) 0 0 0) (TFourVectorReal 0 0 0 0)"
    by (simp add: op_eq_def DistanceTo_time_axis Resolution_time_axis)
  have rounded: "op_eq_rounded (round_to 53) (1 / 2 ^ 40)
         (TFourVectorReal 0 0 0 0) (TFourVectorReal (1 / 2 ^ 41) 0 0 0)
   \<and> \<not> op_eq_rounded (round_to 53) (1 / 2 ^ 40)
           (TFourVectorReal (1 / 2 ^ 41) 0 0 0) (TFourVectorReal 0 0 0 0)
   \<and> op_eq_rounded (round_to 64) (1 / 2 ^ 40)
         (TFourVectorReal 0 0 0 0) (TFourVectorReal (1 / 2 ^ 41) 0 0 0)
   \<and> \<not> op_eq_rounded (round_to 64) (1 / 2 ^ 40)
           (TFourVectorReal (1 / 2 ^ 41) 0 0 0) (TFourVectorReal 0 0 0 0)"
    unfolding op_eq_rounded_def d53 d64 round_to_53_powers(4) round_to_64_powers(4) by simp
  from exact rounded show ?thesis by blast
qed

text \<open>
  The same holds for every positive resolution constant below 1, between the zero vector
  and a vector of half that size.
\<close>

lemma op_eq_not_symmetric_any_resolution:
  assumes "0 < r" and "r < 1"
  shows "op_eq r (TFourVectorReal 0 0 0 0) (TFourVectorReal (r / 2) 0 0 0)
         \<and> \<not> op_eq r (TFourVectorReal (r / 2) 0 0 0) (TFourVectorReal 0 0 0 0)"
  using assms by (simp add: op_eq_def DistanceTo_time_axis Resolution_time_axis)

section \<open>Properties of the reaction functions\<close>

text \<open>A loop that adds one term per index computes the sum of the terms.\<close>

lemma for_loop_sum:
  "for_loop n (\<lambda>i acc. acc + f i) = (\<lambda>acc. acc + (\<Sum>i<n. f i :: 'a::comm_monoid_add))"
proof
  fix acc
  show "for_loop n (\<lambda>i acc. acc + f i) acc = acc + (\<Sum>i<n. f i)"
    unfolding for_loop_def
    by (induction n arbitrary: acc) (simp_all add: add.assoc)
qed

lemma pass1:
  "(\<Sum>x\<in>A. \<Sum>y\<in>B. F x y) = (\<Sum>y\<in>B. \<Sum>x\<in>A. F x y :: 'a::comm_monoid_add)"
  by (rule sum.swap)

lemma pass2:
  "(\<Sum>x\<in>A. \<Sum>y\<in>B. \<Sum>z\<in>C. F x y z) = (\<Sum>y\<in>B. \<Sum>z\<in>C. \<Sum>x\<in>A. F x y z :: 'a::comm_monoid_add)"
proof -
  have "(\<Sum>x\<in>A. \<Sum>y\<in>B. \<Sum>z\<in>C. F x y z) = (\<Sum>y\<in>B. \<Sum>x\<in>A. \<Sum>z\<in>C. F x y z)"
    by (rule sum.swap)
  also have "\<dots> = (\<Sum>y\<in>B. \<Sum>z\<in>C. \<Sum>x\<in>A. F x y z)"
    by (rule sum.cong [OF refl]) (rule pass1)
  finally show ?thesis .
qed

lemma pass3:
  "(\<Sum>x\<in>A. \<Sum>y\<in>B. \<Sum>z\<in>C. \<Sum>w\<in>D. F x y z w)
     = (\<Sum>y\<in>B. \<Sum>z\<in>C. \<Sum>w\<in>D. \<Sum>x\<in>A. F x y z w :: 'a::comm_monoid_add)"
proof -
  have "(\<Sum>x\<in>A. \<Sum>y\<in>B. \<Sum>z\<in>C. \<Sum>w\<in>D. F x y z w)
          = (\<Sum>y\<in>B. \<Sum>x\<in>A. \<Sum>z\<in>C. \<Sum>w\<in>D. F x y z w)"
    by (rule sum.swap)
  also have "\<dots> = (\<Sum>y\<in>B. \<Sum>z\<in>C. \<Sum>w\<in>D. \<Sum>x\<in>A. F x y z w)"
    by (rule sum.cong [OF refl]) (rule pass2)
  finally show ?thesis .
qed

lemma pass4:
  "(\<Sum>x\<in>A. \<Sum>y\<in>B. \<Sum>z\<in>C. \<Sum>w\<in>D. \<Sum>v\<in>E. F x y z w v)
     = (\<Sum>y\<in>B. \<Sum>z\<in>C. \<Sum>w\<in>D. \<Sum>v\<in>E. \<Sum>x\<in>A. F x y z w v :: 'a::comm_monoid_add)"
proof -
  have "(\<Sum>x\<in>A. \<Sum>y\<in>B. \<Sum>z\<in>C. \<Sum>w\<in>D. \<Sum>v\<in>E. F x y z w v)
          = (\<Sum>y\<in>B. \<Sum>x\<in>A. \<Sum>z\<in>C. \<Sum>w\<in>D. \<Sum>v\<in>E. F x y z w v)"
    by (rule sum.swap)
  also have "\<dots> = (\<Sum>y\<in>B. \<Sum>z\<in>C. \<Sum>w\<in>D. \<Sum>v\<in>E. \<Sum>x\<in>A. F x y z w v)"
    by (rule sum.cong [OF refl]) (rule pass3)
  finally show ?thesis .
qed

text \<open>
  Nested sums over index pairs \<open>(a, a')\<close>, \<open>(b, b')\<close>, ... regrouped as a sum over the tuple
  \<open>(a, b, ...)\<close> and then over the tuple \<open>(a', b', ...)\<close>.
\<close>

lemma regroup2:
  "(\<Sum>a\<in>A. \<Sum>a'\<in>A'. \<Sum>b\<in>B. \<Sum>b'\<in>B'. F a a' b b')
     = (\<Sum>a\<in>A. \<Sum>b\<in>B. \<Sum>a'\<in>A'. \<Sum>b'\<in>B'. F a a' b b' :: 'a::comm_monoid_add)"
  by (rule sum.cong [OF refl]) (rule pass1)

lemma regroup3:
  "(\<Sum>a\<in>A. \<Sum>a'\<in>A'. \<Sum>b\<in>B. \<Sum>b'\<in>B'. \<Sum>c\<in>C. \<Sum>c'\<in>C'. F a a' b b' c c')
     = (\<Sum>a\<in>A. \<Sum>b\<in>B. \<Sum>c\<in>C. \<Sum>a'\<in>A'. \<Sum>b'\<in>B'. \<Sum>c'\<in>C'. F a a' b b' c c' :: 'a::comm_monoid_add)"
proof -
  have "(\<Sum>a\<in>A. \<Sum>a'\<in>A'. \<Sum>b\<in>B. \<Sum>b'\<in>B'. \<Sum>c\<in>C. \<Sum>c'\<in>C'. F a a' b b' c c')
          = (\<Sum>a\<in>A. \<Sum>a'\<in>A'. \<Sum>b\<in>B. \<Sum>c\<in>C. \<Sum>b'\<in>B'. \<Sum>c'\<in>C'. F a a' b b' c c')"
    by (intro sum.cong [OF refl]) (rule pass1)
  also have "\<dots> = (\<Sum>a\<in>A. \<Sum>b\<in>B. \<Sum>c\<in>C. \<Sum>a'\<in>A'. \<Sum>b'\<in>B'. \<Sum>c'\<in>C'. F a a' b b' c c')"
    by (rule sum.cong [OF refl]) (rule pass2)
  finally show ?thesis .
qed


lemma regroup4:
  "(\<Sum>a\<in>A. \<Sum>a'\<in>A'. \<Sum>b\<in>B. \<Sum>b'\<in>B'. \<Sum>c\<in>C. \<Sum>c'\<in>C'. \<Sum>d\<in>D. \<Sum>d'\<in>D'. F a a' b b' c c' d d')
     = (\<Sum>a\<in>A. \<Sum>b\<in>B. \<Sum>c\<in>C. \<Sum>d\<in>D. \<Sum>a'\<in>A'. \<Sum>b'\<in>B'. \<Sum>c'\<in>C'. \<Sum>d'\<in>D'.
          F a a' b b' c c' d d' :: 'a::comm_monoid_add)"
proof -
  have "(\<Sum>a\<in>A. \<Sum>a'\<in>A'. \<Sum>b\<in>B. \<Sum>b'\<in>B'. \<Sum>c\<in>C. \<Sum>c'\<in>C'. \<Sum>d\<in>D. \<Sum>d'\<in>D'. F a a' b b' c c' d d')
          = (\<Sum>a\<in>A. \<Sum>a'\<in>A'. \<Sum>b\<in>B. \<Sum>c\<in>C. \<Sum>d\<in>D. \<Sum>b'\<in>B'. \<Sum>c'\<in>C'. \<Sum>d'\<in>D'.
               F a a' b b' c c' d d')"
    by (rule sum.cong [OF refl], rule sum.cong [OF refl]) (rule regroup3)
  also have "\<dots> = (\<Sum>a\<in>A. \<Sum>b\<in>B. \<Sum>c\<in>C. \<Sum>d\<in>D. \<Sum>a'\<in>A'. \<Sum>b'\<in>B'. \<Sum>c'\<in>C'. \<Sum>d'\<in>D'.
               F a a' b b' c c' d d')"
    by (rule sum.cong [OF refl]) (rule pass3)
  finally show ?thesis .
qed

lemma regroup5:
  "(\<Sum>a\<in>A. \<Sum>a'\<in>A'. \<Sum>b\<in>B. \<Sum>b'\<in>B'. \<Sum>c\<in>C. \<Sum>c'\<in>C'. \<Sum>d\<in>D. \<Sum>d'\<in>D'. \<Sum>e\<in>E. \<Sum>e'\<in>E'.
       F a a' b b' c c' d d' e e')
     = (\<Sum>a\<in>A. \<Sum>b\<in>B. \<Sum>c\<in>C. \<Sum>d\<in>D. \<Sum>e\<in>E. \<Sum>a'\<in>A'. \<Sum>b'\<in>B'. \<Sum>c'\<in>C'. \<Sum>d'\<in>D'. \<Sum>e'\<in>E'.
          F a a' b b' c c' d d' e e' :: 'a::comm_monoid_add)"
proof -
  have "(\<Sum>a\<in>A. \<Sum>a'\<in>A'. \<Sum>b\<in>B. \<Sum>b'\<in>B'. \<Sum>c\<in>C. \<Sum>c'\<in>C'. \<Sum>d\<in>D. \<Sum>d'\<in>D'. \<Sum>e\<in>E. \<Sum>e'\<in>E'.
           F a a' b b' c c' d d' e e')
          = (\<Sum>a\<in>A. \<Sum>a'\<in>A'. \<Sum>b\<in>B. \<Sum>c\<in>C. \<Sum>d\<in>D. \<Sum>e\<in>E. \<Sum>b'\<in>B'. \<Sum>c'\<in>C'. \<Sum>d'\<in>D'. \<Sum>e'\<in>E'.
               F a a' b b' c c' d d' e e')"
    by (rule sum.cong [OF refl], rule sum.cong [OF refl]) (rule regroup4)
  also have "\<dots> = (\<Sum>a\<in>A. \<Sum>b\<in>B. \<Sum>c\<in>C. \<Sum>d\<in>D. \<Sum>e\<in>E. \<Sum>a'\<in>A'. \<Sum>b'\<in>B'. \<Sum>c'\<in>C'. \<Sum>d'\<in>D'. \<Sum>e'\<in>E'.
               F a a' b b' c c' d d' e e')"
    by (rule sum.cong [OF refl]) (rule pass4)
  finally show ?thesis .
qed

lemma Compton_spin_sum:
  "Compton_ampSquared invAmp gI eI gF eF =
     (\<Sum>gi<2. \<Sum>gf<2. \<Sum>hi<2. \<Sum>hf<2. \<Sum>gibar<2. \<Sum>gfbar<2. \<Sum>hibar<2. \<Sum>hfbar<2.
        invAmp hi hf gi gf * cnj (invAmp hibar hfbar gibar gfbar)
        * TLepton.SDM eI hi hibar * TLepton.SDM eF hfbar hf
        * TPhoton.SDM gI gi gibar * TPhoton.SDM gF gfbar gf)"
  unfolding Compton_ampSquared_def for_loop_sum add_0
  by (rule regroup4)

lemma Bremsstrahlung_spin_sum:
  "Bremsstrahlung_ampSquared invAmp eI eF gF =
     (\<Sum>gf<2. \<Sum>hi<2. \<Sum>hf<2. \<Sum>gfbar<2. \<Sum>hibar<2. \<Sum>hfbar<2.
        invAmp hi hf gf * cnj (invAmp hibar hfbar gfbar)
        * TLepton.SDM eI hi hibar * TLepton.SDM eF hfbar hf * TPhoton.SDM gF gfbar gf)"
  unfolding Bremsstrahlung_ampSquared_def for_loop_sum add_0
  by (rule regroup3)

lemma PairProduction_spin_sum:
  "PairProduction_ampSquared invAmp gI eF pF =
     (\<Sum>gi<2. \<Sum>hi<2. \<Sum>hf<2. \<Sum>gibar<2. \<Sum>hibar<2. \<Sum>hfbar<2.
        invAmp hi hf gi * cnj (invAmp hibar hfbar gibar)
        * TLepton.SDM pF hi hibar * TLepton.SDM eF hfbar hf * TPhoton.SDM gI gi gibar)"
  unfolding PairProduction_ampSquared_def for_loop_sum add_0
  by (rule regroup3)

lemma TripletProduction_spin_sum:
  "TripletProduction_ampSquared invAmp g0 e0 e1 e2 e3 =
     (\<Sum>gi<2. \<Sum>h0<2. \<Sum>h1<2. \<Sum>h2<2. \<Sum>h3<2. \<Sum>gibar<2. \<Sum>h0bar<2. \<Sum>h1bar<2. \<Sum>h2bar<2. \<Sum>h3bar<2.
        invAmp h0 h1 h2 h3 gi * cnj (invAmp h0bar h1bar h2bar h3bar gibar)
        * TLepton.SDM e0 h0 h0bar * TLepton.SDM e1 h1 h1bar
        * TLepton.SDM e2 h2bar h2 * TLepton.SDM e3 h3bar h3 * TPhoton.SDM g0 gi gibar)"
  unfolding TripletProduction_ampSquared_def for_loop_sum add_0
  by (rule regroup5)

lemma eeBremsstrahlung_spin_sum:
  "eeBremsstrahlung_ampSquared invAmp e0 e1 e2 e3 g0 =
     (\<Sum>gf<2. \<Sum>h0<2. \<Sum>h1<2. \<Sum>h2<2. \<Sum>h3<2. \<Sum>gfbar<2. \<Sum>h0bar<2. \<Sum>h1bar<2. \<Sum>h2bar<2. \<Sum>h3bar<2.
        invAmp h0 h1 h2 h3 gf * cnj (invAmp h0bar h1bar h2bar h3bar gfbar)
        * TLepton.SDM e0 h0 h0bar * TLepton.SDM e1 h1 h1bar
        * TLepton.SDM e2 h2bar h2 * TLepton.SDM e3 h3bar h3 * TPhoton.SDM g0 gfbar gf)"
  unfolding eeBremsstrahlung_ampSquared_def for_loop_sum add_0
  by (rule regroup5)


lemma sum_lessThan_2: "(\<Sum>i<2. f i) = f 0 + (f (Suc 0) :: 'a::comm_monoid_add)"
  by (simp add: numeral_2_eq_2)

text \<open>
  C1, as amended. In each of the five reaction functions the spin-summed amplitude squared
  that the nested loops accumulate is the sum, over all pairs of index tuples \<open>h\<close> and
  \<open>hbar\<close>, of \<open>amplitude[h] * conj(amplitude[hbar])\<close> times one spin-density matrix element per
  particle: indexed \<open>[h, hbar]\<close> for every incoming particle and for the outgoing positron of
  PairProduction and of TripletProduction, and indexed \<open>[hbar, h]\<close> for every other outgoing
  particle.
\<close>

theorem spin_sums_contract_SDMs:
  "Compton_ampSquared invAmp4 gI eI gF eF =
     (\<Sum>gi<2. \<Sum>gf<2. \<Sum>hi<2. \<Sum>hf<2. \<Sum>gibar<2. \<Sum>gfbar<2. \<Sum>hibar<2. \<Sum>hfbar<2.
        invAmp4 hi hf gi gf * cnj (invAmp4 hibar hfbar gibar gfbar)
        * TLepton.SDM eI hi hibar * TLepton.SDM eF hfbar hf
        * TPhoton.SDM gI gi gibar * TPhoton.SDM gF gfbar gf)
   \<and> Bremsstrahlung_ampSquared invAmp3 eI eF gF =
     (\<Sum>gf<2. \<Sum>hi<2. \<Sum>hf<2. \<Sum>gfbar<2. \<Sum>hibar<2. \<Sum>hfbar<2.
        invAmp3 hi hf gf * cnj (invAmp3 hibar hfbar gfbar)
        * TLepton.SDM eI hi hibar * TLepton.SDM eF hfbar hf * TPhoton.SDM gF gfbar gf)
   \<and> PairProduction_ampSquared invAmp3 gI eF pF =
     (\<Sum>gi<2. \<Sum>hi<2. \<Sum>hf<2. \<Sum>gibar<2. \<Sum>hibar<2. \<Sum>hfbar<2.
        invAmp3 hi hf gi * cnj (invAmp3 hibar hfbar gibar)
        * TLepton.SDM pF hi hibar * TLepton.SDM eF hfbar hf * TPhoton.SDM gI gi gibar)
   \<and> TripletProduction_ampSquared invAmp5 g0 e0 e1 e2 e3 =
     (\<Sum>gi<2. \<Sum>h0<2. \<Sum>h1<2. \<Sum>h2<2. \<Sum>h3<2. \<Sum>gibar<2. \<Sum>h0bar<2. \<Sum>h1bar<2. \<Sum>h2bar<2. \<Sum>h3bar<2.
        invAmp5 h0 h1 h2 h3 gi * cnj (invAmp5 h0bar h1bar h2bar h3bar gibar)
        * TLepton.SDM e0 h0 h0bar * TLepton.SDM e1 h1 h1bar
        * TLepton.SDM e2 h2bar h2 * TLepton.SDM e3 h3bar h3 * TPhoton.SDM g0 gi gibar)
   \<and> eeBremsstrahlung_ampSquared invAmp5 e0 e1 e2 e3 gF =
     (\<Sum>gf<2. \<Sum>h0<2. \<Sum>h1<2. \<Sum>h2<2. \<Sum>h3<2. \<Sum>gfbar<2. \<Sum>h0bar<2. \<Sum>h1bar<2. \<Sum>h2bar<2. \<Sum>h3bar<2.
        invAmp5 h0 h1 h2 h3 gf * cnj (invAmp5 h0bar h1bar h2bar h3bar gfbar)
        * TLepton.SDM e0 h0 h0bar * TLepton.SDM e1 h1 h1bar
        * TLepton.SDM e2 h2bar h2 * TLepton.SDM e3 h3bar h3 * TPhoton.SDM gF gfbar gf)"
  by (intro conjI Compton_spin_sum Bremsstrahlung_spin_sum PairProduction_spin_sum
        TripletProduction_spin_sum eeBremsstrahlung_spin_sum)

text \<open>
  The claim C1 as stated reverses the indices for every outgoing particle. It fails for
  the outgoing positron of PairProduction: with amplitudes \<open>1\<close> and \<open>\<i>\<close> for the two
  positron helicities and a positron polarised along y, the loops give 0 where the sum
  with the positron's indices reversed gives 4.
\<close>

theorem PairProduction_positron_not_reversed:
  "PairProduction_ampSquared (\<lambda>hi hf gi. if hi = 0 then 1 else \<i>)
       \<lparr> TPhoton.Mom = TFourVectorReal 10 0 0 10, SDM = unpolarised_in \<rparr>
       \<lparr> TLepton.Mom = TFourVectorReal 5 0 4 0, Mass = 3, SDM = all_states_out \<rparr>
       \<lparr> TLepton.Mom = TFourVectorReal 5 0 (- 4) 0, Mass = 3, SDM = polarised_y \<rparr> = 0
   \<and> PairProduction_ampSquared_as_claimed (\<lambda>hi hf gi. if hi = 0 then 1 else \<i>)
       \<lparr> TPhoton.Mom = TFourVectorReal 10 0 0 10, SDM = unpolarised_in \<rparr>
       \<lparr> TLepton.Mom = TFourVectorReal 5 0 4 0, Mass = 3, SDM = all_states_out \<rparr>
       \<lparr> TLepton.Mom = TFourVectorReal 5 0 (- 4) 0, Mass = 3, SDM = polarised_y \<rparr> = 4"
  by (simp add: PairProduction_spin_sum PairProduction_ampSquared_as_claimed_def
        sum_lessThan_2 unpolarised_in_def all_states_out_def polarised_y_def)

lemma chain_sum_minus_product:
  "dm_times_scalar (dm_plus (dm_plus G (dm_times X E)) R) c i j
     - dm_times_scalar (dm_plus (dm_times (dm_times G X) E) R) c i j
   = (G i j + dm_times X E i j - dm_times (dm_times G X) E i j) * of_real c"
  by (simp add: dm_times_scalar_def dm_plus_def algebra_simps)

lemma Dirac_gamma0_first_row:
  "dm_times (dm_times (Dirac_gamma 0) X) E 0 0 = dm_times X E 0 0"
  by (simp add: dm_times_def Dirac_gamma_def)

lemma ex_gprop:
  "eeBremsstrahlung_gprop ex_e0 ex_e1 ex_e2 ex_e3 = (- 6, - (6 / 13), - 2, - (18 / 29))"
  by (simp add: eeBremsstrahlung_gprop_def ex_e0_def ex_e1_def ex_e2_def ex_e3_def
        InvariantSqr_def LengthSqr_def op_minus_def op_minus_assign_def)

text \<open>
  The first chain of eeBremsstrahlung, and all four chains of TripletProduction, are sums
  of two triple products scaled by the photon propagator.
\<close>

lemma eeBremsstrahlung_chain_A_is_triple_products:
  "fst (eeBremsstrahlung_chains pkg eprop gprop g0 gf mu)
     = fst (eeBremsstrahlung_chains_as_claimed pkg eprop gprop g0 gf mu)"
  by (simp add: eeBremsstrahlung_chains_def eeBremsstrahlung_chains_as_claimed_def Let_def
        split: prod.splits)

lemma TripletProduction_chains_are_triple_products:
  "TripletProduction_chains pkg (epropCD2a, epropCD2b, epropBH2a, epropBH2b)
       (gpropCD2, gpropBH2, gpropCD3, gpropBH3) g0 gi mu =
     (let gamma = kDiracGamma pkg;
          epsI = SlashC pkg (Eps pkg g0 (gi + 1));
          chain = (\<lambda>eprop1 eprop2 gprop.
             dm_times_scalar
               (dm_plus (dm_times (dm_times (gamma mu) eprop1) epsI)
                        (dm_times (dm_times epsI eprop2) (gamma mu))) gprop)
      in (chain epropCD2a epropCD2b gpropCD2, chain epropBH2a epropBH2b gpropBH2,
          chain epropCD2a epropBH2b gpropCD3, chain epropBH2a epropCD2b gpropBH3))"
  by (simp add: TripletProduction_chains_def Let_def)

text \<open>
  C2. The claim is that all four chains of eeBremsstrahlung are the sum of two triple
  products. The source builds \<^verbatim>\<open>A\<close> that way, and \<^verbatim>\<open>B\<close>, \<^verbatim>\<open>C\<close>, \<^verbatim>\<open>D\<close> with a sum in place of
  the first product. On the example input (Lorentz index 0, first polarisation) the entry
  in row 0, column 0 of the source's chain minus that of the claimed chain is 0 for \<^verbatim>\<open>A\<close>
  and the photon propagator, which is not 0, for \<^verbatim>\<open>B\<close>, \<^verbatim>\<open>C\<close> and \<^verbatim>\<open>D\<close>.
\<close>

theorem eeBremsstrahlung_chains_differ:
  "(case eeBremsstrahlung_chains example_package
           (eeBremsstrahlung_eprop example_package ex_e0 ex_e1 ex_e2 ex_e3 ex_g)
           (eeBremsstrahlung_gprop ex_e0 ex_e1 ex_e2 ex_e3) ex_g 0 0 of
      (A, B, C, D) \<Rightarrow>
    case eeBremsstrahlung_chains_as_claimed example_package
           (eeBremsstrahlung_eprop example_package ex_e0 ex_e1 ex_e2 ex_e3 ex_g)
           (eeBremsstrahlung_gprop ex_e0 ex_e1 ex_e2 ex_e3) ex_g 0 0 of
      (A', B', C', D') \<Rightarrow>
      (A 0 0 - A' 0 0, B 0 0 - B' 0 0, C 0 0 - C' 0 0, D 0 0 - D' 0 0))
   = (0, - (6 / 13), - 2, - (18 / 29))"
proof -
  obtain XA1 XA2 XB1 XB2
    where X: "eeBremsstrahlung_eprop example_package ex_e0 ex_e1 ex_e2 ex_e3 ex_g
                = (XA1, XA2, XB1, XB2)"
    by (cases "eeBremsstrahlung_eprop example_package ex_e0 ex_e1 ex_e2 ex_e3 ex_g") auto
  have g: "kDiracGamma example_package = Dirac_gamma"
    by (simp add: example_package_def)
  have g00: "Dirac_gamma 0 0 0 = 1"
    by (simp add: Dirac_gamma_def)
  show ?thesis
    unfolding X ex_gprop eeBremsstrahlung_chains_def eeBremsstrahlung_chains_as_claimed_def
      Let_def prod.case g
    by (simp only: chain_sum_minus_product Dirac_gamma0_first_row g00) simp
qed

text \<open>
  C4. For every input Compton returns \<open>hbarcSqr * alphaQED\<^sup>2 * Re(ampSquared) * kinFactor\<close>:
  the first \<^verbatim>\<open>return\<close> ends the function, and the Klein-Nishina statements after it
  contribute nothing to the result.
\<close>

theorem Compton_returns_amplitude_value:
  "Compton pkg gIn eIn gOut eOut =
     Return (hbarcSqr pkg * (alphaQED pkg)\<^sup>2
             * Re (Compton_ampSquared (Compton_invAmp pkg gIn eIn gOut eOut) gIn eIn gOut eOut)
             * Compton_kinFactor gIn eIn gOut eOut)"
  by (simp add: Compton_def then_do_def sqr_def power2_eq_square Let_def)

section \<open>Properties of Lorentz transforms\<close>

lemma upt4: "[0..<4] = [0, Suc 0, 2, 3]"
  by (simp add: upt_rec)






lemma sqrt_16_25: "sqrt (16 / 25) = 4 / 5"
  by (rule real_sqrt_unique) (simp_all add: power2_eq_square)

lemma SetBeta_example:
  "Boost (TFourVectorReal t x y z) (SetBeta (3 / 5) 0 0)
     = TFourVectorReal (5 / 4 * t - 3 / 4 * x) (5 / 4 * x - 3 / 4 * t) y z"
  unfolding Boost_def Transform_def SetBeta_def Let_def
  by (simp add: sqrt_16_25 algebra_simps)





text \<open>The same holds, on a vector scaled with it, for every positive resolution constant.\<close>

lemma Invariant_not_preserved_any_resolution:
  assumes r: "0 < r"
  shows "Invariant r (TFourVectorReal (9 / 10 * r) (15 / 10 * r) 0 0) = (0, [])
   \<and> Invariant r (Boost (TFourVectorReal (9 / 10 * r) (15 / 10 * r) 0 0) (SetBeta (3 / 5) 0 0))
       = (- 1, [Error ''TFourVectorReal::Invariant()''
                      ''invoked on a vector with negative norm''])"
proof -
  let ?v = "TFourVectorReal (9 / 10 * r) (15 / 10 * r) 0 0"
  let ?w = "TFourVectorReal 0 (12 / 10 * r) 0 0"
  have w: "Boost ?v (SetBeta (3 / 5) 0 0) = ?w"
    by (simp add: SetBeta_example)
  have iv: "InvariantSqr ?v = - (144 / 100 * (r * r))"
    by (simp add: InvariantSqr_def LengthSqr_def algebra_simps)
  have iw: "InvariantSqr ?w = - (144 / 100 * (r * r))"
    by (simp add: InvariantSqr_def LengthSqr_def algebra_simps)
  have sv: "sqrt (9 / 10 * r * (9 / 10 * r) + 15 / 10 * r * (15 / 10 * r) + 0 * 0 + 0 * 0)
              = sqrt (306 / 100) * r"
  proof -
    have e: "9 / 10 * r * (9 / 10 * r) + 15 / 10 * r * (15 / 10 * r) + 0 * 0 + 0 * 0
            = 306 / 100 * r\<^sup>2"
      by (simp add: power2_eq_square algebra_simps)
    show ?thesis unfolding e real_sqrt_mult using r by simp
  qed
  have sw: "sqrt (0 * 0 + 12 / 10 * r * (12 / 10 * r) + 0 * 0 + 0 * 0) = 12 / 10 * r"
  proof -
    have e: "0 * 0 + 12 / 10 * r * (12 / 10 * r) + 0 * 0 + 0 * 0 = (12 / 10 * r)\<^sup>2"
      by (simp add: power2_eq_square)
    show ?thesis unfolding e using r by simp
  qed
  have big: "144 / 100 < sqrt (306 / 100 :: real)"
    by (rule real_less_rsqrt) (simp add: power2_eq_square)
  have rr: "0 < r * r" using r by simp
  have rv: "Resolution r ?v = r * (sqrt (306 / 100) * r)"
    using r unfolding Resolution_scale sv by simp
  have rw: "Resolution r ?w = r * (12 / 10 * r)"
    using r unfolding Resolution_scale sw by simp
  have "144 / 100 * (r * r) < sqrt (306 / 100) * (r * r)"
    using big rr by (rule mult_strict_right_mono)
  then have 1: "Invariant r ?v = (0, [])"
    using rr unfolding Invariant_def Let_def iv rv by (simp add: mult.assoc mult.left_commute)
  have "12 / 10 * (r * r) < 144 / 100 * (r * r)"
    using rr by simp
  then have 2: "Invariant r ?w = (- 1, [Error ''TFourVectorReal::Invariant()''
                      ''invoked on a vector with negative norm''])"
    using rr unfolding Invariant_def Let_def iw rw by (simp add: mult.assoc mult.left_commute)
  from 1 2 w show ?thesis by simp
qed

section \<open>Properties of calls\<close>

lemma run_simps [simp]:
  "run [] m = m" "run (s # body) m = run body (exec s m)"
  "run (body @ rest) m = run rest (run body m)"
  by (simp_all add: run_def)

lemma list_all_for_each [simp]:
  "list_all P (for_each n body) \<longleftrightarrow> (\<forall>i<n. list_all P (body i))"
  by (auto simp: for_each_def list_all_iff)

text \<open>A statement that is local to a frame leaves everything below the frame as it is.\<close>

lemma leave_exec: "local_to f s \<Longrightarrow> leave f (exec s m) = leave f m"
  by (cases s) (simp_all add: leave_def)

lemma leave_run: "list_all (local_to f) body \<Longrightarrow> leave f (run body m) = leave f m"
  by (induction body arbitrary: m) (simp_all add: leave_exec)

lemma leave_enter: "leave (top_of m) (enter n1 n2 n3 n4 n5 n6 n7 m) = m"
  by (simp add: leave_def top_of_def enter_def)

text \<open>Every statement of the five bodies is local to the frame of its call.\<close>

lemma Compton_body_local: "list_all (local_to f) (Compton_body pkg f gIn eIn gOut eOut)"
  by (simp add: Compton_body_def Let_def)

lemma Bremsstrahlung_body_local:
  "list_all (local_to f) (Bremsstrahlung_body pkg f eIn eOut gOut)"
  by (simp add: Bremsstrahlung_body_def Let_def)

lemma PairProduction_body_local:
  "list_all (local_to f) (PairProduction_body pkg f gIn eOut pOut)"
  by (simp add: PairProduction_body_def Let_def)

lemma TripletProduction_body_local:
  "list_all (local_to f) (TripletProduction_body pkg f gIn eIn pOut eOut2 eOut3)"
  by (simp add: TripletProduction_body_def Let_def)

lemma eeBremsstrahlung_body_local:
  "list_all (local_to f) (eeBremsstrahlung_body pkg f eIn0 eIn1 eOut2 eOut3 gOut)"
  by (simp add: eeBremsstrahlung_body_def Let_def)

text \<open>
  A statement that does not store into a particle leaves the lists of particles as they
  are; after the copy constructions at its beginning, no body has another.
\<close>

lemma particles_exec:
  "\<not> stores_particle s \<Longrightarrow> photons (exec s m) = photons m \<and> leptons (exec s m) = leptons m"
  by (cases s) simp_all

lemma particles_run:
  "list_all (\<lambda>s. \<not> stores_particle s) body
     \<Longrightarrow> photons (run body m) = photons m \<and> leptons (run body m) = leptons m"
  by (induction body arbitrary: m) (simp_all add: particles_exec)

lemma particles_after_copies:
  assumes "list_all (\<lambda>s. \<not> stores_particle s) (drop n body)"
  shows "photons (run body m) = photons (run (take n body) m)"
    and "leptons (run body m) = leptons (run (take n body) m)"
proof -
  have "run body m = run (drop n body) (run (take n body) m)"
    by (simp flip: run_simps(3))
  with particles_run [OF assms] show "photons (run body m) = photons (run (take n body) m)"
    and "leptons (run body m) = leptons (run (take n body) m)"
    by simp_all
qed

lemma enter_particles:
  "photons (enter n1 n2 n3 n4 n5 n6 n7 m)
     = photons m @ replicate n1 \<lparr> TPhoton.Mom = TFourVectorReal 0 0 0 0, SDM = (\<lambda>i j. 0) \<rparr>"
  "leptons (enter n1 n2 n3 n4 n5 n6 n7 m)
     = leptons m @ replicate n2
         \<lparr> TLepton.Mom = TFourVectorReal 0 0 0 0, Mass = 0, SDM = (\<lambda>i j. 0) \<rparr>"
  by (simp_all add: enter_def)

text \<open>
  When the references of a call refer to live particles, the local particles hold the
  values of the arguments at the return of the body.
\<close>

lemma Compton_copies:
  assumes "gIn < length (photons m)"
      and "eIn < length (leptons m)"
      and "gOut < length (photons m)"
      and "eOut < length (leptons m)"
  shows "photons (Compton_at_return pkg gIn eIn gOut eOut m) ! length (photons m) = photons m ! gIn
    \<and> leptons (Compton_at_return pkg gIn eIn gOut eOut m) ! length (leptons m) = leptons m ! eIn
    \<and> photons (Compton_at_return pkg gIn eIn gOut eOut m) ! (length (photons m) + 1) = photons m ! gOut
    \<and> leptons (Compton_at_return pkg gIn eIn gOut eOut m) ! (length (leptons m) + 1) = leptons m ! eOut"
proof -
  let ?body = "Compton_body pkg (top_of m) gIn eIn gOut eOut"
  have rest: "list_all (\<lambda>s. \<not> stores_particle s) (drop 4 ?body)"
    by (simp add: Compton_body_def Let_def)
  have copies: "take 4 ?body =
     [StorePhoton (length (photons m)) (\<lambda>m. photons m ! gIn),
      StoreLepton (length (leptons m)) (\<lambda>m. leptons m ! eIn),
      StorePhoton (length (photons m) + 1) (\<lambda>m. photons m ! gOut),
      StoreLepton (length (leptons m) + 1) (\<lambda>m. leptons m ! eOut)]"
    by (simp add: Compton_body_def Let_def top_of_def)
  show ?thesis
    unfolding Compton_at_return_def particles_after_copies [OF rest] copies
    using assms by (simp add: enter_particles nth_append nth_list_update)
qed

lemma Bremsstrahlung_copies:
  assumes "eIn < length (leptons m)"
      and "gOut < length (photons m)"
      and "eOut < length (leptons m)"
  shows "leptons (Bremsstrahlung_at_return pkg eIn eOut gOut m) ! length (leptons m) = leptons m ! eIn
    \<and> photons (Bremsstrahlung_at_return pkg eIn eOut gOut m) ! length (photons m) = photons m ! gOut
    \<and> leptons (Bremsstrahlung_at_return pkg eIn eOut gOut m) ! (length (leptons m) + 1) = leptons m ! eOut"
proof -
  let ?body = "Bremsstrahlung_body pkg (top_of m) eIn eOut gOut"
  have rest: "list_all (\<lambda>s. \<not> stores_particle s) (drop 3 ?body)"
    by (simp add: Bremsstrahlung_body_def Let_def)
  have copies: "take 3 ?body =
     [StoreLepton (length (leptons m)) (\<lambda>m. leptons m ! eIn),
      StorePhoton (length (photons m)) (\<lambda>m. photons m ! gOut),
      StoreLepton (length (leptons m) + 1) (\<lambda>m. leptons m ! eOut)]"
    by (simp add: Bremsstrahlung_body_def Let_def top_of_def)
  show ?thesis
    unfolding Bremsstrahlung_at_return_def particles_after_copies [OF rest] copies
    using assms by (simp add: enter_particles nth_append nth_list_update)
qed

lemma PairProduction_copies:
  assumes "gIn < length (photons m)"
      and "eOut < length (leptons m)"
      and "pOut < length (leptons m)"
  shows "photons (PairProduction_at_return pkg gIn eOut pOut m) ! length (photons m) = photons m ! gIn
    \<and> leptons (PairProduction_at_return pkg gIn eOut pOut m) ! length (leptons m) = leptons m ! eOut
    \<and> leptons (PairProduction_at_return pkg gIn eOut pOut m) ! (length (leptons m) + 1) = leptons m ! pOut"
proof -
  let ?body = "PairProduction_body pkg (top_of m) gIn eOut pOut"
  have rest: "list_all (\<lambda>s. \<not> stores_particle s) (drop 3 ?body)"
    by (simp add: PairProduction_body_def Let_def)
  have copies: "take 3 ?body =
     [StorePhoton (length (photons m)) (\<lambda>m. photons m ! gIn),
      StoreLepton (length (leptons m)) (\<lambda>m. leptons m ! eOut),
      StoreLepton (length (leptons m) + 1) (\<lambda>m. leptons m ! pOut)]"
    by (simp add: PairProduction_body_def Let_def top_of_def)
  show ?thesis
    unfolding PairProduction_at_return_def particles_after_copies [OF rest] copies
    using assms by (simp add: enter_particles nth_append nth_list_update)
qed

lemma TripletProduction_copies:
  assumes "gIn < length (photons m)"
      and "eIn < length (leptons m)"
      and "pOut < length (leptons m)"
      and "eOut2 < length (leptons m)"
      and "eOut3 < length (leptons m)"
  shows "photons (TripletProduction_at_return pkg gIn eIn pOut eOut2 eOut3 m) ! length (photons m) = photons m ! gIn
    \<and> leptons (TripletProduction_at_return pkg gIn eIn pOut eOut2 eOut3 m) ! length (leptons m) = leptons m ! eIn
    \<and> leptons (TripletProduction_at_return pkg gIn eIn pOut eOut2 eOut3 m) ! (length (leptons m) + 1) = leptons m ! pOut
    \<and> leptons (TripletProduction_at_return pkg gIn eIn pOut eOut2 eOut3 m) ! (length (leptons m) + 2) = leptons m ! eOut2
    \<and> leptons (TripletProduction_at_return pkg gIn eIn pOut eOut2 eOut3 m) ! (length (leptons m) + 3) = leptons m ! eOut3"
proof -
  let ?body = "TripletProduction_body pkg (top_of m) gIn eIn pOut eOut2 eOut3"
  have rest: "list_all (\<lambda>s. \<not> stores_particle s) (drop 5 ?body)"
    by (simp add: TripletProduction_body_def Let_def)
  have copies: "take 5 ?body =
     [StorePhoton (length (photons m)) (\<lambda>m. photons m ! gIn),
      StoreLepton (length (leptons m)) (\<lambda>m. leptons m ! eIn),
      StoreLepton (length (leptons m) + 1) (\<lambda>m. leptons m ! pOut),
      StoreLepton (length (leptons m) + 2) (\<lambda>m. leptons m ! eOut2),
      StoreLepton (length (leptons m) + 3) (\<lambda>m. leptons m ! eOut3)]"
    by (simp add: TripletProduction_body_def Let_def top_of_def)
  show ?thesis
    unfolding TripletProduction_at_return_def particles_after_copies [OF rest] copies
    using assms by (simp add: enter_particles nth_append nth_list_update)
qed

lemma eeBremsstrahlung_copies:
  assumes "eIn0 < length (leptons m)"
      and "eIn1 < length (leptons m)"
      and "eOut2 < length (leptons m)"
      and "eOut3 < length (leptons m)"
      and "gOut < length (photons m)"
  shows "leptons (eeBremsstrahlung_at_return pkg eIn0 eIn1 eOut2 eOut3 gOut m) ! length (leptons m) = leptons m ! eIn0
    \<and> leptons (eeBremsstrahlung_at_return pkg eIn0 eIn1 eOut2 eOut3 gOut m) ! (length (leptons m) + 1) = leptons m ! eIn1
    \<and> leptons (eeBremsstrahlung_at_return pkg eIn0 eIn1 eOut2 eOut3 gOut m) ! (length (leptons m) + 2) = leptons m ! eOut2
    \<and> leptons (eeBremsstrahlung_at_return pkg eIn0 eIn1 eOut2 eOut3 gOut m) ! (length (leptons m) + 3) = leptons m ! eOut3
    \<and> photons (eeBremsstrahlung_at_return pkg eIn0 eIn1 eOut2 eOut3 gOut m) ! length (photons m) = photons m ! gOut"
proof -
  let ?body = "eeBremsstrahlung_body pkg (top_of m) eIn0 eIn1 eOut2 eOut3 gOut"
  have rest: "list_all (\<lambda>s. \<not> stores_particle s) (drop 5 ?body)"
    by (simp add: eeBremsstrahlung_body_def Let_def)
  have copies: "take 5 ?body =
     [StoreLepton (length (leptons m)) (\<lambda>m. leptons m ! eIn0),
      StoreLepton (length (leptons m) + 1) (\<lambda>m. leptons m ! eIn1),
      StoreLepton (length (leptons m) + 2) (\<lambda>m. leptons m ! eOut2),
      StoreLepton (length (leptons m) + 3) (\<lambda>m. leptons m ! eOut3),
      StorePhoton (length (photons m)) (\<lambda>m. photons m ! gOut)]"
    by (simp add: eeBremsstrahlung_body_def Let_def top_of_def)
  show ?thesis
    unfolding eeBremsstrahlung_at_return_def particles_after_copies [OF rest] copies
    using assms by (simp add: enter_particles nth_append nth_list_update)
qed

lemma call_frame:
  assumes "list_all (local_to (top_of m)) body"
  shows "leave (top_of m) (run body (enter n1 n2 n3 n4 n5 n6 n7 m)) = m"
  by (simp add: leave_run [OF assms] leave_enter)

text \<open>
  C8. The particle arguments of each reaction function are references, addresses in the
  memory of the caller. The body copies every one of them into a local particle and from
  then on stores into locals only: in whatever memory and with whatever references it is
  called, the memory after the return of each of the five functions is the memory before
  the call, particle for particle and for the objects of every other type as well. Nothing
  is left behind by a call, so a second call finds what the first one found. When the
  references refer to live particles, the local particles hold the values of the
  arguments, from their construction to the return.
\<close>

theorem reaction_calls_leave_memory_unchanged:
  "snd (Compton_call pkg gIn eIn gOut eOut m) = m
   \<and> snd (Bremsstrahlung_call pkg eIn eOut gOut m) = m
   \<and> snd (PairProduction_call pkg gIn eOut pOut m) = m
   \<and> snd (TripletProduction_call pkg gIn eIn pOut eOut2 eOut3 m) = m
   \<and> snd (eeBremsstrahlung_call pkg eIn0 eIn1 eOut2 eOut3 gOut m) = m
   \<and> Compton_call pkg gIn eIn gOut eOut (snd (Compton_call pkg gIn eIn gOut eOut m)) = Compton_call pkg gIn eIn gOut eOut m
   \<and> Bremsstrahlung_call pkg eIn eOut gOut (snd (Bremsstrahlung_call pkg eIn eOut gOut m)) = Bremsstrahlung_call pkg eIn eOut gOut m
   \<and> PairProduction_call pkg gIn eOut pOut (snd (PairProduction_call pkg gIn eOut pOut m)) = PairProduction_call pkg gIn eOut pOut m
   \<and> TripletProduction_call pkg gIn eIn pOut eOut2 eOut3 (snd (TripletProduction_call pkg gIn eIn pOut eOut2 eOut3 m)) = TripletProduction_call pkg gIn eIn pOut eOut2 eOut3 m
   \<and> eeBremsstrahlung_call pkg eIn0 eIn1 eOut2 eOut3 gOut (snd (eeBremsstrahlung_call pkg eIn0 eIn1 eOut2 eOut3 gOut m)) = eeBremsstrahlung_call pkg eIn0 eIn1 eOut2 eOut3 gOut m
   \<and> (gIn < length (photons m)
      \<and> eIn < length (leptons m)
      \<and> gOut < length (photons m)
      \<and> eOut < length (leptons m) \<longrightarrow>
        photons (Compton_at_return pkg gIn eIn gOut eOut m) ! length (photons m) = photons m ! gIn
        \<and> leptons (Compton_at_return pkg gIn eIn gOut eOut m) ! length (leptons m) = leptons m ! eIn
        \<and> photons (Compton_at_return pkg gIn eIn gOut eOut m) ! (length (photons m) + 1) = photons m ! gOut
        \<and> leptons (Compton_at_return pkg gIn eIn gOut eOut m) ! (length (leptons m) + 1) = leptons m ! eOut)
   \<and> (eIn < length (leptons m)
      \<and> gOut < length (photons m)
      \<and> eOut < length (leptons m) \<longrightarrow>
        leptons (Bremsstrahlung_at_return pkg eIn eOut gOut m) ! length (leptons m) = leptons m ! eIn
        \<and> photons (Bremsstrahlung_at_return pkg eIn eOut gOut m) ! length (photons m) = photons m ! gOut
        \<and> leptons (Bremsstrahlung_at_return pkg eIn eOut gOut m) ! (length (leptons m) + 1) = leptons m ! eOut)
   \<and> (gIn < length (photons m)
      \<and> eOut < length (leptons m)
      \<and> pOut < length (leptons m) \<longrightarrow>
        photons (PairProduction_at_return pkg gIn eOut pOut m) ! length (photons m) = photons m ! gIn
        \<and> leptons (PairProduction_at_return pkg gIn eOut pOut m) ! length (leptons m) = leptons m ! eOut
        \<and> leptons (PairProduction_at_return pkg gIn eOut pOut m) ! (length (leptons m) + 1) = leptons m ! pOut)
   \<and> (gIn < length (photons m)
      \<and> eIn < length (leptons m)
      \<and> pOut < length (leptons m)
      \<and> eOut2 < length (leptons m)
      \<and> eOut3 < length (leptons m) \<longrightarrow>
        photons (TripletProduction_at_return pkg gIn eIn pOut eOut2 eOut3 m) ! length (photons m) = photons m ! gIn
        \<and> leptons (TripletProduction_at_return pkg gIn eIn pOut eOut2 eOut3 m) ! length (leptons m) = leptons m ! eIn
        \<and> leptons (TripletProduction_at_return pkg gIn eIn pOut eOut2 eOut3 m) ! (length (leptons m) + 1) = leptons m ! pOut
        \<and> leptons (TripletProduction_at_return pkg gIn eIn pOut eOut2 eOut3 m) ! (length (leptons m) + 2) = leptons m ! eOut2
        \<and> leptons (TripletProduction_at_return pkg gIn eIn pOut eOut2 eOut3 m) ! (length (leptons m) + 3) = leptons m ! eOut3)
   \<and> (eIn0 < length (leptons m)
      \<and> eIn1 < length (leptons m)
      \<and> eOut2 < length (leptons m)
      \<and> eOut3 < length (leptons m)
      \<and> gOut < length (photons m) \<longrightarrow>
        leptons (eeBremsstrahlung_at_return pkg eIn0 eIn1 eOut2 eOut3 gOut m) ! length (leptons m) = leptons m ! eIn0
        \<and> leptons (eeBremsstrahlung_at_return pkg eIn0 eIn1 eOut2 eOut3 gOut m) ! (length (leptons m) + 1) = leptons m ! eIn1
        \<and> leptons (eeBremsstrahlung_at_return pkg eIn0 eIn1 eOut2 eOut3 gOut m) ! (length (leptons m) + 2) = leptons m ! eOut2
        \<and> leptons (eeBremsstrahlung_at_return pkg eIn0 eIn1 eOut2 eOut3 gOut m) ! (length (leptons m) + 3) = leptons m ! eOut3
        \<and> photons (eeBremsstrahlung_at_return pkg eIn0 eIn1 eOut2 eOut3 gOut m) ! length (photons m) = photons m ! gOut)"
proof -
  have frames:
    "snd (Compton_call pkg gIn eIn gOut eOut m) = m"
    "snd (Bremsstrahlung_call pkg eIn eOut gOut m) = m"
    "snd (PairProduction_call pkg gIn eOut pOut m) = m"
    "snd (TripletProduction_call pkg gIn eIn pOut eOut2 eOut3 m) = m"
    "snd (eeBremsstrahlung_call pkg eIn0 eIn1 eOut2 eOut3 gOut m) = m"
    for pkg gIn eIn gOut eOut pOut eOut2 eOut3 eIn0 eIn1 m
    by (simp_all add: Compton_call_def Compton_at_return_def Compton_body_local
          Bremsstrahlung_call_def Bremsstrahlung_at_return_def Bremsstrahlung_body_local
          PairProduction_call_def PairProduction_at_return_def PairProduction_body_local
          TripletProduction_call_def TripletProduction_at_return_def TripletProduction_body_local
          eeBremsstrahlung_call_def eeBremsstrahlung_at_return_def eeBremsstrahlung_body_local
          call_frame Let_def)
  show ?thesis
    by (intro conjI impI; (elim conjE)?)
       (simp_all only: frames Compton_copies Bremsstrahlung_copies PairProduction_copies
          TripletProduction_copies eeBremsstrahlung_copies simp_thms)
qed


theorem reaction_calls_leave_memory_unchanged_witness:
  "snd (Compton_call example_package 0 0 0 1 ex_memory) = ex_memory
   \<and> snd (Bremsstrahlung_call example_package 0 2 0 ex_memory) = ex_memory
   \<and> snd (PairProduction_call example_package 0 2 1 ex_memory) = ex_memory
   \<and> snd (TripletProduction_call example_package 0 0 1 2 3 ex_memory) = ex_memory
   \<and> snd (eeBremsstrahlung_call example_package 0 1 2 3 0 ex_memory) = ex_memory
   \<and> photons (Compton_at_return example_package 0 0 0 1 ex_memory) ! 1 = ex_g
   \<and> leptons (Compton_at_return example_package 0 0 0 1 ex_memory) ! 4 = ex_e0
   \<and> photons (Compton_at_return example_package 0 0 0 1 ex_memory) ! 2 = ex_g
   \<and> leptons (Compton_at_return example_package 0 0 0 1 ex_memory) ! 5 = ex_e1
   \<and> leptons (Bremsstrahlung_at_return example_package 0 2 0 ex_memory) ! 5 = ex_e2
   \<and> leptons (PairProduction_at_return example_package 0 2 1 ex_memory) ! 4 = ex_e2
   \<and> leptons (TripletProduction_at_return example_package 0 0 1 2 3 ex_memory) ! 7 = ex_e3
   \<and> photons (eeBremsstrahlung_at_return example_package 0 1 2 3 0 ex_memory) ! 1 = ex_g"
proof -
  have len: "length (photons ex_memory) = 1" "length (leptons ex_memory) = 4"
    and nth: "photons ex_memory ! 0 = ex_g" "leptons ex_memory ! 0 = ex_e0"
      "leptons ex_memory ! 1 = ex_e1" "leptons ex_memory ! 2 = ex_e2"
      "leptons ex_memory ! 3 = ex_e3"
    by (simp_all add: ex_memory_def)
  note c = reaction_calls_leave_memory_unchanged
             [where pkg = example_package and m = ex_memory and gIn = 0 and eIn = 0
                and gOut = 0 and eOut = 1 and pOut = 1 and ?eOut2.0 = 2 and ?eOut3.0 = 3
                and ?eIn0.0 = 0 and ?eIn1.0 = 1]
  note b = reaction_calls_leave_memory_unchanged
             [where pkg = example_package and m = ex_memory and gIn = 0 and eIn = 0
                and gOut = 0 and eOut = 2 and pOut = 1 and ?eOut2.0 = 2 and ?eOut3.0 = 3
                and ?eIn0.0 = 0 and ?eIn1.0 = 1]
  from c len nth have 1:
    "snd (Compton_call example_package 0 0 0 1 ex_memory) = ex_memory"
    "photons (Compton_at_return example_package 0 0 0 1 ex_memory) ! 1 = ex_g"
    "leptons (Compton_at_return example_package 0 0 0 1 ex_memory) ! 4 = ex_e0"
    "photons (Compton_at_return example_package 0 0 0 1 ex_memory) ! 2 = ex_g"
    "leptons (Compton_at_return example_package 0 0 0 1 ex_memory) ! 5 = ex_e1"
    by (simp_all add: eval_nat_numeral)
  from b len nth have 2:
    "snd (Bremsstrahlung_call example_package 0 2 0 ex_memory) = ex_memory"
    "snd (PairProduction_call example_package 0 2 1 ex_memory) = ex_memory"
    "leptons (Bremsstrahlung_at_return example_package 0 2 0 ex_memory) ! 5 = ex_e2"
    "leptons (PairProduction_at_return example_package 0 2 1 ex_memory) ! 4 = ex_e2"
    by (simp_all add: eval_nat_numeral)
  from b len nth have 3:
    "snd (TripletProduction_call example_package 0 0 1 2 3 ex_memory) = ex_memory"
    "snd (eeBremsstrahlung_call example_package 0 1 2 3 0 ex_memory) = ex_memory"
    "leptons (TripletProduction_at_return example_package 0 0 1 2 3 ex_memory) ! 7 = ex_e3"
    "photons (eeBremsstrahlung_at_return example_package 0 1 2 3 0 ex_memory) ! 1 = ex_g"
    by (simp_all add: eval_nat_numeral)
  from 1 2 3 show ?thesis by blast
qed

section \<open>Properties of the amplitudes with non-finite values\<close>

lemma xcomplex_arith [simp]:
  "NonFiniteC + a = NonFiniteC" "a + NonFiniteC = NonFiniteC"
  "NonFiniteC - a = NonFiniteC" "a - NonFiniteC = NonFiniteC"
  "NonFiniteC * a = NonFiniteC" "a * NonFiniteC = NonFiniteC"
  "FiniteC x + FiniteC y = FiniteC (x + y)"
  "FiniteC x - FiniteC y = FiniteC (x - y)"
  "FiniteC x * FiniteC y = FiniteC (x * y)"
  by (simp_all add: plus_xcomplex_def minus_xcomplex_def times_xcomplex_def split: xcomplex.splits)

lemma xc_scale_simps [simp]:
  "xc_scale NonFiniteC c = NonFiniteC" "xc_scale a NonFinite = NonFiniteC"
  "xc_scale (FiniteC x) (Finite r) = FiniteC (x * of_real r)"
  by (simp_all add: xc_scale_def split: xcomplex.splits)

lemma xdm_nonfinite [simp]:
  "xdm_div_scalar A 0 = (\<lambda>i j. NonFiniteC)"
  "xdm_times (\<lambda>i j. NonFiniteC) B = (\<lambda>i j. NonFiniteC)"
  "xdm_times B (\<lambda>i j. NonFiniteC) = (\<lambda>i j. NonFiniteC)"
  "xdm_plus (\<lambda>i j. NonFiniteC) B = (\<lambda>i j. NonFiniteC)"
  "xdm_plus B (\<lambda>i j. NonFiniteC) = (\<lambda>i j. NonFiniteC)"
  "xdm_times_scalar (\<lambda>i j. NonFiniteC) c = (\<lambda>i j. NonFiniteC)"
  "xdm_times_scalar B NonFinite = (\<lambda>i j. NonFiniteC)"
  "xdm_apply (\<lambda>i j. NonFiniteC) u = (\<lambda>i. NonFiniteC)"
  "xSpinorScalarProd pkg u (\<lambda>i. NonFiniteC) = NonFiniteC"
  by (simp_all add: xdm_div_scalar_def xc_divide_def xdm_times_def xdm_plus_def
        xdm_times_scalar_def xdm_apply_def xSpinorScalarProd_def)

lemma x_inverse_0 [simp]: "x_inverse 0 = NonFinite"
  by (simp add: x_inverse_def)

lemma for_loop_4: "for_loop 4 body acc = body 3 (body 2 (body 1 (body 0 acc)))"
  by (simp add: for_loop_def upt4)






text \<open>
  While every denominator is different from zero the amplitudes are the finite values of
  the model in exact arithmetic.
\<close>

lemma xdm_finite [simp]:
  "c \<noteq> 0 \<Longrightarrow> xdm_div_scalar A c = finite_matrix (dm_div_scalar A c)"
  "xdm_times (finite_matrix A) (finite_matrix B) = finite_matrix (dm_times A B)"
  "xdm_plus (finite_matrix A) (finite_matrix B) = finite_matrix (dm_plus A B)"
  "xdm_times_scalar (finite_matrix A) (Finite r) = finite_matrix (dm_times_scalar A r)"
  "xdm_apply (finite_matrix A) u = (\<lambda>i. FiniteC (dm_apply A u i))"
  by (simp_all add: xdm_div_scalar_def xc_divide_def dm_div_scalar_def finite_matrix_def
        xdm_times_def dm_times_def xdm_plus_def dm_plus_def xdm_times_scalar_def
        dm_times_scalar_def xdm_apply_def dm_apply_def)

lemma xSpinorScalarProd_finite [simp]:
  "xSpinorScalarProd pkg u (\<lambda>i. FiniteC (v i)) = FiniteC (SpinorScalarProd pkg u v)"
  by (simp add: xSpinorScalarProd_def finite_part_def)

lemma x_inverse_finite [simp]: "d \<noteq> 0 \<Longrightarrow> x_inverse d = Finite (1 / d)"
  by (simp add: x_inverse_def)

lemma Compton_finite:
  assumes "2 * ScalarProd (TLepton.Mom eI) (TPhoton.Mom gI) \<noteq> 0"
      and "- 2 * ScalarProd (TLepton.Mom eI) (TPhoton.Mom gF) \<noteq> 0"
  shows "Compton_invAmp_x pkg gI eI gF eF hi hf gi gf
           = FiniteC (Compton_invAmp pkg gI eI gF eF hi hf gi gf)"
  using assms by (simp add: Compton_invAmp_x_def Compton_invAmp_def Let_def)

lemma Bremsstrahlung_finite:
  assumes "InvariantSqr (Bremsstrahlung_qRecoil eI eF gF)
             - 2 * ScalarProd (Bremsstrahlung_qRecoil eI eF gF) (TLepton.Mom eI) \<noteq> 0"
      and "InvariantSqr (Bremsstrahlung_qRecoil eI eF gF)
             + 2 * ScalarProd (Bremsstrahlung_qRecoil eI eF gF) (TLepton.Mom eF) \<noteq> 0"
  shows "Bremsstrahlung_invAmp_x pkg eI eF gF hi hf gf
           = FiniteC (Bremsstrahlung_invAmp pkg eI eF gF hi hf gf)"
  using assms by (simp add: Bremsstrahlung_invAmp_x_def Bremsstrahlung_invAmp_def Let_def)

lemma PairProduction_finite:
  assumes "- 2 * ScalarProd (TPhoton.Mom gI) (TLepton.Mom eF) \<noteq> 0"
      and "- 2 * ScalarProd (TPhoton.Mom gI) (TLepton.Mom pF) \<noteq> 0"
  shows "PairProduction_invAmp_x pkg gI eF pF hi hf gi
           = FiniteC (PairProduction_invAmp pkg gI eF pF hi hf gi)"
  using assms by (simp add: PairProduction_invAmp_x_def PairProduction_invAmp_def Let_def)

lemma TripletProduction_finite:
  assumes "2 * ScalarProd (TPhoton.Mom g0) (TLepton.Mom e0) \<noteq> 0"
      and "- 2 * ScalarProd (TPhoton.Mom g0) (TLepton.Mom e2) \<noteq> 0"
      and "- 2 * ScalarProd (TPhoton.Mom g0) (TLepton.Mom e1) \<noteq> 0"
      and "- 2 * ScalarProd (TPhoton.Mom g0) (TLepton.Mom e3) \<noteq> 0"
      and "InvariantSqr (op_plus (TLepton.Mom e1) (TLepton.Mom e3)) \<noteq> 0"
      and "InvariantSqr (op_minus (TLepton.Mom e0) (TLepton.Mom e2)) \<noteq> 0"
      and "InvariantSqr (op_plus (TLepton.Mom e1) (TLepton.Mom e2)) \<noteq> 0"
      and "InvariantSqr (op_minus (TLepton.Mom e0) (TLepton.Mom e3)) \<noteq> 0"
  shows "TripletProduction_invAmp_x pkg g0 e0 e1 e2 e3 h0 h1 h2 h3 gi
           = FiniteC (TripletProduction_invAmp pkg g0 e0 e1 e2 e3 h0 h1 h2 h3 gi)"
  using assms
  by (simp add: TripletProduction_invAmp_x_def TripletProduction_eprop_x_def
        TripletProduction_gprop_x_def TripletProduction_chains_x_def
        TripletProduction_invAmp_def TripletProduction_eprop_def
        TripletProduction_gprop_def TripletProduction_chains_def Let_def for_loop_4
        zero_xcomplex_def)

lemma eeBremsstrahlung_finite:
  assumes "- 2 * ScalarProd (TPhoton.Mom g0) (TLepton.Mom e0) \<noteq> 0"
      and "2 * ScalarProd (TPhoton.Mom g0) (TLepton.Mom e2) \<noteq> 0"
      and "- 2 * ScalarProd (TPhoton.Mom g0) (TLepton.Mom e1) \<noteq> 0"
      and "2 * ScalarProd (TPhoton.Mom g0) (TLepton.Mom e3) \<noteq> 0"
      and "InvariantSqr (op_minus (TLepton.Mom e1) (TLepton.Mom e3)) \<noteq> 0"
      and "InvariantSqr (op_minus (TLepton.Mom e0) (TLepton.Mom e2)) \<noteq> 0"
      and "InvariantSqr (op_minus (TLepton.Mom e1) (TLepton.Mom e2)) \<noteq> 0"
      and "InvariantSqr (op_minus (TLepton.Mom e0) (TLepton.Mom e3)) \<noteq> 0"
  shows "eeBremsstrahlung_invAmp_x pkg e0 e1 e2 e3 g0 h0 h1 h2 h3 gf
           = FiniteC (eeBremsstrahlung_invAmp pkg e0 e1 e2 e3 g0 h0 h1 h2 h3 gf)"
  using assms
  by (simp add: eeBremsstrahlung_invAmp_x_def eeBremsstrahlung_eprop_x_def
        eeBremsstrahlung_gprop_x_def eeBremsstrahlung_chains_x_def
        eeBremsstrahlung_invAmp_def eeBremsstrahlung_eprop_def
        eeBremsstrahlung_gprop_def eeBremsstrahlung_chains_def Let_def for_loop_4
        zero_xcomplex_def)

lemma x_last_statements [simp]:
  "xcnj NonFiniteC = NonFiniteC" "xcnj (FiniteC x) = FiniteC (cnj x)"
  "xRe NonFiniteC = NonFinite" "xRe (FiniteC x) = Finite (Re x)"
  "xd_times NonFinite b = NonFinite" "xd_times a NonFinite = NonFinite"
  "xd_times (Finite r) (Finite s) = Finite (r * s)"
  "xd_divide a 0 = NonFinite" "xd_divide NonFinite d = NonFinite"
  "d \<noteq> 0 \<Longrightarrow> xd_divide (Finite r) d = Finite (r / d)"
  by (simp_all add: xcnj_def xRe_def xd_times_def xd_divide_def split: xdouble.splits)

lemma for_loop_2: "for_loop 2 body acc = body 1 (body 0 acc)"
  by (simp add: for_loop_def upt_rec)


lemma Bremsstrahlung_ampSquared_finite:
  "Bremsstrahlung_ampSquared_x (\<lambda>hi hf gf. FiniteC (invAmp hi hf gf)) eI eF gF
     = FiniteC (Bremsstrahlung_ampSquared invAmp eI eF gF)"
  by (simp add: Bremsstrahlung_ampSquared_x_def Bremsstrahlung_ampSquared_def for_loop_2
        zero_xcomplex_def)


lemma PairProduction_ampSquared_finite:
  "PairProduction_ampSquared_x (\<lambda>hi hf gi. FiniteC (invAmp hi hf gi)) gI eF pF
     = FiniteC (PairProduction_ampSquared invAmp gI eF pF)"
  by (simp add: PairProduction_ampSquared_x_def PairProduction_ampSquared_def for_loop_2
        zero_xcomplex_def)



lemma Bremsstrahlung_value_finite:
  assumes "InvariantSqr (Bremsstrahlung_qRecoil eI eF gF)
             - 2 * ScalarProd (Bremsstrahlung_qRecoil eI eF gF) (TLepton.Mom eI) \<noteq> 0"
      and "InvariantSqr (Bremsstrahlung_qRecoil eI eF gF)
             + 2 * ScalarProd (Bremsstrahlung_qRecoil eI eF gF) (TLepton.Mom eF) \<noteq> 0"
      and "InvariantSqr (Bremsstrahlung_qRecoil eI eF gF) \<noteq> 0"
      and "component (TLepton.Mom eI) 0 \<noteq> 0"
  shows "Bremsstrahlung_x pkg eI eF gF = Finite (Bremsstrahlung pkg eI eF gF)"
proof -
  have "Bremsstrahlung_invAmp_x pkg eI eF gF
          = (\<lambda>hi hf gf. FiniteC (Bremsstrahlung_invAmp pkg eI eF gF hi hf gf))"
    by (intro ext Bremsstrahlung_finite assms)
  with assms(3,4) show ?thesis
    by (simp add: Bremsstrahlung_x_def Bremsstrahlung_def Let_def
          Bremsstrahlung_ampSquared_finite sqr_def PI_value_def)
qed

lemma PairProduction_value_finite:
  assumes "- 2 * ScalarProd (TPhoton.Mom gI) (TLepton.Mom eF) \<noteq> 0"
      and "- 2 * ScalarProd (TPhoton.Mom gI) (TLepton.Mom pF) \<noteq> 0"
      and "InvariantSqr (PairProduction_qRecoil gI eF pF) \<noteq> 0"
      and "component (TPhoton.Mom gI) 0 \<noteq> 0"
  shows "PairProduction_x pkg gI eF pF = Finite (PairProduction pkg gI eF pF)"
proof -
  have "PairProduction_invAmp_x pkg gI eF pF
          = (\<lambda>hi hf gi. FiniteC (PairProduction_invAmp pkg gI eF pF hi hf gi))"
    by (intro ext PairProduction_finite assms)
  with assms(3,4) show ?thesis
    by (simp add: PairProduction_x_def PairProduction_def Let_def
          PairProduction_ampSquared_finite sqr_def PI_value_def)
qed






end
